theory Spec2Isabelle
  imports Main "HOL-Library.Word" "HOL-Library.Sublist"
begin

section \<open>Negative-path cases of the benchmark session (bench/session/wrongapp.go)\<close>

text \<open>
  The file under verification holds seven methods of \<open>*Session\<close>. Each builds one
  deliberately invalid request, sends it, and checks that the application rejects it:
  status first (\<open>checkStatusCode\<close>), then the JSON error envelope, then, for three of
  the cases, the error message itself.

  Go strings are byte sequences, so they are modelled as \<open>string\<close> (lists of 8-bit
  characters); the Japanese literals of the source are written out as their UTF-8 bytes.
  Go's \<open>int\<close> and \<open>int64\<close> arguments are only carried around, never computed with, and
  are modelled as \<open>int\<close>.
\<close>

subsection \<open>Constants and string literals\<close>

definition ItemMinPrice :: int where
  "ItemMinPrice = 100"

definition ItemMaxPrice :: int where
  "ItemMaxPrice = 1000000"

text \<open>\<open>ItemPriceErrMsg\<close>, 31 code points, 69 bytes of UTF-8:
  U+5546 U+54C1 U+4FA1 U+683C U+306F U+0031 U+0030 U+0030 U+5186 U+4EE5 U+4E0A U+3001 U+0031 U+002C U+0030 U+0030 U+0030 U+002C U+0030 U+0030 U+0030 U+5186 U+4EE5 U+4E0B U+306B U+3057 U+3066 U+304F U+3060 U+3055 U+3044\<close>

definition ItemPriceErrMsg :: string where
  "ItemPriceErrMsg = [
     CHR 0xE5, CHR 0x95, CHR 0x86, CHR 0xE5, CHR 0x93, CHR 0x81, CHR 0xE4, CHR 0xBE,
     CHR 0xA1, CHR 0xE6, CHR 0xA0, CHR 0xBC, CHR 0xE3, CHR 0x81, CHR 0xAF, CHR 0x31,
     CHR 0x30, CHR 0x30, CHR 0xE5, CHR 0x86, CHR 0x86, CHR 0xE4, CHR 0xBB, CHR 0xA5,
     CHR 0xE4, CHR 0xB8, CHR 0x8A, CHR 0xE3, CHR 0x80, CHR 0x81, CHR 0x31, CHR 0x2C,
     CHR 0x30, CHR 0x30, CHR 0x30, CHR 0x2C, CHR 0x30, CHR 0x30, CHR 0x30, CHR 0xE5,
     CHR 0x86, CHR 0x86, CHR 0xE4, CHR 0xBB, CHR 0xA5, CHR 0xE4, CHR 0xB8, CHR 0x8B,
     CHR 0xE3, CHR 0x81, CHR 0xAB, CHR 0xE3, CHR 0x81, CHR 0x97, CHR 0xE3, CHR 0x81,
     CHR 0xA6, CHR 0xE3, CHR 0x81, CHR 0x8F, CHR 0xE3, CHR 0x81, CHR 0xA0, CHR 0xE3,
     CHR 0x81, CHR 0x95, CHR 0xE3, CHR 0x81, CHR 0x84]"

text \<open>The tail of the "request failed" diagnostics
  (U+30EA U+30AF U+30A8 U+30B9 U+30C8 U+306B U+5931 U+6557 U+3057 U+307E U+3057 U+305F).\<close>

definition msg_request_failed :: string where
  "msg_request_failed = [
     CHR 0xE3, CHR 0x83, CHR 0xAA, CHR 0xE3, CHR 0x82, CHR 0xAF, CHR 0xE3, CHR 0x82,
     CHR 0xA8, CHR 0xE3, CHR 0x82, CHR 0xB9, CHR 0xE3, CHR 0x83, CHR 0x88, CHR 0xE3,
     CHR 0x81, CHR 0xAB, CHR 0xE5, CHR 0xA4, CHR 0xB1, CHR 0xE6, CHR 0x95, CHR 0x97,
     CHR 0xE3, CHR 0x81, CHR 0x97, CHR 0xE3, CHR 0x81, CHR 0xBE, CHR 0xE3, CHR 0x81,
     CHR 0x97, CHR 0xE3, CHR 0x81, CHR 0x9F]"

text \<open>The tail of the "JSON decoding failed" diagnostics
  (J S O N U+30C7 U+30B3 U+30FC U+30C9 U+306B U+5931 U+6557 U+3057 U+307E U+3057 U+305F).\<close>

definition msg_decode_failed :: string where
  "msg_decode_failed = [
     CHR 0x4A, CHR 0x53, CHR 0x4F, CHR 0x4E, CHR 0xE3, CHR 0x83, CHR 0x87, CHR 0xE3,
     CHR 0x82, CHR 0xB3, CHR 0xE3, CHR 0x83, CHR 0xBC, CHR 0xE3, CHR 0x83, CHR 0x89,
     CHR 0xE3, CHR 0x81, CHR 0xAB, CHR 0xE5, CHR 0xA4, CHR 0xB1, CHR 0xE6, CHR 0x95,
     CHR 0x97, CHR 0xE3, CHR 0x81, CHR 0x97, CHR 0xE3, CHR 0x81, CHR 0xBE, CHR 0xE3,
     CHR 0x81, CHR 0x97, CHR 0xE3, CHR 0x81, CHR 0x9F]"

text \<open>The diagnostic of \<open>SellWithWrongPrice\<close> after a message mismatch, without its
  \<open>POST /sell:\<close> prefix. It shares its first 48 bytes with \<open>ItemPriceErrMsg\<close> and then
  ends differently.\<close>

definition msg_price_range :: string where
  "msg_price_range = [
     CHR 0xE5, CHR 0x95, CHR 0x86, CHR 0xE5, CHR 0x93, CHR 0x81, CHR 0xE4, CHR 0xBE,
     CHR 0xA1, CHR 0xE6, CHR 0xA0, CHR 0xBC, CHR 0xE3, CHR 0x81, CHR 0xAF, CHR 0x31,
     CHR 0x30, CHR 0x30, CHR 0xE5, CHR 0x86, CHR 0x86, CHR 0xE4, CHR 0xBB, CHR 0xA5,
     CHR 0xE4, CHR 0xB8, CHR 0x8A, CHR 0xE3, CHR 0x80, CHR 0x81, CHR 0x31, CHR 0x2C,
     CHR 0x30, CHR 0x30, CHR 0x30, CHR 0x2C, CHR 0x30, CHR 0x30, CHR 0x30, CHR 0xE5,
     CHR 0x86, CHR 0x86, CHR 0xE4, CHR 0xBB, CHR 0xA5, CHR 0xE4, CHR 0xB8, CHR 0x8B,
     CHR 0xE3, CHR 0x81, CHR 0x97, CHR 0xE3, CHR 0x81, CHR 0x8B, CHR 0xE5, CHR 0x87,
     CHR 0xBA, CHR 0xE5, CHR 0x93, CHR 0x81, CHR 0xE3, CHR 0x81, CHR 0xA7, CHR 0xE3,
     CHR 0x81, CHR 0x8D, CHR 0xE3, CHR 0x81, CHR 0xBE, CHR 0xE3, CHR 0x81, CHR 0x9B,
     CHR 0xE3, CHR 0x82, CHR 0x93]"

text \<open>What \<open>BuyWithFailed\<close> appends to the expected message in its mismatch diagnostic
  (U+3068 U+3044 U+3046 U+30A8 U+30E9 U+30FC U+3067 U+306F U+3042 U+308A U+307E U+305B U+3093).\<close>

definition msg_not_that_error :: string where
  "msg_not_that_error = [
     CHR 0xE3, CHR 0x81, CHR 0xA8, CHR 0xE3, CHR 0x81, CHR 0x84, CHR 0xE3, CHR 0x81,
     CHR 0x86, CHR 0xE3, CHR 0x82, CHR 0xA8, CHR 0xE3, CHR 0x83, CHR 0xA9, CHR 0xE3,
     CHR 0x83, CHR 0xBC, CHR 0xE3, CHR 0x81, CHR 0xA7, CHR 0xE3, CHR 0x81, CHR 0xAF,
     CHR 0xE3, CHR 0x81, CHR 0x82, CHR 0xE3, CHR 0x82, CHR 0x8A, CHR 0xE3, CHR 0x81,
     CHR 0xBE, CHR 0xE3, CHR 0x81, CHR 0x9B, CHR 0xE3, CHR 0x82, CHR 0x93]"

text \<open>The message \<open>ShipWithWrongSeller\<close> compares with
  (U+6A29 U+9650 U+304C U+3042 U+308A U+307E U+305B U+3093).\<close>

definition msg_forbidden :: string where
  "msg_forbidden = [
     CHR 0xE6, CHR 0xA8, CHR 0xA9, CHR 0xE9, CHR 0x99, CHR 0x90, CHR 0xE3, CHR 0x81,
     CHR 0x8C, CHR 0xE3, CHR 0x81, CHR 0x82, CHR 0xE3, CHR 0x82, CHR 0x8A, CHR 0xE3,
     CHR 0x81, CHR 0xBE, CHR 0xE3, CHR 0x81, CHR 0x9B, CHR 0xE3, CHR 0x82, CHR 0x93]"

text \<open>The diagnostic of \<open>ShipWithWrongSeller\<close> after a message mismatch, without its
  \<open>POST /ship:\<close> prefix.\<close>

definition msg_forbidden_missing :: string where
  "msg_forbidden_missing = [
     CHR 0xE6, CHR 0xA8, CHR 0xA9, CHR 0xE9, CHR 0x99, CHR 0x90, CHR 0xE3, CHR 0x81,
     CHR 0x8C, CHR 0xE3, CHR 0x81, CHR 0xAA, CHR 0xE3, CHR 0x81, CHR 0x84, CHR 0xE3,
     CHR 0x82, CHR 0xA8, CHR 0xE3, CHR 0x83, CHR 0xA9, CHR 0xE3, CHR 0x83, CHR 0xBC,
     CHR 0xE3, CHR 0x81, CHR 0x8C, CHR 0xE7, CHR 0x99, CHR 0xBA, CHR 0xE7, CHR 0x94,
     CHR 0x9F, CHR 0xE3, CHR 0x81, CHR 0x97, CHR 0xE3, CHR 0x81, CHR 0xA6, CHR 0xE3,
     CHR 0x81, CHR 0x84, CHR 0xE3, CHR 0x81, CHR 0xBE, CHR 0xE3, CHR 0x81, CHR 0x9B,
     CHR 0xE3, CHR 0x82, CHR 0x93]"

text \<open>The status constants of \<open>net/http\<close> that the cases name.\<close>

definition StatusBadRequest :: int where
  "StatusBadRequest = 400"

definition StatusUnauthorized :: int where
  "StatusUnauthorized = 401"

definition StatusForbidden :: int where
  "StatusForbidden = 403"

definition StatusUnprocessableEntity :: int where
  "StatusUnprocessableEntity = 422"

subsection \<open>Errors and results\<close>

text \<open>
  Modelled from the spec: \<open>fails.NewError(err, msg)\<close> belongs to the package
  \<open>bench/fails\<close>, which is not among the sources, and so does the error that
  \<open>checkStatusCode\<close> returns. The spec describes a failure as a structured value
  "carrying the underlying cause and a human-readable diagnostic string";
  \<open>NewError\<close> is that value, a non-nil error holding both arguments as given (the
  cause may be nil, \<open>None\<close>). \<open>StatusCodeError actual expected\<close> is the error of a
  status mismatch.

  The other two constructors are Go's own \<open>error\<close> values. \<open>ExternalError\<close> stands
  for whatever error a collaborator hands back (request construction, transport, random
  source, the JSON decoder failing to read a value). \<open>UnmarshalTypeError\<close> is the
  decoder's complaint about a JSON value of the wrong kind and carries the kind's name.
\<close>

datatype goerror =
    ExternalError string
  | UnmarshalTypeError string
  | StatusCodeError int int
  | NewError "goerror option" string

text \<open>A case either panics or returns a Go \<open>error\<close>, where \<open>None\<close> is \<open>nil\<close>.\<close>

datatype outcome = Panic goerror | Return "goerror option"

subsection \<open>Requests, responses and the session\<close>

text \<open>
  The request bodies \<open>reqLogin\<close>, \<open>reqSell\<close>, \<open>reqBuy\<close> and \<open>reqShip\<close> are declared
  outside this file; their fields are the ones the struct literals of the cases set, in
  the order written here: account name and password; token, name, price, description,
  category; token, item, payment token; token, item. \<open>json.Marshal\<close> only changes
  their representation, and the body of a request is kept as the struct itself.
\<close>

datatype payload =
    reqLogin string string
  | reqSell string string int string int
  | reqBuy string int string
  | reqShip string int

text \<open>What \<open>newPostRequest\<close> is called with: target URL, path, content type, body.\<close>

type_synonym post = "string \<times> string \<times> string \<times> payload"

text \<open>
  What \<open>newPostRequest\<close> hands back on success and \<open>Do\<close> sends: the
  \<open>*http.Request\<close>, of which the cases use nothing but its identity.
\<close>

record request =
  URL :: string
  ContentType :: string
  Content :: payload

text \<open>
  JSON values, as \<open>encoding/json\<close> sees them once its scanner has read the text: a
  number keeps its literal, a string is already unquoted, an object keeps its members in
  order (duplicates included).
\<close>

datatype json =
    JNull
  | JBool bool
  | JNumber string
  | JString string
  | JArray "json list"
  | JObject "(string \<times> json) list"

text \<open>
  A response body is a stream. \<open>first_value\<close> is what a JSON decoder finds at its
  start: a value, or the error with which the decoder gives up (end of input, a syntax
  error, a failed read). \<open>first_bytes\<close> is the number of bytes the decoder takes from
  the stream for that, \<open>trailing\<close> the number of bytes of the stream after them.
\<close>

record body =
  first_value :: "goerror + json"
  first_bytes :: nat
  trailing :: nat

record response =
  StatusCode :: int
  Body :: body

text \<open>
  Modelled from the spec: the type \<open>Session\<close> is declared outside this file. The spec
  gives it two components, "the base target URL and the currently valid anti-forgery
  token"; the cases read the field \<open>csrfToken\<close>.
\<close>

record Session =
  csrfToken :: string
  targetURL :: string

text \<open>The struct the error envelope is decoded into.\<close>

record resErr =
  Error :: string

subsection \<open>The environment and the observable state\<close>

text \<open>
  \<open>crand.Read\<close> either fails or fills the slice; the bytes are given by position.
\<close>

datatype rand_outcome = ReadError goerror | ReadOk "nat \<Rightarrow> 8 word"

text \<open>
  The collaborators the cases call and this file does not define. \<open>newPostRequest\<close> and
  \<open>Do\<close> are methods on \<open>*Session\<close>, so each may fail and each hands back the session
  as it leaves it. \<open>status_diagnostic actual expected\<close> is the wording of
  \<open>checkStatusCode\<close>'s message, which the spec does not fix.
\<close>

record env =
  crand_Read :: rand_outcome
  newPostRequest :: "Session \<Rightarrow> post \<Rightarrow> (goerror + request) \<times> Session"
  Do :: "Session \<Rightarrow> request \<Rightarrow> (goerror + response) \<times> Session"
  status_diagnostic :: "int \<Rightarrow> int \<Rightarrow> string"

text \<open>
  The state a case runs in: the session behind the receiver \<open>s\<close>, the global
  \<open>ShareTargetURLs.AppURL\<close>, and a record of what the case has done so far: the calls
  of \<open>newPostRequest\<close> and of \<open>Do\<close>, the expected statuses passed to
  \<open>checkStatusCode\<close>, and, for the body of the response, the number of
  \<open>Decode\<close> calls, of bytes read and of \<open>Close\<close> calls.
\<close>

record world =
  session :: Session
  AppURL :: string
  built :: "post list"
  sent :: "request list"
  checked :: "int list"
  decodes :: nat
  bytes_read :: nat
  closes :: nat

definition call_newPostRequest :: "env \<Rightarrow> post \<Rightarrow> world \<Rightarrow> (goerror + request) \<times> world" where
  "call_newPostRequest e p w =
     (case newPostRequest e (session w) p of
        (r, s') \<Rightarrow> (r, w\<lparr>session := s', built := built w @ [p]\<rparr>))"

definition call_Do :: "env \<Rightarrow> request \<Rightarrow> world \<Rightarrow> (goerror + response) \<times> world" where
  "call_Do e req w =
     (case Do e (session w) req of
        (r, s') \<Rightarrow> (r, w\<lparr>session := s', sent := sent w @ [req]\<rparr>))"

text \<open>
  Modelled from the spec: \<open>checkStatusCode\<close> is defined outside this file. It
  "compares the actual status to the expected one; on mismatch, returns a failure
  carrying a diagnostic string (not the raw message) and does not attempt JSON
  decoding"; the mismatch is "surfaced with both values in the diagnostic".
\<close>

definition checkStatusCode :: "env \<Rightarrow> response \<Rightarrow> int \<Rightarrow> string \<times> goerror option" where
  "checkStatusCode e res expectedStatus =
     (if StatusCode res \<noteq> expectedStatus
      then (status_diagnostic e (StatusCode res) expectedStatus,
            Some (StatusCodeError (StatusCode res) expectedStatus))
      else ([], None))"

definition call_checkStatusCode :: "env \<Rightarrow> response \<Rightarrow> int \<Rightarrow> world \<Rightarrow> (string \<times> goerror option) \<times> world" where
  "call_checkStatusCode e res expectedStatus w =
     (checkStatusCode e res expectedStatus, w\<lparr>checked := checked w @ [expectedStatus]\<rparr>)"

subsection \<open>Decoding the error envelope\<close>

text \<open>
  \<open>json.NewDecoder(res.Body).Decode(&re)\<close> with \<open>re\<close> a fresh \<open>resErr\<close>, whose one field
  is tagged \<open>json:"error"\<close>. The decoder matches a key with the field when they are equal
  up to the case of ASCII letters. A string sets the field, \<open>null\<close> leaves it, any other
  kind of value leaves it and is an \<open>UnmarshalTypeError\<close>; the first such error is the
  one returned, after the whole object has been read. Keys that match no field are
  skipped. At the top, \<open>null\<close> changes nothing, and a value that is neither \<open>null\<close> nor
  an object is an \<open>UnmarshalTypeError\<close>.
\<close>

definition to_lower :: "char \<Rightarrow> char" where
  "to_lower c =
     (if 65 \<le> (of_char c :: nat) \<and> (of_char c :: nat) \<le> 90
      then char_of ((of_char c :: nat) + 32) else c)"

definition field_matches :: "string \<Rightarrow> bool" where
  "field_matches key \<longleftrightarrow> map to_lower key = ''error''"

fun kind :: "json \<Rightarrow> string" where
  "kind JNull = ''null''"
| "kind (JBool b) = ''bool''"
| "kind (JNumber n) = ''number''"
| "kind (JString s) = ''string''"
| "kind (JArray vs) = ''array''"
| "kind (JObject kvs) = ''object''"

fun saveError :: "goerror option \<Rightarrow> goerror \<Rightarrow> goerror option" where
  "saveError None err = Some err"
| "saveError (Some first) err = Some first"

fun store_member :: "resErr \<times> goerror option \<Rightarrow> string \<times> json \<Rightarrow> resErr \<times> goerror option" where
  "store_member (re, saved) (key, v) =
     (if \<not> field_matches key then (re, saved)
      else case v of
             JString s \<Rightarrow> (re\<lparr>Error := s\<rparr>, saved)
           | JNull \<Rightarrow> (re, saved)
           | _ \<Rightarrow> (re, saveError saved (UnmarshalTypeError (kind v))))"

fun unmarshal :: "json \<Rightarrow> resErr \<times> goerror option" where
  "unmarshal (JObject kvs) = foldl store_member (\<lparr>Error = []\<rparr>, None) kvs"
| "unmarshal JNull = (\<lparr>Error = []\<rparr>, None)"
| "unmarshal v = (\<lparr>Error = []\<rparr>, Some (UnmarshalTypeError (kind v)))"

definition decode_resErr :: "body \<Rightarrow> resErr \<times> goerror option" where
  "decode_resErr bd =
     (case first_value bd of
        Inl err \<Rightarrow> (\<lparr>Error = []\<rparr>, Some err)
      | Inr v \<Rightarrow> unmarshal v)"

definition Decode :: "response \<Rightarrow> world \<Rightarrow> (resErr \<times> goerror option) \<times> world" where
  "Decode res w =
     (decode_resErr (Body res),
      w\<lparr>decodes := decodes w + 1, bytes_read := bytes_read w + first_bytes (Body res)\<rparr>)"

text \<open>\<open>defer res.Body.Close()\<close>: the body is closed when the case returns.\<close>

fun deferred_Close :: "outcome \<times> world \<Rightarrow> outcome \<times> world" where
  "deferred_Close (r, w) = (r, w\<lparr>closes := closes w + 1\<rparr>)"

subsection \<open>The random token\<close>

text \<open>
  \<open>fmt.Sprintf("%x", k)\<close> writes every byte of \<open>k\<close> as two lower-case hexadecimal
  digits. \<open>secureRandomStr\<close> panics (\<open>Inl\<close>) when the random source fails. Its argument
  is a Go \<open>int\<close>; every call in this file passes 20, and it is a \<open>nat\<close> here.
\<close>

definition hexdigit :: "nat \<Rightarrow> char" where
  "hexdigit n = ''0123456789abcdef'' ! (n mod 16)"

definition hex_byte :: "8 word \<Rightarrow> string" where
  "hex_byte b = [hexdigit (unat b div 16), hexdigit (unat b mod 16)]"

definition sprintf_x :: "8 word list \<Rightarrow> string" where
  "sprintf_x k = concat (map hex_byte k)"

definition secureRandomStr :: "env \<Rightarrow> nat \<Rightarrow> goerror + string" where
  "secureRandomStr e b =
     (case crand_Read e of
        ReadError err \<Rightarrow> Inl err
      | ReadOk k \<Rightarrow> Inr (sprintf_x (map k [0..<b])))"

subsection \<open>The seven cases\<close>

text \<open>
  Each case follows the source line by line: build the body, \<open>newPostRequest\<close>, \<open>Do\<close>,
  \<open>defer res.Body.Close()\<close>, \<open>checkStatusCode\<close>, \<open>Decode\<close>, and for three of them the
  comparison of the decoded message. The error of \<open>json.Marshal\<close> is dropped by the
  source. In the message comparisons the source passes \<open>err\<close> to \<open>fails.NewError\<close>,
  which at that point is the \<open>nil\<close> that \<open>Decode\<close> returned.
\<close>

definition LoginWithWrongPassword ::
  "env \<Rightarrow> string \<Rightarrow> string \<Rightarrow> world \<Rightarrow> outcome \<times> world" where
  "LoginWithWrongPassword e accountName password w =
     (let b = reqLogin accountName password in
      case call_newPostRequest e (AppURL w, ''/login'', ''application/json'', b) w of
        (Inl err, w1) \<Rightarrow>
          (Return (Some (NewError (Some err) (''POST /login: '' @ msg_request_failed))), w1)
      | (Inr req, w1) \<Rightarrow>
          (case call_Do e req w1 of
             (Inl err, w2) \<Rightarrow>
               (Return (Some (NewError (Some err) (''POST /login: '' @ msg_request_failed))), w2)
           | (Inr res, w2) \<Rightarrow>
               deferred_Close
                 (case call_checkStatusCode e res StatusUnauthorized w2 of
                    ((msg, Some err), w3) \<Rightarrow>
                      (Return (Some (NewError (Some err) (''POST /login: '' @ msg))), w3)
                  | ((msg, None), w3) \<Rightarrow>
                      (case Decode res w3 of
                         ((re, err), w4) \<Rightarrow>
                           if err \<noteq> None
                           then (Return (Some (NewError err (''POST /login: '' @ msg_decode_failed))), w4)
                           else (Return None, w4)))))"

definition SellWithWrongCSRFToken ::
  "env \<Rightarrow> string \<Rightarrow> int \<Rightarrow> string \<Rightarrow> int \<Rightarrow> world \<Rightarrow> outcome \<times> world" where
  "SellWithWrongCSRFToken e name price description categoryID w =
     (case secureRandomStr e 20 of
        Inl err \<Rightarrow> (Panic err, w)
      | Inr token \<Rightarrow>
          (let b = reqSell token name price description categoryID in
           case call_newPostRequest e (AppURL w, ''/sell'', ''application/json'', b) w of
             (Inl err, w1) \<Rightarrow>
               (Return (Some (NewError (Some err) (''POST /sell: '' @ msg_request_failed))), w1)
           | (Inr req, w1) \<Rightarrow>
               (case call_Do e req w1 of
                  (Inl err, w2) \<Rightarrow>
                    (Return (Some (NewError (Some err) (''POST /sell: '' @ msg_request_failed))), w2)
                | (Inr res, w2) \<Rightarrow>
                    deferred_Close
                      (case call_checkStatusCode e res StatusUnprocessableEntity w2 of
                         ((msg, Some err), w3) \<Rightarrow>
                           (Return (Some (NewError (Some err) (''POST /sell: '' @ msg))), w3)
                       | ((msg, None), w3) \<Rightarrow>
                           (case Decode res w3 of
                              ((re, err), w4) \<Rightarrow>
                                if err \<noteq> None
                                then (Return (Some (NewError err (''POST /sell: '' @ msg_decode_failed))), w4)
                                else (Return None, w4))))))"

definition SellWithWrongPrice ::
  "env \<Rightarrow> string \<Rightarrow> int \<Rightarrow> string \<Rightarrow> int \<Rightarrow> world \<Rightarrow> outcome \<times> world" where
  "SellWithWrongPrice e name price description categoryID w =
     (let b = reqSell (csrfToken (session w)) name price description categoryID in
      case call_newPostRequest e (AppURL w, ''/sell'', ''application/json'', b) w of
        (Inl err, w1) \<Rightarrow>
          (Return (Some (NewError (Some err) (''POST /sell: '' @ msg_request_failed))), w1)
      | (Inr req, w1) \<Rightarrow>
          (case call_Do e req w1 of
             (Inl err, w2) \<Rightarrow>
               (Return (Some (NewError (Some err) (''POST /sell: '' @ msg_request_failed))), w2)
           | (Inr res, w2) \<Rightarrow>
               deferred_Close
                 (case call_checkStatusCode e res StatusBadRequest w2 of
                    ((msg, Some err), w3) \<Rightarrow>
                      (Return (Some (NewError (Some err) (''POST /sell: '' @ msg))), w3)
                  | ((msg, None), w3) \<Rightarrow>
                      (case Decode res w3 of
                         ((re, err), w4) \<Rightarrow>
                           if err \<noteq> None
                           then (Return (Some (NewError err (''POST /sell: '' @ msg_decode_failed))), w4)
                           else if Error re \<noteq> ItemPriceErrMsg
                           then (Return (Some (NewError err (''POST /sell: '' @ msg_price_range))), w4)
                           else (Return None, w4)))))"

definition BuyWithWrongCSRFToken ::
  "env \<Rightarrow> int \<Rightarrow> string \<Rightarrow> world \<Rightarrow> outcome \<times> world" where
  "BuyWithWrongCSRFToken e itemID paymentToken w =
     (case secureRandomStr e 20 of
        Inl err \<Rightarrow> (Panic err, w)
      | Inr token \<Rightarrow>
          (let b = reqBuy token itemID paymentToken in
           case call_newPostRequest e (AppURL w, ''/buy'', ''application/json'', b) w of
             (Inl err, w1) \<Rightarrow>
               (Return (Some (NewError (Some err) (''POST /buy: '' @ msg_request_failed))), w1)
           | (Inr req, w1) \<Rightarrow>
               (case call_Do e req w1 of
                  (Inl err, w2) \<Rightarrow>
                    (Return (Some (NewError (Some err) (''POST /buy: '' @ msg_request_failed))), w2)
                | (Inr res, w2) \<Rightarrow>
                    deferred_Close
                      (case call_checkStatusCode e res StatusUnprocessableEntity w2 of
                         ((msg, Some err), w3) \<Rightarrow>
                           (Return (Some (NewError (Some err) (''POST /buy: '' @ msg))), w3)
                       | ((msg, None), w3) \<Rightarrow>
                           (case Decode res w3 of
                              ((re, err), w4) \<Rightarrow>
                                if err \<noteq> None
                                then (Return (Some (NewError err (''POST /buy: '' @ msg_decode_failed))), w4)
                                else (Return None, w4))))))"

definition BuyWithFailed ::
  "env \<Rightarrow> int \<Rightarrow> string \<Rightarrow> int \<Rightarrow> string \<Rightarrow> world \<Rightarrow> outcome \<times> world" where
  "BuyWithFailed e itemID paymentToken expectedStatus expectedMsg w =
     (let b = reqBuy (csrfToken (session w)) itemID paymentToken in
      case call_newPostRequest e (AppURL w, ''/buy'', ''application/json'', b) w of
        (Inl err, w1) \<Rightarrow>
          (Return (Some (NewError (Some err) (''POST /buy: '' @ msg_request_failed))), w1)
      | (Inr req, w1) \<Rightarrow>
          (case call_Do e req w1 of
             (Inl err, w2) \<Rightarrow>
               (Return (Some (NewError (Some err) (''POST /buy: '' @ msg_request_failed))), w2)
           | (Inr res, w2) \<Rightarrow>
               deferred_Close
                 (case call_checkStatusCode e res expectedStatus w2 of
                    ((msg, Some err), w3) \<Rightarrow>
                      (Return (Some (NewError (Some err) (''POST /buy: '' @ msg))), w3)
                  | ((msg, None), w3) \<Rightarrow>
                      (case Decode res w3 of
                         ((re, err), w4) \<Rightarrow>
                           if err \<noteq> None
                           then (Return (Some (NewError err (''POST /buy: '' @ msg_decode_failed))), w4)
                           else if Error re \<noteq> expectedMsg
                           then (Return (Some (NewError err (''POST /buy: '' @ expectedMsg @ msg_not_that_error))), w4)
                           else (Return None, w4)))))"

definition ShipWithWrongCSRFToken ::
  "env \<Rightarrow> int \<Rightarrow> world \<Rightarrow> outcome \<times> world" where
  "ShipWithWrongCSRFToken e itemID w =
     (case secureRandomStr e 20 of
        Inl err \<Rightarrow> (Panic err, w)
      | Inr token \<Rightarrow>
          (let b = reqShip token itemID in
           case call_newPostRequest e (AppURL w, ''/ship'', ''application/json'', b) w of
             (Inl err, w1) \<Rightarrow>
               (Return (Some (NewError (Some err) (''POST /ship: '' @ msg_request_failed))), w1)
           | (Inr req, w1) \<Rightarrow>
               (case call_Do e req w1 of
                  (Inl err, w2) \<Rightarrow>
                    (Return (Some (NewError (Some err) (''POST /ship: '' @ msg_request_failed))), w2)
                | (Inr res, w2) \<Rightarrow>
                    deferred_Close
                      (case call_checkStatusCode e res StatusUnprocessableEntity w2 of
                         ((msg, Some err), w3) \<Rightarrow>
                           (Return (Some (NewError (Some err) (''POST /ship: '' @ msg))), w3)
                       | ((msg, None), w3) \<Rightarrow>
                           (case Decode res w3 of
                              ((re, err), w4) \<Rightarrow>
                                if err \<noteq> None
                                then (Return (Some (NewError err (''POST /ship: '' @ msg_decode_failed))), w4)
                                else (Return None, w4))))))"

definition ShipWithWrongSeller ::
  "env \<Rightarrow> int \<Rightarrow> world \<Rightarrow> outcome \<times> world" where
  "ShipWithWrongSeller e itemID w =
     (case secureRandomStr e 20 of
        Inl err \<Rightarrow> (Panic err, w)
      | Inr token \<Rightarrow>
          (let b = reqShip token itemID in
           case call_newPostRequest e (AppURL w, ''/ship'', ''application/json'', b) w of
             (Inl err, w1) \<Rightarrow>
               (Return (Some (NewError (Some err) (''POST /ship: '' @ msg_request_failed))), w1)
           | (Inr req, w1) \<Rightarrow>
               (case call_Do e req w1 of
                  (Inl err, w2) \<Rightarrow>
                    (Return (Some (NewError (Some err) (''POST /ship: '' @ msg_request_failed))), w2)
                | (Inr res, w2) \<Rightarrow>
                    deferred_Close
                      (case call_checkStatusCode e res StatusForbidden w2 of
                         ((msg, Some err), w3) \<Rightarrow>
                           (Return (Some (NewError (Some err) (''POST /ship: '' @ msg))), w3)
                       | ((msg, None), w3) \<Rightarrow>
                           (case Decode res w3 of
                              ((re, err), w4) \<Rightarrow>
                                if err \<noteq> None
                                then (Return (Some (NewError err (''POST /ship: '' @ msg_decode_failed))), w4)
                                else if Error re \<noteq> msg_forbidden
                                then (Return (Some (NewError err (''POST /ship: '' @ msg_forbidden_missing))), w4)
                                else (Return None, w4))))))"

subsection \<open>Notions used to state the properties\<close>

text \<open>
  The steps the seven cases share, with the path, the body, the expected status and the
  expected message (with the diagnostic of its mismatch) as parameters. Every case is
  shown below to be an instance of it.
\<close>

definition run_case ::
  "env \<Rightarrow> string \<Rightarrow> payload \<Rightarrow> int \<Rightarrow> (string \<times> string) option \<Rightarrow> world \<Rightarrow> outcome \<times> world" where
  "run_case e path b expectedStatus expect w =
     (case call_newPostRequest e (AppURL w, ''/'' @ path, ''application/json'', b) w of
        (Inl err, w1) \<Rightarrow>
          (Return (Some (NewError (Some err) (''POST /'' @ path @ '': '' @ msg_request_failed))), w1)
      | (Inr req, w1) \<Rightarrow>
          (case call_Do e req w1 of
             (Inl err, w2) \<Rightarrow>
               (Return (Some (NewError (Some err) (''POST /'' @ path @ '': '' @ msg_request_failed))), w2)
           | (Inr res, w2) \<Rightarrow>
               deferred_Close
                 (case call_checkStatusCode e res expectedStatus w2 of
                    ((msg, Some err), w3) \<Rightarrow>
                      (Return (Some (NewError (Some err) (''POST /'' @ path @ '': '' @ msg))), w3)
                  | ((msg, None), w3) \<Rightarrow>
                      (case Decode res w3 of
                         ((re, err), w4) \<Rightarrow>
                           if err \<noteq> None
                           then (Return (Some (NewError err (''POST /'' @ path @ '': '' @ msg_decode_failed))), w4)
                           else (case expect of
                                   None \<Rightarrow> (Return None, w4)
                                 | Some (expectedMsg, diagnostic) \<Rightarrow>
                                     if Error re \<noteq> expectedMsg
                                     then (Return (Some (NewError err (''POST /'' @ path @ '': '' @ diagnostic))), w4)
                                     else (Return None, w4))))))"

text \<open>What \<open>run_case\<close> returns once the transport has answered with \<open>res\<close>.\<close>

definition judge ::
  "env \<Rightarrow> string \<Rightarrow> int \<Rightarrow> (string \<times> string) option \<Rightarrow> response \<Rightarrow> goerror option" where
  "judge e path expectedStatus expect res =
     (if StatusCode res \<noteq> expectedStatus
      then Some (NewError (Some (StatusCodeError (StatusCode res) expectedStatus))
                   (''POST /'' @ path @ '': '' @ status_diagnostic e (StatusCode res) expectedStatus))
      else case decode_resErr (Body res) of
             (re, Some err) \<Rightarrow>
               Some (NewError (Some err) (''POST /'' @ path @ '': '' @ msg_decode_failed))
           | (re, None) \<Rightarrow>
               (case expect of
                  None \<Rightarrow> None
                | Some (expectedMsg, diagnostic) \<Rightarrow>
                    if Error re \<noteq> expectedMsg
                    then Some (NewError None (''POST /'' @ path @ '': '' @ diagnostic))
                    else None))"

text \<open>
  The response a case obtains for the request it posts, if request construction and
  transport both succeed: \<open>newPostRequest\<close> on the session of \<open>w\<close>, then \<open>Do\<close> on the
  session as \<open>newPostRequest\<close> left it.
\<close>

definition transport :: "env \<Rightarrow> world \<Rightarrow> post \<Rightarrow> response option" where
  "transport e w p =
     (case newPostRequest e (session w) p of
        (Inl err, s1) \<Rightarrow> None
      | (Inr req, s1) \<Rightarrow>
          (case Do e s1 req of
             (Inl err, s2) \<Rightarrow> None
           | (Inr res, s2) \<Rightarrow> Some res))"

text \<open>A lower-case hexadecimal digit.\<close>

definition is_hex :: "char \<Rightarrow> bool" where
  "is_hex c \<longleftrightarrow> c \<in> set ''0123456789abcdef''"

text \<open>The number of bytes of the body of a response.\<close>

definition body_size :: "response \<Rightarrow> nat" where
  "body_size res = first_bytes (Body res) + trailing (Body res)"

subsection \<open>A sample environment\<close>

text \<open>
  For concrete runs: request construction always succeeds, the transport answers every
  request with \<open>a\<close> and leaves the session alone, the random source behaves as \<open>r\<close>.
\<close>

definition answering :: "rand_outcome \<Rightarrow> goerror + response \<Rightarrow> env" where
  "answering r a =
     \<lparr>crand_Read = r,
      newPostRequest = (\<lambda>s (url, path, ctype, b).
         (Inr \<lparr>URL = url @ path, ContentType = ctype, Content = b\<rparr>, s)),
      Do = (\<lambda>s req. (a, s)),
      status_diagnostic = (\<lambda>actual expected. ''unexpected status code'')\<rparr>"

text \<open>A state in which nothing has happened yet, with the session's token as given.\<close>

definition fresh_world :: "string \<Rightarrow> world" where
  "fresh_world token =
     \<lparr>session = \<lparr>csrfToken = token, targetURL = ''http://localhost:8000''\<rparr>,
      AppURL = ''http://localhost:8000'',
      built = [], sent = [], checked = [], decodes = 0, bytes_read = 0, closes = 0\<rparr>"

text \<open>
  A response whose body is the error envelope with the given message and nothing after
  it: twelve bytes of punctuation and key around the message.
\<close>

definition envelope :: "int \<Rightarrow> string \<Rightarrow> response" where
  "envelope status message =
     \<lparr>StatusCode = status,
      Body = \<lparr>first_value = Inr (JObject [(''error'', JString message)]),
              first_bytes = 12 + length message, trailing = 0\<rparr>\<rparr>"

text \<open>A random source that delivers zero bytes, and one that fails.\<close>

definition zeros :: rand_outcome where
  "zeros = ReadOk (\<lambda>i. 0)"

definition unavailable :: rand_outcome where
  "unavailable = ReadError (ExternalError ''entropy source unavailable'')"

text \<open>What \<open>secureRandomStr\<close> makes of twenty zero bytes.\<close>

definition forty_zeros :: string where
  "forty_zeros = ''0000000000000000000000000000000000000000''"

text \<open>A response whose body is \<open>{}\<close>, two bytes.\<close>

definition empty_object :: "int \<Rightarrow> response" where
  "empty_object status =
     \<lparr>StatusCode = status,
      Body = \<lparr>first_value = Inr (JObject []), first_bytes = 2, trailing = 0\<rparr>\<rparr>"

text \<open>A response whose body is an object with a \<open>message\<close> member only, 16 bytes.\<close>

definition message_object :: "int \<Rightarrow> response" where
  "message_object status =
     \<lparr>StatusCode = status,
      Body = \<lparr>first_value = Inr (JObject [(''message'', JString ''no'')]),
              first_bytes = 16, trailing = 0\<rparr>\<rparr>"

text \<open>
  A response whose body is the envelope with its key written \<open>ERROR\<close>: an object
  that has no member named \<open>error\<close>.
\<close>

definition upper_key_envelope :: "int \<Rightarrow> string \<Rightarrow> response" where
  "upper_key_envelope status message =
     \<lparr>StatusCode = status,
      Body = \<lparr>first_value = Inr (JObject [(''ERROR'', JString message)]),
              first_bytes = 12 + length message, trailing = 0\<rparr>\<rparr>"

text \<open>
  A response whose body is \<open>{}\<close> followed by 998 spaces, a thousand bytes. The decoder
  of \<open>encoding/json\<close> reads into a buffer of 512 bytes, finds the object complete and
  asks for no more.
\<close>

definition padded_object :: "int \<Rightarrow> response" where
  "padded_object status =
     \<lparr>StatusCode = status,
      Body = \<lparr>first_value = Inr (JObject []), first_bytes = 512, trailing = 488\<rparr>\<rparr>"

section \<open>Auxiliary facts\<close>

subsection \<open>Every case is an instance of the shared steps\<close>

lemma LoginWithWrongPassword_run:
  "LoginWithWrongPassword e accountName password w =
     run_case e ''login'' (reqLogin accountName password) 401 None w"
  by (auto simp add: LoginWithWrongPassword_def run_case_def StatusUnauthorized_def
      split: prod.splits sum.splits option.splits)

lemma SellWithWrongPrice_run:
  "SellWithWrongPrice e name price description categoryID w =
     run_case e ''sell'' (reqSell (csrfToken (session w)) name price description categoryID) 400
       (Some (ItemPriceErrMsg, msg_price_range)) w"
  by (auto simp add: SellWithWrongPrice_def run_case_def StatusBadRequest_def
      split: prod.splits sum.splits option.splits)

lemma BuyWithFailed_run:
  "BuyWithFailed e itemID paymentToken expectedStatus expectedMsg w =
     run_case e ''buy'' (reqBuy (csrfToken (session w)) itemID paymentToken) expectedStatus
       (Some (expectedMsg, expectedMsg @ msg_not_that_error)) w"
  by (auto simp add: BuyWithFailed_def run_case_def
      split: prod.splits sum.splits option.splits)

lemma SellWithWrongCSRFToken_run:
  "SellWithWrongCSRFToken e name price description categoryID w =
     (case secureRandomStr e 20 of
        Inl err \<Rightarrow> (Panic err, w)
      | Inr token \<Rightarrow>
          run_case e ''sell'' (reqSell token name price description categoryID) 422 None w)"
  by (auto simp add: SellWithWrongCSRFToken_def run_case_def StatusUnprocessableEntity_def
      split: prod.splits sum.splits option.splits)

lemma BuyWithWrongCSRFToken_run:
  "BuyWithWrongCSRFToken e itemID paymentToken w =
     (case secureRandomStr e 20 of
        Inl err \<Rightarrow> (Panic err, w)
      | Inr token \<Rightarrow> run_case e ''buy'' (reqBuy token itemID paymentToken) 422 None w)"
  by (auto simp add: BuyWithWrongCSRFToken_def run_case_def StatusUnprocessableEntity_def
      split: prod.splits sum.splits option.splits)

lemma ShipWithWrongCSRFToken_run:
  "ShipWithWrongCSRFToken e itemID w =
     (case secureRandomStr e 20 of
        Inl err \<Rightarrow> (Panic err, w)
      | Inr token \<Rightarrow> run_case e ''ship'' (reqShip token itemID) 422 None w)"
  by (auto simp add: ShipWithWrongCSRFToken_def run_case_def StatusUnprocessableEntity_def
      split: prod.splits sum.splits option.splits)

lemma ShipWithWrongSeller_run:
  "ShipWithWrongSeller e itemID w =
     (case secureRandomStr e 20 of
        Inl err \<Rightarrow> (Panic err, w)
      | Inr token \<Rightarrow>
          run_case e ''ship'' (reqShip token itemID) 403
            (Some (msg_forbidden, msg_forbidden_missing)) w)"
  by (auto simp add: ShipWithWrongSeller_def run_case_def StatusForbidden_def
      split: prod.splits sum.splits option.splits)

lemmas case_runs =
  LoginWithWrongPassword_run SellWithWrongCSRFToken_run SellWithWrongPrice_run
  BuyWithWrongCSRFToken_run BuyWithFailed_run ShipWithWrongCSRFToken_run
  ShipWithWrongSeller_run

subsection \<open>The shared steps, branch by branch\<close>

lemma run_case_build_error:
  assumes "newPostRequest e (session w) (AppURL w, ''/'' @ path, ''application/json'', b) = (Inl err, s1)"
  shows "run_case e path b x expect w =
    (Return (Some (NewError (Some err) (''POST /'' @ path @ '': '' @ msg_request_failed))),
     w\<lparr>session := s1, built := built w @ [(AppURL w, ''/'' @ path, ''application/json'', b)]\<rparr>)"
  using assms by (simp add: run_case_def call_newPostRequest_def)

lemma run_case_send_error:
  assumes "newPostRequest e (session w) (AppURL w, ''/'' @ path, ''application/json'', b) = (Inr req, s1)"
    and "Do e s1 req = (Inl err, s2)"
  shows "run_case e path b x expect w =
    (Return (Some (NewError (Some err) (''POST /'' @ path @ '': '' @ msg_request_failed))),
     w\<lparr>session := s2, built := built w @ [(AppURL w, ''/'' @ path, ''application/json'', b)],
       sent := sent w @ [req]\<rparr>)"
  using assms by (simp add: run_case_def call_newPostRequest_def call_Do_def)

lemma run_case_response:
  assumes "newPostRequest e (session w) (AppURL w, ''/'' @ path, ''application/json'', b) = (Inr req, s1)"
    and "Do e s1 req = (Inr res, s2)"
  shows "run_case e path b x expect w =
    (Return (judge e path x expect res),
     w\<lparr>session := s2, built := built w @ [(AppURL w, ''/'' @ path, ''application/json'', b)],
       sent := sent w @ [req], checked := checked w @ [x],
       decodes := decodes w + (if StatusCode res = x then 1 else 0),
       bytes_read := bytes_read w + (if StatusCode res = x then first_bytes (Body res) else 0),
       closes := closes w + 1\<rparr>)"
  using assms
  by (auto simp add: run_case_def call_newPostRequest_def call_Do_def call_checkStatusCode_def
      checkStatusCode_def Decode_def judge_def split: prod.splits option.splits)

lemma run_case_shape:
  obtains (build_error) err s1 where
      "newPostRequest e (session w) (AppURL w, ''/'' @ path, ''application/json'', b) = (Inl err, s1)"
  | (send_error) req s1 err s2 where
      "newPostRequest e (session w) (AppURL w, ''/'' @ path, ''application/json'', b) = (Inr req, s1)"
      "Do e s1 req = (Inl err, s2)"
  | (response) req s1 res s2 where
      "newPostRequest e (session w) (AppURL w, ''/'' @ path, ''application/json'', b) = (Inr req, s1)"
      "Do e s1 req = (Inr res, s2)"
proof (cases "newPostRequest e (session w) (AppURL w, ''/'' @ path, ''application/json'', b)")
  case (Pair r s1)
  show thesis
  proof (cases r)
    case (Inl err)
    with Pair build_error show thesis by simp
  next
    case (Inr req)
    show thesis
    proof (cases "Do e s1 req")
      case d: (Pair r2 s2)
      show thesis
      proof (cases r2)
        case (Inl err)
        with Pair Inr d send_error show thesis by simp
      next
        case i: (Inr res)
        with Pair Inr d response show thesis by simp
      qed
    qed
  qed
qed

lemma run_case_answered:
  assumes "transport e w (AppURL w, ''/'' @ path, ''application/json'', b) = Some res"
  shows "fst (run_case e path b x expect w) = Return (judge e path x expect res)"
    and "checked (snd (run_case e path b x expect w)) = checked w @ [x]"
    and "decodes (snd (run_case e path b x expect w)) =
           decodes w + (if StatusCode res = x then 1 else 0)"
    and "bytes_read (snd (run_case e path b x expect w)) =
           bytes_read w + (if StatusCode res = x then first_bytes (Body res) else 0)"
    and "closes (snd (run_case e path b x expect w)) = closes w + 1"
proof -
  show "fst (run_case e path b x expect w) = Return (judge e path x expect res)"
    using assms
    by (cases rule: run_case_shape [of e w path b])
       (simp_all add: transport_def run_case_build_error run_case_send_error run_case_response)
  show "checked (snd (run_case e path b x expect w)) = checked w @ [x]"
    using assms
    by (cases rule: run_case_shape [of e w path b])
       (simp_all add: transport_def run_case_build_error run_case_send_error run_case_response)
  show "decodes (snd (run_case e path b x expect w)) =
           decodes w + (if StatusCode res = x then 1 else 0)"
    using assms
    by (cases rule: run_case_shape [of e w path b])
       (simp_all add: transport_def run_case_build_error run_case_send_error run_case_response)
  show "bytes_read (snd (run_case e path b x expect w)) =
           bytes_read w + (if StatusCode res = x then first_bytes (Body res) else 0)"
    using assms
    by (cases rule: run_case_shape [of e w path b])
       (simp_all add: transport_def run_case_build_error run_case_send_error run_case_response)
  show "closes (snd (run_case e path b x expect w)) = closes w + 1"
    using assms
    by (cases rule: run_case_shape [of e w path b])
       (simp_all add: transport_def run_case_build_error run_case_send_error run_case_response)
qed

lemma run_case_unanswered:
  assumes "transport e w (AppURL w, ''/'' @ path, ''application/json'', b) = None"
  shows "\<exists>err. fst (run_case e path b x expect w) =
           Return (Some (NewError (Some err) (''POST /'' @ path @ '': '' @ msg_request_failed)))"
    and "checked (snd (run_case e path b x expect w)) = checked w"
    and "decodes (snd (run_case e path b x expect w)) = decodes w"
    and "bytes_read (snd (run_case e path b x expect w)) = bytes_read w"
    and "closes (snd (run_case e path b x expect w)) = closes w"
proof -
  show "\<exists>err. fst (run_case e path b x expect w) =
           Return (Some (NewError (Some err) (''POST /'' @ path @ '': '' @ msg_request_failed)))"
    using assms
    by (cases rule: run_case_shape [of e w path b])
       (simp_all add: transport_def run_case_build_error run_case_send_error run_case_response)
  show "checked (snd (run_case e path b x expect w)) = checked w"
    using assms
    by (cases rule: run_case_shape [of e w path b])
       (simp_all add: transport_def run_case_build_error run_case_send_error run_case_response)
  show "decodes (snd (run_case e path b x expect w)) = decodes w"
    using assms
    by (cases rule: run_case_shape [of e w path b])
       (simp_all add: transport_def run_case_build_error run_case_send_error run_case_response)
  show "bytes_read (snd (run_case e path b x expect w)) = bytes_read w"
    using assms
    by (cases rule: run_case_shape [of e w path b])
       (simp_all add: transport_def run_case_build_error run_case_send_error run_case_response)
  show "closes (snd (run_case e path b x expect w)) = closes w"
    using assms
    by (cases rule: run_case_shape [of e w path b])
       (simp_all add: transport_def run_case_build_error run_case_send_error run_case_response)
qed

lemma run_case_returns: "\<exists>r. fst (run_case e path b x expect w) = Return r"
  by (cases rule: run_case_shape [of e w path b])
     (simp_all add: run_case_build_error run_case_send_error run_case_response)

lemma run_case_built:
  "built (snd (run_case e path b x expect w)) =
     built w @ [(AppURL w, ''/'' @ path, ''application/json'', b)]"
  by (cases rule: run_case_shape [of e w path b])
     (simp_all add: run_case_build_error run_case_send_error run_case_response)

lemma run_case_AppURL: "AppURL (snd (run_case e path b x expect w)) = AppURL w"
  by (cases rule: run_case_shape [of e w path b])
     (simp_all add: run_case_build_error run_case_send_error run_case_response)

lemma run_case_sent:
  "sent (snd (run_case e path b x expect w)) =
     sent w @ (case fst (newPostRequest e (session w) (AppURL w, ''/'' @ path, ''application/json'', b)) of
                 Inl err \<Rightarrow> [] | Inr req \<Rightarrow> [req])"
  by (cases rule: run_case_shape [of e w path b])
     (simp_all add: run_case_build_error run_case_send_error run_case_response)

lemma run_case_session:
  assumes "\<forall>s p. snd (newPostRequest e s p) = s" and "\<forall>s req. snd (Do e s req) = s"
  shows "session (snd (run_case e path b x expect w)) = session w"
proof (cases rule: run_case_shape [of e w path b])
  case (build_error err s1)
  moreover from assms(1) build_error have "s1 = session w" by (metis snd_conv)
  ultimately show ?thesis by (simp add: run_case_build_error)
next
  case (send_error req s1 err s2)
  moreover from assms(1) send_error(1) have "s1 = session w" by (metis snd_conv)
  moreover from assms(2) send_error(2) have "s2 = s1" by (metis snd_conv)
  ultimately show ?thesis by (simp add: run_case_send_error)
next
  case (response req s1 res s2)
  moreover from assms(1) response(1) have "s1 = session w" by (metis snd_conv)
  moreover from assms(2) response(2) have "s2 = s1" by (metis snd_conv)
  ultimately show ?thesis by (simp add: run_case_response)
qed

subsection \<open>The sample environment\<close>

lemma answering_transport:
  "transport (answering r (Inr res)) w p = Some res"
  by (cases p) (simp add: transport_def answering_def)

lemma answering_random:
  "secureRandomStr (answering zeros a) n = Inr (sprintf_x (map (\<lambda>i. 0) [0..<n]))"
  by (simp add: secureRandomStr_def answering_def zeros_def)

subsection \<open>The verdict on a response\<close>

lemma judge_status_mismatch:
  "StatusCode res \<noteq> x \<Longrightarrow>
   judge e path x expect res =
     Some (NewError (Some (StatusCodeError (StatusCode res) x))
             (''POST /'' @ path @ '': '' @ status_diagnostic e (StatusCode res) x))"
  by (simp add: judge_def)

lemma judge_decode_error:
  "StatusCode res = x \<Longrightarrow> decode_resErr (Body res) = (re, Some err) \<Longrightarrow>
   judge e path x expect res =
     Some (NewError (Some err) (''POST /'' @ path @ '': '' @ msg_decode_failed))"
  by (simp add: judge_def)

lemma judge_any_message:
  "StatusCode res = x \<Longrightarrow> decode_resErr (Body res) = (re, None) \<Longrightarrow>
   judge e path x None res = None"
  by (simp add: judge_def)

lemma judge_message:
  "StatusCode res = x \<Longrightarrow> decode_resErr (Body res) = (re, None) \<Longrightarrow>
   judge e path x (Some (m, d)) res =
     (if Error re \<noteq> m then Some (NewError None (''POST /'' @ path @ '': '' @ d)) else None)"
  by (simp add: judge_def)

lemma judge_passes_iff:
  "judge e path x (Some (m, d)) res = None \<longleftrightarrow>
     StatusCode res = x \<and> (\<exists>re. decode_resErr (Body res) = (re, None) \<and> Error re = m)"
  by (cases "decode_resErr (Body res)") (auto simp add: judge_def split: option.splits)

lemma run_case_passes_iff:
  "fst (run_case e path b x (Some (m, d)) w) = Return None \<longleftrightarrow>
     (\<exists>res re. transport e w (AppURL w, ''/'' @ path, ''application/json'', b) = Some res
        \<and> StatusCode res = x \<and> decode_resErr (Body res) = (re, None) \<and> Error re = m)"
proof (cases "transport e w (AppURL w, ''/'' @ path, ''application/json'', b)")
  case None
  with run_case_unanswered(1) [of e w path b x "Some (m, d)"] show ?thesis by auto
next
  case (Some res)
  with run_case_answered(1) [of e w path b res x "Some (m, d)"] show ?thesis
    by (simp add: judge_passes_iff)
qed

lemma run_case_passes_any_iff:
  "fst (run_case e path b x None w) = Return None \<longleftrightarrow>
     (\<exists>res re. transport e w (AppURL w, ''/'' @ path, ''application/json'', b) = Some res
        \<and> StatusCode res = x \<and> decode_resErr (Body res) = (re, None))"
proof (cases "transport e w (AppURL w, ''/'' @ path, ''application/json'', b)")
  case None
  with run_case_unanswered(1) [of e w path b x None] show ?thesis by auto
next
  case (Some res)
  with run_case_answered(1) [of e w path b res x None] show ?thesis
    by (cases "decode_resErr (Body res)") (auto simp add: judge_def split: option.splits)
qed

lemma run_case_wrong_message:
  assumes "transport e w (AppURL w, ''/'' @ path, ''application/json'', b) = Some res"
    and "StatusCode res = x" and "decode_resErr (Body res) = (re, None)" and "Error re \<noteq> m"
  shows "fst (run_case e path b x (Some (m, d)) w) =
    Return (Some (NewError None (''POST /'' @ path @ '': '' @ d)))"
  using assms run_case_answered(1) [of e w path b res x "Some (m, d)"]
  by (simp add: judge_message)

lemma run_case_wrong_status:
  assumes "transport e w (AppURL w, ''/'' @ path, ''application/json'', b) = Some res"
    and "StatusCode res \<noteq> x"
  shows "fst (run_case e path b x expect w) =
    Return (Some (NewError (Some (StatusCodeError (StatusCode res) x))
      (''POST /'' @ path @ '': '' @ status_diagnostic e (StatusCode res) x)))"
    and "decodes (snd (run_case e path b x expect w)) = decodes w"
    and "bytes_read (snd (run_case e path b x expect w)) = bytes_read w"
  using assms run_case_answered [of e w path b res x expect]
  by (simp_all add: judge_status_mismatch)

lemma run_case_decodes_only_after_status:
  assumes "decodes (snd (run_case e path b x expect w)) \<noteq> decodes w"
  shows "\<exists>res. transport e w (AppURL w, ''/'' @ path, ''application/json'', b) = Some res
           \<and> StatusCode res = x"
proof (cases "transport e w (AppURL w, ''/'' @ path, ''application/json'', b)")
  case None
  with run_case_unanswered(3) [of e w path b x expect] assms show ?thesis by simp
next
  case (Some res)
  with run_case_answered(3) [of e w path b res x expect] assms show ?thesis
    by (cases "StatusCode res = x") simp_all
qed

lemma decode_envelope: "decode_resErr (Body (envelope status m)) = (\<lparr>Error = m\<rparr>, None)"
  by (simp add: envelope_def decode_resErr_def field_matches_def to_lower_def)

lemma StatusCode_envelope: "StatusCode (envelope status m) = status"
  by (simp add: envelope_def)

lemma answering_diagnostic:
  "status_diagnostic (answering r a) actual expected = ''unexpected status code''"
  by (simp add: answering_def)

lemma sprintf_x_zeros: "sprintf_x (map (\<lambda>i. 0) [0..<20]) = forty_zeros"
  by (simp add: sprintf_x_def hex_byte_def hexdigit_def forty_zeros_def upt_rec)

lemma answering_forty_zeros: "secureRandomStr (answering zeros a) 20 = Inr forty_zeros"
  by (simp add: answering_random sprintf_x_zeros)

lemma answering_unavailable:
  "crand_Read (answering unavailable a) = ReadError (ExternalError ''entropy source unavailable'')"
  by (simp add: answering_def unavailable_def)

lemma length_sprintf_x: "length (sprintf_x k) = 2 * length k"
  by (induction k) (simp_all add: sprintf_x_def hex_byte_def)

lemma is_hex_hexdigit: "is_hex (hexdigit n)"
proof -
  have "\<forall>m \<in> set [0..<16]. is_hex (''0123456789abcdef'' ! m)"
    by code_simp
  moreover have "n mod 16 \<in> set [0..<16]"
    by simp
  ultimately show ?thesis
    unfolding hexdigit_def by blast
qed

lemma is_hex_sprintf_x: "list_all is_hex (sprintf_x k)"
  by (induction k) (simp_all add: sprintf_x_def hex_byte_def is_hex_hexdigit)

lemma unmarshal_no_match:
  assumes "\<forall>(key, v) \<in> set members. \<not> field_matches key"
  shows "foldl store_member acc members = acc"
  using assms by (induction members arbitrary: acc) (auto split: prod.splits)

lemma decode_no_error_field:
  assumes "first_value bd = Inr (JObject members)"
    and "\<forall>(key, v) \<in> set members. \<not> field_matches key"
  shows "decode_resErr bd = (\<lparr>Error = []\<rparr>, None)"
  using assms by (simp add: decode_resErr_def unmarshal_no_match)

lemma ItemPriceErrMsg_nonempty: "ItemPriceErrMsg \<noteq> []"
  by (simp add: ItemPriceErrMsg_def)

lemma msg_forbidden_nonempty: "msg_forbidden \<noteq> []"
  by (simp add: msg_forbidden_def)

lemma run_case_sent_le:
  "length (sent (snd (run_case e path b x expect w))) \<le> length (sent w) + 1"
  by (simp add: run_case_sent split: sum.splits)

lemma secureRandomStr_panics:
  "secureRandomStr e b = Inl err \<longleftrightarrow> crand_Read e = ReadError err"
  by (simp add: secureRandomStr_def split: rand_outcome.splits)

section \<open>The properties\<close>

text \<open>
  C1. Every case passes to \<open>checkStatusCode\<close> the status the rejection table gives it.
  Whenever the transport answers, the case calls \<open>checkStatusCode\<close> exactly once, with
  401 for \<open>LoginWithWrongPassword\<close>, 422 for the three cases with a forged token, 400
  for \<open>SellWithWrongPrice\<close>, the caller's \<open>expectedStatus\<close> for \<open>BuyWithFailed\<close> and 403
  for \<open>ShipWithWrongSeller\<close>.
\<close>

theorem expected_status_per_case:
  "(transport e w (AppURL w, ''/login'', ''application/json'', reqLogin accountName password) = Some res \<longrightarrow>
      checked (snd (LoginWithWrongPassword e accountName password w)) = checked w @ [401])
   \<and> (secureRandomStr e 20 = Inr token \<and>
      transport e w (AppURL w, ''/sell'', ''application/json'',
        reqSell token name price description categoryID) = Some res \<longrightarrow>
      checked (snd (SellWithWrongCSRFToken e name price description categoryID w)) = checked w @ [422])
   \<and> (transport e w (AppURL w, ''/sell'', ''application/json'',
        reqSell (csrfToken (session w)) name price description categoryID) = Some res \<longrightarrow>
      checked (snd (SellWithWrongPrice e name price description categoryID w)) = checked w @ [400])
   \<and> (secureRandomStr e 20 = Inr token \<and>
      transport e w (AppURL w, ''/buy'', ''application/json'', reqBuy token itemID paymentToken) = Some res \<longrightarrow>
      checked (snd (BuyWithWrongCSRFToken e itemID paymentToken w)) = checked w @ [422])
   \<and> (transport e w (AppURL w, ''/buy'', ''application/json'',
        reqBuy (csrfToken (session w)) itemID paymentToken) = Some res \<longrightarrow>
      checked (snd (BuyWithFailed e itemID paymentToken expectedStatus expectedMsg w)) =
        checked w @ [expectedStatus])
   \<and> (secureRandomStr e 20 = Inr token \<and>
      transport e w (AppURL w, ''/ship'', ''application/json'', reqShip token itemID) = Some res \<longrightarrow>
      checked (snd (ShipWithWrongCSRFToken e itemID w)) = checked w @ [422])
   \<and> (secureRandomStr e 20 = Inr token \<and>
      transport e w (AppURL w, ''/ship'', ''application/json'', reqShip token itemID) = Some res \<longrightarrow>
      checked (snd (ShipWithWrongSeller e itemID w)) = checked w @ [403])"
  using run_case_answered(2) [of e w "''login''"] run_case_answered(2) [of e w "''sell''"]
    run_case_answered(2) [of e w "''buy''"] run_case_answered(2) [of e w "''ship''"]
  by (simp add: case_runs)

theorem expected_status_per_case_witness:
  "checked (snd (LoginWithWrongPassword (answering zeros (Inr (envelope 200 [])))
      ''alice'' ''wrong-pw'' (fresh_world ''token''))) = [401]
   \<and> checked (snd (SellWithWrongCSRFToken (answering zeros (Inr (envelope 200 [])))
      ''widget'' 50 ''desc'' 1 (fresh_world ''token''))) = [422]
   \<and> checked (snd (SellWithWrongPrice (answering zeros (Inr (envelope 200 [])))
      ''widget'' 50 ''desc'' 1 (fresh_world ''token''))) = [400]
   \<and> checked (snd (BuyWithWrongCSRFToken (answering zeros (Inr (envelope 200 [])))
      7 ''card'' (fresh_world ''token''))) = [422]
   \<and> checked (snd (BuyWithFailed (answering zeros (Inr (envelope 200 [])))
      7 ''card'' 404 ''item not found'' (fresh_world ''token''))) = [404]
   \<and> checked (snd (ShipWithWrongCSRFToken (answering zeros (Inr (envelope 200 [])))
      7 (fresh_world ''token''))) = [422]
   \<and> checked (snd (ShipWithWrongSeller (answering zeros (Inr (envelope 200 [])))
      7 (fresh_world ''token''))) = [403]"
  using expected_status_per_case [where e = "answering zeros (Inr (envelope 200 []))"
      and w = "fresh_world ''token''" and accountName = "''alice''" and password = "''wrong-pw''"
      and res = "envelope 200 []" and token = forty_zeros
      and name = "''widget''" and price = 50 and description = "''desc''" and categoryID = 1
      and itemID = 7 and paymentToken = "''card''" and expectedStatus = 404
      and expectedMsg = "''item not found''"]
  by (simp add: answering_transport answering_forty_zeros fresh_world_def)

text \<open>
  C2. \<open>SellWithWrongPrice\<close> returns \<open>nil\<close> exactly when the transport answers with
  status 400 and a body that decodes to the message \<open>ItemPriceErrMsg\<close>, byte for
  byte; with status 400 and any other decoded message it returns a failure. The
  constants are \<open>ItemMinPrice = 100\<close>, \<open>ItemMaxPrice = 1000000\<close> and the 69 bytes of
  \<open>ItemPriceErrMsg\<close>.
\<close>

theorem sell_price_message:
  "ItemMinPrice = 100 \<and> ItemMaxPrice = 1000000
   \<and> ItemPriceErrMsg = [
      CHR 0xE5, CHR 0x95, CHR 0x86, CHR 0xE5, CHR 0x93, CHR 0x81, CHR 0xE4, CHR 0xBE,
      CHR 0xA1, CHR 0xE6, CHR 0xA0, CHR 0xBC, CHR 0xE3, CHR 0x81, CHR 0xAF, CHR 0x31,
      CHR 0x30, CHR 0x30, CHR 0xE5, CHR 0x86, CHR 0x86, CHR 0xE4, CHR 0xBB, CHR 0xA5,
      CHR 0xE4, CHR 0xB8, CHR 0x8A, CHR 0xE3, CHR 0x80, CHR 0x81, CHR 0x31, CHR 0x2C,
      CHR 0x30, CHR 0x30, CHR 0x30, CHR 0x2C, CHR 0x30, CHR 0x30, CHR 0x30, CHR 0xE5,
      CHR 0x86, CHR 0x86, CHR 0xE4, CHR 0xBB, CHR 0xA5, CHR 0xE4, CHR 0xB8, CHR 0x8B,
      CHR 0xE3, CHR 0x81, CHR 0xAB, CHR 0xE3, CHR 0x81, CHR 0x97, CHR 0xE3, CHR 0x81,
      CHR 0xA6, CHR 0xE3, CHR 0x81, CHR 0x8F, CHR 0xE3, CHR 0x81, CHR 0xA0, CHR 0xE3,
      CHR 0x81, CHR 0x95, CHR 0xE3, CHR 0x81, CHR 0x84]
   \<and> (fst (SellWithWrongPrice e name price description categoryID w) = Return None \<longleftrightarrow>
        (\<exists>res re.
           transport e w (AppURL w, ''/sell'', ''application/json'',
             reqSell (csrfToken (session w)) name price description categoryID) = Some res
           \<and> StatusCode res = 400
           \<and> decode_resErr (Body res) = (re, None)
           \<and> Error re = ItemPriceErrMsg))
   \<and> (transport e w (AppURL w, ''/sell'', ''application/json'',
          reqSell (csrfToken (session w)) name price description categoryID) = Some res
        \<and> StatusCode res = 400
        \<and> decode_resErr (Body res) = (re, None)
        \<and> Error re \<noteq> ItemPriceErrMsg \<longrightarrow>
        fst (SellWithWrongPrice e name price description categoryID w) =
          Return (Some (NewError None (''POST /sell: '' @ msg_price_range))))"
proof -
  let ?b = "reqSell (csrfToken (session w)) name price description categoryID"
  have lit: "ItemPriceErrMsg = [
      CHR 0xE5, CHR 0x95, CHR 0x86, CHR 0xE5, CHR 0x93, CHR 0x81, CHR 0xE4, CHR 0xBE,
      CHR 0xA1, CHR 0xE6, CHR 0xA0, CHR 0xBC, CHR 0xE3, CHR 0x81, CHR 0xAF, CHR 0x31,
      CHR 0x30, CHR 0x30, CHR 0xE5, CHR 0x86, CHR 0x86, CHR 0xE4, CHR 0xBB, CHR 0xA5,
      CHR 0xE4, CHR 0xB8, CHR 0x8A, CHR 0xE3, CHR 0x80, CHR 0x81, CHR 0x31, CHR 0x2C,
      CHR 0x30, CHR 0x30, CHR 0x30, CHR 0x2C, CHR 0x30, CHR 0x30, CHR 0x30, CHR 0xE5,
      CHR 0x86, CHR 0x86, CHR 0xE4, CHR 0xBB, CHR 0xA5, CHR 0xE4, CHR 0xB8, CHR 0x8B,
      CHR 0xE3, CHR 0x81, CHR 0xAB, CHR 0xE3, CHR 0x81, CHR 0x97, CHR 0xE3, CHR 0x81,
      CHR 0xA6, CHR 0xE3, CHR 0x81, CHR 0x8F, CHR 0xE3, CHR 0x81, CHR 0xA0, CHR 0xE3,
      CHR 0x81, CHR 0x95, CHR 0xE3, CHR 0x81, CHR 0x84]"
    by (simp add: ItemPriceErrMsg_def)
  have passes: "fst (SellWithWrongPrice e name price description categoryID w) = Return None \<longleftrightarrow>
        (\<exists>res re.
           transport e w (AppURL w, ''/sell'', ''application/json'', ?b) = Some res
           \<and> StatusCode res = 400
           \<and> decode_resErr (Body res) = (re, None)
           \<and> Error re = ItemPriceErrMsg)"
    using run_case_passes_iff [of e "''sell''" ?b 400 ItemPriceErrMsg msg_price_range w]
    by (simp add: SellWithWrongPrice_run)
  have mismatch: "fst (SellWithWrongPrice e name price description categoryID w) =
          Return (Some (NewError None (''POST /sell: '' @ msg_price_range)))"
    if "transport e w (AppURL w, ''/sell'', ''application/json'', ?b) = Some res"
      "StatusCode res = 400" "decode_resErr (Body res) = (re, None)" "Error re \<noteq> ItemPriceErrMsg"
    using that run_case_wrong_message [of e w "''sell''" ?b res 400 re
        ItemPriceErrMsg msg_price_range]
    by (simp add: SellWithWrongPrice_run)
  from lit passes mismatch show ?thesis
    by (simp add: ItemMinPrice_def ItemMaxPrice_def)
qed

theorem sell_price_message_witness:
  "fst (SellWithWrongPrice (answering zeros (Inr (envelope 400 ItemPriceErrMsg)))
     ''widget'' 50 ''desc'' 1 (fresh_world ''token'')) = Return None
   \<and> fst (SellWithWrongPrice (answering zeros (Inr (envelope 400 ''bad request'')))
     ''widget'' 50 ''desc'' 1 (fresh_world ''token'')) =
       Return (Some (NewError None (''POST /sell: '' @ msg_price_range)))"
proof
  let ?good = "answering zeros (Inr (envelope 400 ItemPriceErrMsg))"
  let ?bad = "answering zeros (Inr (envelope 400 ''bad request''))"
  let ?w = "fresh_world ''token''"
  have "\<exists>res re.
      transport ?good ?w (AppURL ?w, ''/sell'', ''application/json'',
        reqSell (csrfToken (session ?w)) ''widget'' 50 ''desc'' 1) = Some res
      \<and> StatusCode res = 400 \<and> decode_resErr (Body res) = (re, None)
      \<and> Error re = ItemPriceErrMsg"
    by (rule exI [of _ "envelope 400 ItemPriceErrMsg"], rule exI [of _ "\<lparr>Error = ItemPriceErrMsg\<rparr>"])
      (simp add: answering_transport decode_envelope StatusCode_envelope)
  with sell_price_message [where e = ?good and w = ?w and name = "''widget''" and price = 50
      and description = "''desc''" and categoryID = 1]
  show "fst (SellWithWrongPrice ?good ''widget'' 50 ''desc'' 1 ?w) = Return None"
    by blast
  have "''bad request'' \<noteq> ItemPriceErrMsg"
    by (simp add: ItemPriceErrMsg_def)
  then have "transport ?bad ?w (AppURL ?w, ''/sell'', ''application/json'',
        reqSell (csrfToken (session ?w)) ''widget'' 50 ''desc'' 1) = Some (envelope 400 ''bad request'')
      \<and> StatusCode (envelope 400 ''bad request'') = 400
      \<and> decode_resErr (Body (envelope 400 ''bad request'')) = (\<lparr>Error = ''bad request''\<rparr>, None)
      \<and> Error \<lparr>Error = ''bad request''\<rparr> \<noteq> ItemPriceErrMsg"
    by (simp add: answering_transport decode_envelope StatusCode_envelope)
  with sell_price_message [where e = ?bad and w = ?w and name = "''widget''" and price = 50
      and description = "''desc''" and categoryID = 1
      and res = "envelope 400 ''bad request''" and re = "\<lparr>Error = ''bad request''\<rparr>"]
  show "fst (SellWithWrongPrice ?bad ''widget'' 50 ''desc'' 1 ?w) =
       Return (Some (NewError None (''POST /sell: '' @ msg_price_range)))"
    by blast
qed

text \<open>
  C3. \<open>ShipWithWrongSeller\<close> returns \<open>nil\<close> exactly when the random source delivers,
  the transport answers with status 403 and the body decodes to the fixed message
  \<open>msg_forbidden\<close> (24 bytes); with status 403 and any other decoded message it returns a
  failure.
\<close>

theorem ship_forbidden_message:
  "msg_forbidden = [
      CHR 0xE6, CHR 0xA8, CHR 0xA9, CHR 0xE9, CHR 0x99, CHR 0x90, CHR 0xE3, CHR 0x81,
      CHR 0x8C, CHR 0xE3, CHR 0x81, CHR 0x82, CHR 0xE3, CHR 0x82, CHR 0x8A, CHR 0xE3,
      CHR 0x81, CHR 0xBE, CHR 0xE3, CHR 0x81, CHR 0x9B, CHR 0xE3, CHR 0x82, CHR 0x93]
   \<and> (fst (ShipWithWrongSeller e itemID w) = Return None \<longleftrightarrow>
        (\<exists>token res re.
           secureRandomStr e 20 = Inr token
           \<and> transport e w (AppURL w, ''/ship'', ''application/json'', reqShip token itemID) = Some res
           \<and> StatusCode res = 403
           \<and> decode_resErr (Body res) = (re, None)
           \<and> Error re = msg_forbidden))
   \<and> (secureRandomStr e 20 = Inr token
        \<and> transport e w (AppURL w, ''/ship'', ''application/json'', reqShip token itemID) = Some res
        \<and> StatusCode res = 403
        \<and> decode_resErr (Body res) = (re, None)
        \<and> Error re \<noteq> msg_forbidden \<longrightarrow>
        fst (ShipWithWrongSeller e itemID w) =
          Return (Some (NewError None (''POST /ship: '' @ msg_forbidden_missing))))"
proof -
  have lit: "msg_forbidden = [
      CHR 0xE6, CHR 0xA8, CHR 0xA9, CHR 0xE9, CHR 0x99, CHR 0x90, CHR 0xE3, CHR 0x81,
      CHR 0x8C, CHR 0xE3, CHR 0x81, CHR 0x82, CHR 0xE3, CHR 0x82, CHR 0x8A, CHR 0xE3,
      CHR 0x81, CHR 0xBE, CHR 0xE3, CHR 0x81, CHR 0x9B, CHR 0xE3, CHR 0x82, CHR 0x93]"
    by (simp add: msg_forbidden_def)
  have passes: "fst (ShipWithWrongSeller e itemID w) = Return None \<longleftrightarrow>
        (\<exists>token res re.
           secureRandomStr e 20 = Inr token
           \<and> transport e w (AppURL w, ''/ship'', ''application/json'', reqShip token itemID) = Some res
           \<and> StatusCode res = 403
           \<and> decode_resErr (Body res) = (re, None)
           \<and> Error re = msg_forbidden)"
  proof (cases "secureRandomStr e 20")
    case (Inl err)
    then show ?thesis by (simp add: ShipWithWrongSeller_run)
  next
    case (Inr token)
    with run_case_passes_iff [of e "''ship''" "reqShip token itemID" 403 msg_forbidden
        msg_forbidden_missing w]
    show ?thesis by (simp add: ShipWithWrongSeller_run)
  qed
  have mismatch: "fst (ShipWithWrongSeller e itemID w) =
          Return (Some (NewError None (''POST /ship: '' @ msg_forbidden_missing)))"
    if "secureRandomStr e 20 = Inr token"
      "transport e w (AppURL w, ''/ship'', ''application/json'', reqShip token itemID) = Some res"
      "StatusCode res = 403" "decode_resErr (Body res) = (re, None)" "Error re \<noteq> msg_forbidden"
    using that run_case_wrong_message [of e w "''ship''" "reqShip token itemID" res 403 re
        msg_forbidden msg_forbidden_missing]
    by (simp add: ShipWithWrongSeller_run)
  from lit passes mismatch show ?thesis by blast
qed

theorem ship_forbidden_message_witness:
  "fst (ShipWithWrongSeller (answering zeros (Inr (envelope 403 msg_forbidden)))
     7 (fresh_world ''token'')) = Return None
   \<and> fst (ShipWithWrongSeller (answering zeros (Inr (envelope 403 ''forbidden'')))
     7 (fresh_world ''token'')) =
       Return (Some (NewError None (''POST /ship: '' @ msg_forbidden_missing)))"
proof
  let ?good = "answering zeros (Inr (envelope 403 msg_forbidden))"
  let ?bad = "answering zeros (Inr (envelope 403 ''forbidden''))"
  let ?w = "fresh_world ''token''"
  let ?token = forty_zeros
  have "\<exists>token res re.
      secureRandomStr ?good 20 = Inr token
      \<and> transport ?good ?w (AppURL ?w, ''/ship'', ''application/json'', reqShip token 7) = Some res
      \<and> StatusCode res = 403 \<and> decode_resErr (Body res) = (re, None)
      \<and> Error re = msg_forbidden"
    by (rule exI [of _ ?token], rule exI [of _ "envelope 403 msg_forbidden"],
        rule exI [of _ "\<lparr>Error = msg_forbidden\<rparr>"])
      (simp add: answering_transport answering_forty_zeros decode_envelope StatusCode_envelope)
  with ship_forbidden_message [where e = ?good and w = ?w and itemID = 7]
  show "fst (ShipWithWrongSeller ?good 7 ?w) = Return None"
    by blast
  have "''forbidden'' \<noteq> msg_forbidden"
    by (simp add: msg_forbidden_def)
  then have "secureRandomStr ?bad 20 = Inr ?token
      \<and> transport ?bad ?w (AppURL ?w, ''/ship'', ''application/json'', reqShip ?token 7) =
          Some (envelope 403 ''forbidden'')
      \<and> StatusCode (envelope 403 ''forbidden'') = 403
      \<and> decode_resErr (Body (envelope 403 ''forbidden'')) = (\<lparr>Error = ''forbidden''\<rparr>, None)
      \<and> Error \<lparr>Error = ''forbidden''\<rparr> \<noteq> msg_forbidden"
    by (simp add: answering_transport answering_forty_zeros decode_envelope StatusCode_envelope)
  with ship_forbidden_message [where e = ?bad and w = ?w and itemID = 7 and token = ?token
      and res = "envelope 403 ''forbidden''" and re = "\<lparr>Error = ''forbidden''\<rparr>"]
  show "fst (ShipWithWrongSeller ?bad 7 ?w) =
       Return (Some (NewError None (''POST /ship: '' @ msg_forbidden_missing)))"
    by blast
qed

text \<open>
  C4. In every case, when the status of the response differs from the expected one, the
  case returns the failure built from \<open>checkStatusCode\<close>'s error and diagnostic, and
  \<open>Decode\<close> has not been called; \<open>Decode\<close> is called only after a response whose status
  is the expected one.
\<close>

theorem status_mismatch_skips_decoding:
  "((transport e w (AppURL w, ''/login'', ''application/json'', reqLogin accountName password) =
    Some res \<and> StatusCode res \<noteq> 401 \<longrightarrow>
        fst (LoginWithWrongPassword e accountName password w) =
          Return (Some (NewError (Some (StatusCodeError (StatusCode res) 401))
            (''POST /login: '' @ status_diagnostic e (StatusCode res) 401)))
        \<and> decodes (snd (LoginWithWrongPassword e accountName password w)) = decodes w)
      \<and> (decodes (snd (LoginWithWrongPassword e accountName password w)) \<noteq> decodes w
        \<longrightarrow>
        (\<exists>res'. transport e w (AppURL w, ''/login'', ''application/json'', reqLogin
          accountName password) = Some res' \<and> StatusCode res' = 401)))
   \<and> ((secureRandomStr e 20 = Inr token \<and> transport e w (AppURL w, ''/sell'',
     ''application/json'', reqSell token name price description categoryID) = Some res \<and>
     StatusCode res \<noteq> 422 \<longrightarrow>
        fst (SellWithWrongCSRFToken e name price description categoryID w) =
          Return (Some (NewError (Some (StatusCodeError (StatusCode res) 422))
            (''POST /sell: '' @ status_diagnostic e (StatusCode res) 422)))
        \<and> decodes (snd (SellWithWrongCSRFToken e name price description categoryID w)) =
          decodes w)
      \<and> (decodes (snd (SellWithWrongCSRFToken e name price description categoryID w))
        \<noteq> decodes w \<longrightarrow>
        (\<exists>token res'. secureRandomStr e 20 = Inr token \<and> transport e w (AppURL w,
          ''/sell'', ''application/json'', reqSell token name price description categoryID) = Some
          res' \<and> StatusCode res' = 422)))
   \<and> ((transport e w (AppURL w, ''/sell'', ''application/json'', reqSell (csrfToken (session
     w)) name price description categoryID) = Some res \<and> StatusCode res \<noteq> 400
     \<longrightarrow>
        fst (SellWithWrongPrice e name price description categoryID w) =
          Return (Some (NewError (Some (StatusCodeError (StatusCode res) 400))
            (''POST /sell: '' @ status_diagnostic e (StatusCode res) 400)))
        \<and> decodes (snd (SellWithWrongPrice e name price description categoryID w)) = decodes
          w)
      \<and> (decodes (snd (SellWithWrongPrice e name price description categoryID w)) \<noteq>
        decodes w \<longrightarrow>
        (\<exists>res'. transport e w (AppURL w, ''/sell'', ''application/json'', reqSell
          (csrfToken (session w)) name price description categoryID) = Some res' \<and> StatusCode
          res' = 400)))
   \<and> ((secureRandomStr e 20 = Inr token \<and> transport e w (AppURL w, ''/buy'',
     ''application/json'', reqBuy token itemID paymentToken) = Some res \<and> StatusCode res
     \<noteq> 422 \<longrightarrow>
        fst (BuyWithWrongCSRFToken e itemID paymentToken w) =
          Return (Some (NewError (Some (StatusCodeError (StatusCode res) 422))
            (''POST /buy: '' @ status_diagnostic e (StatusCode res) 422)))
        \<and> decodes (snd (BuyWithWrongCSRFToken e itemID paymentToken w)) = decodes w)
      \<and> (decodes (snd (BuyWithWrongCSRFToken e itemID paymentToken w)) \<noteq> decodes w
        \<longrightarrow>
        (\<exists>token res'. secureRandomStr e 20 = Inr token \<and> transport e w (AppURL w,
          ''/buy'', ''application/json'', reqBuy token itemID paymentToken) = Some res' \<and>
          StatusCode res' = 422)))
   \<and> ((transport e w (AppURL w, ''/buy'', ''application/json'', reqBuy (csrfToken (session
     w)) itemID paymentToken) = Some res \<and> StatusCode res \<noteq> expectedStatus
     \<longrightarrow>
        fst (BuyWithFailed e itemID paymentToken expectedStatus expectedMsg w) =
          Return (Some (NewError (Some (StatusCodeError (StatusCode res) expectedStatus))
            (''POST /buy: '' @ status_diagnostic e (StatusCode res) expectedStatus)))
        \<and> decodes (snd (BuyWithFailed e itemID paymentToken expectedStatus expectedMsg w)) =
          decodes w)
      \<and> (decodes (snd (BuyWithFailed e itemID paymentToken expectedStatus expectedMsg w))
        \<noteq> decodes w \<longrightarrow>
        (\<exists>res'. transport e w (AppURL w, ''/buy'', ''application/json'', reqBuy (csrfToken
          (session w)) itemID paymentToken) = Some res' \<and> StatusCode res' = expectedStatus)))
   \<and> ((secureRandomStr e 20 = Inr token \<and> transport e w (AppURL w, ''/ship'',
     ''application/json'', reqShip token itemID) = Some res \<and> StatusCode res \<noteq> 422
     \<longrightarrow>
        fst (ShipWithWrongCSRFToken e itemID w) =
          Return (Some (NewError (Some (StatusCodeError (StatusCode res) 422))
            (''POST /ship: '' @ status_diagnostic e (StatusCode res) 422)))
        \<and> decodes (snd (ShipWithWrongCSRFToken e itemID w)) = decodes w)
      \<and> (decodes (snd (ShipWithWrongCSRFToken e itemID w)) \<noteq> decodes w
        \<longrightarrow>
        (\<exists>token res'. secureRandomStr e 20 = Inr token \<and> transport e w (AppURL w,
          ''/ship'', ''application/json'', reqShip token itemID) = Some res' \<and> StatusCode
          res' = 422)))
   \<and> ((secureRandomStr e 20 = Inr token \<and> transport e w (AppURL w, ''/ship'',
     ''application/json'', reqShip token itemID) = Some res \<and> StatusCode res \<noteq> 403
     \<longrightarrow>
        fst (ShipWithWrongSeller e itemID w) =
          Return (Some (NewError (Some (StatusCodeError (StatusCode res) 403))
            (''POST /ship: '' @ status_diagnostic e (StatusCode res) 403)))
        \<and> decodes (snd (ShipWithWrongSeller e itemID w)) = decodes w)
      \<and> (decodes (snd (ShipWithWrongSeller e itemID w)) \<noteq> decodes w \<longrightarrow>
        (\<exists>token res'. secureRandomStr e 20 = Inr token \<and> transport e w (AppURL w,
          ''/ship'', ''application/json'', reqShip token itemID) = Some res' \<and> StatusCode
          res' = 403)))"
proof -
  have c1: "(transport e w (AppURL w, ''/login'', ''application/json'', reqLogin accountName
    password) = Some res \<and> StatusCode res \<noteq> 401 \<longrightarrow>
        fst (LoginWithWrongPassword e accountName password w) =
          Return (Some (NewError (Some (StatusCodeError (StatusCode res) 401))
            (''POST /login: '' @ status_diagnostic e (StatusCode res) 401)))
        \<and> decodes (snd (LoginWithWrongPassword e accountName password w)) = decodes w)
      \<and> (decodes (snd (LoginWithWrongPassword e accountName password w)) \<noteq> decodes w
        \<longrightarrow>
        (\<exists>res'. transport e w (AppURL w, ''/login'', ''application/json'', reqLogin
          accountName password) = Some res' \<and> StatusCode res' = 401))"
    using run_case_wrong_status(1,2) [of e w "''login''" "reqLogin accountName password" res 401
      "None"]
      run_case_decodes_only_after_status [of e "''login''" "reqLogin accountName password" 401
        "None" w]
    by (auto simp add: LoginWithWrongPassword_run)
  have c2: "(secureRandomStr e 20 = Inr token \<and> transport e w (AppURL w, ''/sell'',
    ''application/json'', reqSell token name price description categoryID) = Some res \<and>
    StatusCode res \<noteq> 422 \<longrightarrow>
        fst (SellWithWrongCSRFToken e name price description categoryID w) =
          Return (Some (NewError (Some (StatusCodeError (StatusCode res) 422))
            (''POST /sell: '' @ status_diagnostic e (StatusCode res) 422)))
        \<and> decodes (snd (SellWithWrongCSRFToken e name price description categoryID w)) =
          decodes w)
      \<and> (decodes (snd (SellWithWrongCSRFToken e name price description categoryID w))
        \<noteq> decodes w \<longrightarrow>
        (\<exists>token res'. secureRandomStr e 20 = Inr token \<and> transport e w (AppURL w,
          ''/sell'', ''application/json'', reqSell token name price description categoryID) = Some
          res' \<and> StatusCode res' = 422))"
  proof (cases "secureRandomStr e 20")
    case (Inl err)
    then show ?thesis by (simp add: SellWithWrongCSRFToken_run)
  next
    case (Inr t)
    with run_case_wrong_status(1,2) [of e w "''sell''" "reqSell t name price description
      categoryID" res 422 "None"]
      run_case_decodes_only_after_status [of e "''sell''" "reqSell t name price description
        categoryID" 422 "None" w]
    show ?thesis by (auto simp add: SellWithWrongCSRFToken_run)
  qed
  have c3: "(transport e w (AppURL w, ''/sell'', ''application/json'', reqSell (csrfToken (session
    w)) name price description categoryID) = Some res \<and> StatusCode res \<noteq> 400
    \<longrightarrow>
        fst (SellWithWrongPrice e name price description categoryID w) =
          Return (Some (NewError (Some (StatusCodeError (StatusCode res) 400))
            (''POST /sell: '' @ status_diagnostic e (StatusCode res) 400)))
        \<and> decodes (snd (SellWithWrongPrice e name price description categoryID w)) = decodes
          w)
      \<and> (decodes (snd (SellWithWrongPrice e name price description categoryID w)) \<noteq>
        decodes w \<longrightarrow>
        (\<exists>res'. transport e w (AppURL w, ''/sell'', ''application/json'', reqSell
          (csrfToken (session w)) name price description categoryID) = Some res' \<and> StatusCode
          res' = 400))"
    using run_case_wrong_status(1,2) [of e w "''sell''" "reqSell (csrfToken (session w)) name
      price description categoryID" res 400 "(Some (ItemPriceErrMsg, msg_price_range))"]
      run_case_decodes_only_after_status [of e "''sell''" "reqSell (csrfToken (session w)) name
        price description categoryID" 400 "(Some (ItemPriceErrMsg, msg_price_range))" w]
    by (auto simp add: SellWithWrongPrice_run)
  have c4: "(secureRandomStr e 20 = Inr token \<and> transport e w (AppURL w, ''/buy'',
    ''application/json'', reqBuy token itemID paymentToken) = Some res \<and> StatusCode res
    \<noteq> 422 \<longrightarrow>
        fst (BuyWithWrongCSRFToken e itemID paymentToken w) =
          Return (Some (NewError (Some (StatusCodeError (StatusCode res) 422))
            (''POST /buy: '' @ status_diagnostic e (StatusCode res) 422)))
        \<and> decodes (snd (BuyWithWrongCSRFToken e itemID paymentToken w)) = decodes w)
      \<and> (decodes (snd (BuyWithWrongCSRFToken e itemID paymentToken w)) \<noteq> decodes w
        \<longrightarrow>
        (\<exists>token res'. secureRandomStr e 20 = Inr token \<and> transport e w (AppURL w,
          ''/buy'', ''application/json'', reqBuy token itemID paymentToken) = Some res' \<and>
          StatusCode res' = 422))"
  proof (cases "secureRandomStr e 20")
    case (Inl err)
    then show ?thesis by (simp add: BuyWithWrongCSRFToken_run)
  next
    case (Inr t)
    with run_case_wrong_status(1,2) [of e w "''buy''" "reqBuy t itemID paymentToken" res 422
      "None"]
      run_case_decodes_only_after_status [of e "''buy''" "reqBuy t itemID paymentToken" 422 "None"
        w]
    show ?thesis by (auto simp add: BuyWithWrongCSRFToken_run)
  qed
  have c5: "(transport e w (AppURL w, ''/buy'', ''application/json'', reqBuy (csrfToken (session
    w)) itemID paymentToken) = Some res \<and> StatusCode res \<noteq> expectedStatus
    \<longrightarrow>
        fst (BuyWithFailed e itemID paymentToken expectedStatus expectedMsg w) =
          Return (Some (NewError (Some (StatusCodeError (StatusCode res) expectedStatus))
            (''POST /buy: '' @ status_diagnostic e (StatusCode res) expectedStatus)))
        \<and> decodes (snd (BuyWithFailed e itemID paymentToken expectedStatus expectedMsg w)) =
          decodes w)
      \<and> (decodes (snd (BuyWithFailed e itemID paymentToken expectedStatus expectedMsg w))
        \<noteq> decodes w \<longrightarrow>
        (\<exists>res'. transport e w (AppURL w, ''/buy'', ''application/json'', reqBuy (csrfToken
          (session w)) itemID paymentToken) = Some res' \<and> StatusCode res' = expectedStatus))"
    using run_case_wrong_status(1,2) [of e w "''buy''" "reqBuy (csrfToken (session w)) itemID
      paymentToken" res expectedStatus "(Some (expectedMsg, expectedMsg @ msg_not_that_error))"]
      run_case_decodes_only_after_status [of e "''buy''" "reqBuy (csrfToken (session w)) itemID
        paymentToken" expectedStatus "(Some (expectedMsg, expectedMsg @ msg_not_that_error))" w]
    by (auto simp add: BuyWithFailed_run)
  have c6: "(secureRandomStr e 20 = Inr token \<and> transport e w (AppURL w, ''/ship'',
    ''application/json'', reqShip token itemID) = Some res \<and> StatusCode res \<noteq> 422
    \<longrightarrow>
        fst (ShipWithWrongCSRFToken e itemID w) =
          Return (Some (NewError (Some (StatusCodeError (StatusCode res) 422))
            (''POST /ship: '' @ status_diagnostic e (StatusCode res) 422)))
        \<and> decodes (snd (ShipWithWrongCSRFToken e itemID w)) = decodes w)
      \<and> (decodes (snd (ShipWithWrongCSRFToken e itemID w)) \<noteq> decodes w
        \<longrightarrow>
        (\<exists>token res'. secureRandomStr e 20 = Inr token \<and> transport e w (AppURL w,
          ''/ship'', ''application/json'', reqShip token itemID) = Some res' \<and> StatusCode
          res' = 422))"
  proof (cases "secureRandomStr e 20")
    case (Inl err)
    then show ?thesis by (simp add: ShipWithWrongCSRFToken_run)
  next
    case (Inr t)
    with run_case_wrong_status(1,2) [of e w "''ship''" "reqShip t itemID" res 422 "None"]
      run_case_decodes_only_after_status [of e "''ship''" "reqShip t itemID" 422 "None" w]
    show ?thesis by (auto simp add: ShipWithWrongCSRFToken_run)
  qed
  have c7: "(secureRandomStr e 20 = Inr token \<and> transport e w (AppURL w, ''/ship'',
    ''application/json'', reqShip token itemID) = Some res \<and> StatusCode res \<noteq> 403
    \<longrightarrow>
        fst (ShipWithWrongSeller e itemID w) =
          Return (Some (NewError (Some (StatusCodeError (StatusCode res) 403))
            (''POST /ship: '' @ status_diagnostic e (StatusCode res) 403)))
        \<and> decodes (snd (ShipWithWrongSeller e itemID w)) = decodes w)
      \<and> (decodes (snd (ShipWithWrongSeller e itemID w)) \<noteq> decodes w \<longrightarrow>
        (\<exists>token res'. secureRandomStr e 20 = Inr token \<and> transport e w (AppURL w,
          ''/ship'', ''application/json'', reqShip token itemID) = Some res' \<and> StatusCode
          res' = 403))"
  proof (cases "secureRandomStr e 20")
    case (Inl err)
    then show ?thesis by (simp add: ShipWithWrongSeller_run)
  next
    case (Inr t)
    with run_case_wrong_status(1,2) [of e w "''ship''" "reqShip t itemID" res 403 "(Some
      (msg_forbidden, msg_forbidden_missing))"]
      run_case_decodes_only_after_status [of e "''ship''" "reqShip t itemID" 403 "(Some
        (msg_forbidden, msg_forbidden_missing))" w]
    show ?thesis by (auto simp add: ShipWithWrongSeller_run)
  qed
  show ?thesis
    by (rule conjI [OF c1 conjI [OF c2 conjI [OF c3 conjI [OF c4 conjI [OF c5 conjI [OF c6
      c7]]]]]])
qed

theorem status_mismatch_skips_decoding_witness:
  "(fst (LoginWithWrongPassword (answering zeros (Inr (envelope 500 ''oops''))) ''alice''
    ''wrong-pw'' (fresh_world ''token'')) =
      Return (Some (NewError (Some (StatusCodeError 500 401))
        (''POST /login: '' @ ''unexpected status code'')))
    \<and> decodes (snd (LoginWithWrongPassword (answering zeros (Inr (envelope 500 ''oops'')))
      ''alice'' ''wrong-pw'' (fresh_world ''token''))) = 0)
   \<and> (fst (SellWithWrongCSRFToken (answering zeros (Inr (envelope 500 ''oops''))) ''widget''
     50 ''desc'' 1 (fresh_world ''token'')) =
      Return (Some (NewError (Some (StatusCodeError 500 422))
        (''POST /sell: '' @ ''unexpected status code'')))
    \<and> decodes (snd (SellWithWrongCSRFToken (answering zeros (Inr (envelope 500 ''oops'')))
      ''widget'' 50 ''desc'' 1 (fresh_world ''token''))) = 0)
   \<and> (fst (SellWithWrongPrice (answering zeros (Inr (envelope 500 ''oops''))) ''widget'' 50
     ''desc'' 1 (fresh_world ''token'')) =
      Return (Some (NewError (Some (StatusCodeError 500 400))
        (''POST /sell: '' @ ''unexpected status code'')))
    \<and> decodes (snd (SellWithWrongPrice (answering zeros (Inr (envelope 500 ''oops'')))
      ''widget'' 50 ''desc'' 1 (fresh_world ''token''))) = 0)
   \<and> (fst (BuyWithWrongCSRFToken (answering zeros (Inr (envelope 500 ''oops''))) 7 ''card''
     (fresh_world ''token'')) =
      Return (Some (NewError (Some (StatusCodeError 500 422))
        (''POST /buy: '' @ ''unexpected status code'')))
    \<and> decodes (snd (BuyWithWrongCSRFToken (answering zeros (Inr (envelope 500 ''oops''))) 7
      ''card'' (fresh_world ''token''))) = 0)
   \<and> (fst (BuyWithFailed (answering zeros (Inr (envelope 500 ''oops''))) 7 ''card'' 404
     (''item not found'') (fresh_world ''token'')) =
      Return (Some (NewError (Some (StatusCodeError 500 404))
        (''POST /buy: '' @ ''unexpected status code'')))
    \<and> decodes (snd (BuyWithFailed (answering zeros (Inr (envelope 500 ''oops''))) 7 ''card''
      404 (''item not found'') (fresh_world ''token''))) = 0)
   \<and> (fst (ShipWithWrongCSRFToken (answering zeros (Inr (envelope 500 ''oops''))) 7
     (fresh_world ''token'')) =
      Return (Some (NewError (Some (StatusCodeError 500 422))
        (''POST /ship: '' @ ''unexpected status code'')))
    \<and> decodes (snd (ShipWithWrongCSRFToken (answering zeros (Inr (envelope 500 ''oops''))) 7
      (fresh_world ''token''))) = 0)
   \<and> (fst (ShipWithWrongSeller (answering zeros (Inr (envelope 500 ''oops''))) 7 (fresh_world
     ''token'')) =
      Return (Some (NewError (Some (StatusCodeError 500 403))
        (''POST /ship: '' @ ''unexpected status code'')))
    \<and> decodes (snd (ShipWithWrongSeller (answering zeros (Inr (envelope 500 ''oops''))) 7
      (fresh_world ''token''))) = 0)
   \<and> (\<exists>res'. transport (answering zeros (Inr (envelope 401 ''no''))) (fresh_world
     ''token'') (AppURL (fresh_world ''token''), ''/login'', ''application/json'', reqLogin
     ''alice'' ''wrong-pw'') = Some res' \<and> StatusCode res' = 401)
   \<and> (\<exists>token res'. secureRandomStr (answering zeros (Inr (envelope 422 ''no''))) 20 =
     Inr token \<and> transport (answering zeros (Inr (envelope 422 ''no''))) (fresh_world
     ''token'') (AppURL (fresh_world ''token''), ''/sell'', ''application/json'', reqSell token
     ''widget'' 50 ''desc'' 1) = Some res' \<and> StatusCode res' = 422)
   \<and> (\<exists>res'. transport (answering zeros (Inr (envelope 400 ''no''))) (fresh_world
     ''token'') (AppURL (fresh_world ''token''), ''/sell'', ''application/json'', reqSell
     (csrfToken (session (fresh_world ''token''))) ''widget'' 50 ''desc'' 1) = Some res' \<and>
     StatusCode res' = 400)
   \<and> (\<exists>token res'. secureRandomStr (answering zeros (Inr (envelope 422 ''no''))) 20 =
     Inr token \<and> transport (answering zeros (Inr (envelope 422 ''no''))) (fresh_world
     ''token'') (AppURL (fresh_world ''token''), ''/buy'', ''application/json'', reqBuy token 7
     ''card'') = Some res' \<and> StatusCode res' = 422)
   \<and> (\<exists>res'. transport (answering zeros (Inr (envelope 404 ''no''))) (fresh_world
     ''token'') (AppURL (fresh_world ''token''), ''/buy'', ''application/json'', reqBuy (csrfToken
     (session (fresh_world ''token''))) 7 ''card'') = Some res' \<and> StatusCode res' = 404)
   \<and> (\<exists>token res'. secureRandomStr (answering zeros (Inr (envelope 422 ''no''))) 20 =
     Inr token \<and> transport (answering zeros (Inr (envelope 422 ''no''))) (fresh_world
     ''token'') (AppURL (fresh_world ''token''), ''/ship'', ''application/json'', reqShip token 7)
     = Some res' \<and> StatusCode res' = 422)
   \<and> (\<exists>token res'. secureRandomStr (answering zeros (Inr (envelope 403 ''no''))) 20 =
     Inr token \<and> transport (answering zeros (Inr (envelope 403 ''no''))) (fresh_world
     ''token'') (AppURL (fresh_world ''token''), ''/ship'', ''application/json'', reqShip token 7)
     = Some res' \<and> StatusCode res' = 403)"
proof -
  let ?e1 = "answering zeros (Inr (envelope 500 ''oops''))"
  let ?w = "fresh_world ''token''"
  note mismatch = status_mismatch_skips_decoding
    [where accountName = "''alice''" and password = "''wrong-pw''" and name = "''widget''" and
      price = "50" and description = "''desc''" and categoryID = "1" and itemID = "7" and
      paymentToken = "''card''" and expectedStatus = "404" and expectedMsg = "''item not found''"
      and token = "forty_zeros" and e = "?e1" and w = "fresh_world ''token''" and res = "envelope
      500 ''oops''"]
  have p1: "transport ?e1 ?w (AppURL ?w, ''/login'', ''application/json'', reqLogin ''alice''
    ''wrong-pw'') = Some (envelope 500 ''oops'') \<and> StatusCode (envelope 500 ''oops'')
    \<noteq> 401"
    by (simp add: answering_transport answering_forty_zeros StatusCode_envelope)
  have a1: "fst (LoginWithWrongPassword ?e1 ''alice'' ''wrong-pw'' ?w) =
      Return (Some (NewError (Some (StatusCodeError 500 401))
        (''POST /login: '' @ ''unexpected status code'')))
    \<and> decodes (snd (LoginWithWrongPassword ?e1 ''alice'' ''wrong-pw'' ?w)) = 0"
    using mismatch [THEN conjunct1, THEN conjunct1, THEN mp, OF p1]
    by (simp add: StatusCode_envelope answering_diagnostic fresh_world_def)
  have p2: "secureRandomStr ?e1 20 = Inr forty_zeros \<and> transport ?e1 ?w (AppURL ?w,
    ''/sell'', ''application/json'', reqSell forty_zeros ''widget'' 50 ''desc'' 1) = Some
    (envelope 500 ''oops'') \<and> StatusCode (envelope 500 ''oops'') \<noteq> 422"
    by (simp add: answering_transport answering_forty_zeros StatusCode_envelope)
  have a2: "fst (SellWithWrongCSRFToken ?e1 ''widget'' 50 ''desc'' 1 ?w) =
      Return (Some (NewError (Some (StatusCodeError 500 422))
        (''POST /sell: '' @ ''unexpected status code'')))
    \<and> decodes (snd (SellWithWrongCSRFToken ?e1 ''widget'' 50 ''desc'' 1 ?w)) = 0"
    using mismatch [THEN conjunct2, THEN conjunct1, THEN conjunct1, THEN mp, OF p2]
    by (simp add: StatusCode_envelope answering_diagnostic fresh_world_def)
  have p3: "transport ?e1 ?w (AppURL ?w, ''/sell'', ''application/json'', reqSell (csrfToken
    (session ?w)) ''widget'' 50 ''desc'' 1) = Some (envelope 500 ''oops'') \<and> StatusCode
    (envelope 500 ''oops'') \<noteq> 400"
    by (simp add: answering_transport answering_forty_zeros StatusCode_envelope)
  have a3: "fst (SellWithWrongPrice ?e1 ''widget'' 50 ''desc'' 1 ?w) =
      Return (Some (NewError (Some (StatusCodeError 500 400))
        (''POST /sell: '' @ ''unexpected status code'')))
    \<and> decodes (snd (SellWithWrongPrice ?e1 ''widget'' 50 ''desc'' 1 ?w)) = 0"
    using mismatch [THEN conjunct2, THEN conjunct2, THEN conjunct1, THEN conjunct1, THEN mp, OF
      p3]
    by (simp add: StatusCode_envelope answering_diagnostic fresh_world_def)
  have p4: "secureRandomStr ?e1 20 = Inr forty_zeros \<and> transport ?e1 ?w (AppURL ?w, ''/buy'',
    ''application/json'', reqBuy forty_zeros 7 ''card'') = Some (envelope 500 ''oops'') \<and>
    StatusCode (envelope 500 ''oops'') \<noteq> 422"
    by (simp add: answering_transport answering_forty_zeros StatusCode_envelope)
  have a4: "fst (BuyWithWrongCSRFToken ?e1 7 ''card'' ?w) =
      Return (Some (NewError (Some (StatusCodeError 500 422))
        (''POST /buy: '' @ ''unexpected status code'')))
    \<and> decodes (snd (BuyWithWrongCSRFToken ?e1 7 ''card'' ?w)) = 0"
    using mismatch [THEN conjunct2, THEN conjunct2, THEN conjunct2, THEN conjunct1, THEN
      conjunct1, THEN mp, OF p4]
    by (simp add: StatusCode_envelope answering_diagnostic fresh_world_def)
  have p5: "transport ?e1 ?w (AppURL ?w, ''/buy'', ''application/json'', reqBuy (csrfToken
    (session ?w)) 7 ''card'') = Some (envelope 500 ''oops'') \<and> StatusCode (envelope 500
    ''oops'') \<noteq> 404"
    by (simp add: answering_transport answering_forty_zeros StatusCode_envelope)
  have a5: "fst (BuyWithFailed ?e1 7 ''card'' 404 (''item not found'') ?w) =
      Return (Some (NewError (Some (StatusCodeError 500 404))
        (''POST /buy: '' @ ''unexpected status code'')))
    \<and> decodes (snd (BuyWithFailed ?e1 7 ''card'' 404 (''item not found'') ?w)) = 0"
    using mismatch [THEN conjunct2, THEN conjunct2, THEN conjunct2, THEN conjunct2, THEN
      conjunct1, THEN conjunct1, THEN mp, OF p5]
    by (simp add: StatusCode_envelope answering_diagnostic fresh_world_def)
  have p6: "secureRandomStr ?e1 20 = Inr forty_zeros \<and> transport ?e1 ?w (AppURL ?w,
    ''/ship'', ''application/json'', reqShip forty_zeros 7) = Some (envelope 500 ''oops'') \<and>
    StatusCode (envelope 500 ''oops'') \<noteq> 422"
    by (simp add: answering_transport answering_forty_zeros StatusCode_envelope)
  have a6: "fst (ShipWithWrongCSRFToken ?e1 7 ?w) =
      Return (Some (NewError (Some (StatusCodeError 500 422))
        (''POST /ship: '' @ ''unexpected status code'')))
    \<and> decodes (snd (ShipWithWrongCSRFToken ?e1 7 ?w)) = 0"
    using mismatch [THEN conjunct2, THEN conjunct2, THEN conjunct2, THEN conjunct2, THEN
      conjunct2, THEN conjunct1, THEN conjunct1, THEN mp, OF p6]
    by (simp add: StatusCode_envelope answering_diagnostic fresh_world_def)
  have p7: "secureRandomStr ?e1 20 = Inr forty_zeros \<and> transport ?e1 ?w (AppURL ?w,
    ''/ship'', ''application/json'', reqShip forty_zeros 7) = Some (envelope 500 ''oops'') \<and>
    StatusCode (envelope 500 ''oops'') \<noteq> 403"
    by (simp add: answering_transport answering_forty_zeros StatusCode_envelope)
  have a7: "fst (ShipWithWrongSeller ?e1 7 ?w) =
      Return (Some (NewError (Some (StatusCodeError 500 403))
        (''POST /ship: '' @ ''unexpected status code'')))
    \<and> decodes (snd (ShipWithWrongSeller ?e1 7 ?w)) = 0"
    using mismatch [THEN conjunct2, THEN conjunct2, THEN conjunct2, THEN conjunct2, THEN
      conjunct2, THEN conjunct2, THEN conjunct1, THEN mp, OF p7]
    by (simp add: StatusCode_envelope answering_diagnostic fresh_world_def)
  have q1: "decodes (snd (LoginWithWrongPassword (answering zeros (Inr (envelope 401 ''no'')))
    ''alice'' ''wrong-pw'' (fresh_world ''token''))) \<noteq> decodes (fresh_world ''token'')"
    by (simp add: LoginWithWrongPassword_run answering_forty_zeros run_case_answered(3) [OF
      answering_transport] StatusCode_envelope)
  note match1 = status_mismatch_skips_decoding
    [where accountName = "''alice''" and password = "''wrong-pw''" and name = "''widget''" and
      price = "50" and description = "''desc''" and categoryID = "1" and itemID = "7" and
      paymentToken = "''card''" and expectedStatus = "404" and expectedMsg = "''item not found''"
      and token = "forty_zeros" and e = "answering zeros (Inr (envelope 401 ''no''))" and w =
      "fresh_world ''token''" and res = "envelope 500 ''oops''"]
  have b1: "\<exists>res'. transport (answering zeros (Inr (envelope 401 ''no''))) (fresh_world
    ''token'') (AppURL (fresh_world ''token''), ''/login'', ''application/json'', reqLogin
    ''alice'' ''wrong-pw'') = Some res' \<and> StatusCode res' = 401"
    using match1 [THEN conjunct1, THEN conjunct2, THEN mp, OF q1] .
  have q2: "decodes (snd (SellWithWrongCSRFToken (answering zeros (Inr (envelope 422 ''no'')))
    ''widget'' 50 ''desc'' 1 (fresh_world ''token''))) \<noteq> decodes (fresh_world ''token'')"
    by (simp add: SellWithWrongCSRFToken_run answering_forty_zeros run_case_answered(3) [OF
      answering_transport] StatusCode_envelope)
  note match2 = status_mismatch_skips_decoding
    [where accountName = "''alice''" and password = "''wrong-pw''" and name = "''widget''" and
      price = "50" and description = "''desc''" and categoryID = "1" and itemID = "7" and
      paymentToken = "''card''" and expectedStatus = "404" and expectedMsg = "''item not found''"
      and token = "forty_zeros" and e = "answering zeros (Inr (envelope 422 ''no''))" and w =
      "fresh_world ''token''" and res = "envelope 500 ''oops''"]
  have b2: "\<exists>token res'. secureRandomStr (answering zeros (Inr (envelope 422 ''no''))) 20
    = Inr token \<and> transport (answering zeros (Inr (envelope 422 ''no''))) (fresh_world
    ''token'') (AppURL (fresh_world ''token''), ''/sell'', ''application/json'', reqSell token
    ''widget'' 50 ''desc'' 1) = Some res' \<and> StatusCode res' = 422"
    using match2 [THEN conjunct2, THEN conjunct1, THEN conjunct2, THEN mp, OF q2] .
  have q3: "decodes (snd (SellWithWrongPrice (answering zeros (Inr (envelope 400 ''no'')))
    ''widget'' 50 ''desc'' 1 (fresh_world ''token''))) \<noteq> decodes (fresh_world ''token'')"
    by (simp add: SellWithWrongPrice_run answering_forty_zeros run_case_answered(3) [OF
      answering_transport] StatusCode_envelope)
  note match3 = status_mismatch_skips_decoding
    [where accountName = "''alice''" and password = "''wrong-pw''" and name = "''widget''" and
      price = "50" and description = "''desc''" and categoryID = "1" and itemID = "7" and
      paymentToken = "''card''" and expectedStatus = "404" and expectedMsg = "''item not found''"
      and token = "forty_zeros" and e = "answering zeros (Inr (envelope 400 ''no''))" and w =
      "fresh_world ''token''" and res = "envelope 500 ''oops''"]
  have b3: "\<exists>res'. transport (answering zeros (Inr (envelope 400 ''no''))) (fresh_world
    ''token'') (AppURL (fresh_world ''token''), ''/sell'', ''application/json'', reqSell
    (csrfToken (session (fresh_world ''token''))) ''widget'' 50 ''desc'' 1) = Some res' \<and>
    StatusCode res' = 400"
    using match3 [THEN conjunct2, THEN conjunct2, THEN conjunct1, THEN conjunct2, THEN mp, OF q3]
      .
  have q4: "decodes (snd (BuyWithWrongCSRFToken (answering zeros (Inr (envelope 422 ''no''))) 7
    ''card'' (fresh_world ''token''))) \<noteq> decodes (fresh_world ''token'')"
    by (simp add: BuyWithWrongCSRFToken_run answering_forty_zeros run_case_answered(3) [OF
      answering_transport] StatusCode_envelope)
  note match4 = status_mismatch_skips_decoding
    [where accountName = "''alice''" and password = "''wrong-pw''" and name = "''widget''" and
      price = "50" and description = "''desc''" and categoryID = "1" and itemID = "7" and
      paymentToken = "''card''" and expectedStatus = "404" and expectedMsg = "''item not found''"
      and token = "forty_zeros" and e = "answering zeros (Inr (envelope 422 ''no''))" and w =
      "fresh_world ''token''" and res = "envelope 500 ''oops''"]
  have b4: "\<exists>token res'. secureRandomStr (answering zeros (Inr (envelope 422 ''no''))) 20
    = Inr token \<and> transport (answering zeros (Inr (envelope 422 ''no''))) (fresh_world
    ''token'') (AppURL (fresh_world ''token''), ''/buy'', ''application/json'', reqBuy token 7
    ''card'') = Some res' \<and> StatusCode res' = 422"
    using match4 [THEN conjunct2, THEN conjunct2, THEN conjunct2, THEN conjunct1, THEN conjunct2,
      THEN mp, OF q4] .
  have q5: "decodes (snd (BuyWithFailed (answering zeros (Inr (envelope 404 ''no''))) 7 ''card''
    404 (''item not found'') (fresh_world ''token''))) \<noteq> decodes (fresh_world ''token'')"
    by (simp add: BuyWithFailed_run answering_forty_zeros run_case_answered(3) [OF
      answering_transport] StatusCode_envelope)
  note match5 = status_mismatch_skips_decoding
    [where accountName = "''alice''" and password = "''wrong-pw''" and name = "''widget''" and
      price = "50" and description = "''desc''" and categoryID = "1" and itemID = "7" and
      paymentToken = "''card''" and expectedStatus = "404" and expectedMsg = "''item not found''"
      and token = "forty_zeros" and e = "answering zeros (Inr (envelope 404 ''no''))" and w =
      "fresh_world ''token''" and res = "envelope 500 ''oops''"]
  have b5: "\<exists>res'. transport (answering zeros (Inr (envelope 404 ''no''))) (fresh_world
    ''token'') (AppURL (fresh_world ''token''), ''/buy'', ''application/json'', reqBuy (csrfToken
    (session (fresh_world ''token''))) 7 ''card'') = Some res' \<and> StatusCode res' = 404"
    using match5 [THEN conjunct2, THEN conjunct2, THEN conjunct2, THEN conjunct2, THEN conjunct1,
      THEN conjunct2, THEN mp, OF q5] .
  have q6: "decodes (snd (ShipWithWrongCSRFToken (answering zeros (Inr (envelope 422 ''no''))) 7
    (fresh_world ''token''))) \<noteq> decodes (fresh_world ''token'')"
    by (simp add: ShipWithWrongCSRFToken_run answering_forty_zeros run_case_answered(3) [OF
      answering_transport] StatusCode_envelope)
  note match6 = status_mismatch_skips_decoding
    [where accountName = "''alice''" and password = "''wrong-pw''" and name = "''widget''" and
      price = "50" and description = "''desc''" and categoryID = "1" and itemID = "7" and
      paymentToken = "''card''" and expectedStatus = "404" and expectedMsg = "''item not found''"
      and token = "forty_zeros" and e = "answering zeros (Inr (envelope 422 ''no''))" and w =
      "fresh_world ''token''" and res = "envelope 500 ''oops''"]
  have b6: "\<exists>token res'. secureRandomStr (answering zeros (Inr (envelope 422 ''no''))) 20
    = Inr token \<and> transport (answering zeros (Inr (envelope 422 ''no''))) (fresh_world
    ''token'') (AppURL (fresh_world ''token''), ''/ship'', ''application/json'', reqShip token 7)
    = Some res' \<and> StatusCode res' = 422"
    using match6 [THEN conjunct2, THEN conjunct2, THEN conjunct2, THEN conjunct2, THEN conjunct2,
      THEN conjunct1, THEN conjunct2, THEN mp, OF q6] .
  have q7: "decodes (snd (ShipWithWrongSeller (answering zeros (Inr (envelope 403 ''no''))) 7
    (fresh_world ''token''))) \<noteq> decodes (fresh_world ''token'')"
    by (simp add: ShipWithWrongSeller_run answering_forty_zeros run_case_answered(3) [OF
      answering_transport] StatusCode_envelope)
  note match7 = status_mismatch_skips_decoding
    [where accountName = "''alice''" and password = "''wrong-pw''" and name = "''widget''" and
      price = "50" and description = "''desc''" and categoryID = "1" and itemID = "7" and
      paymentToken = "''card''" and expectedStatus = "404" and expectedMsg = "''item not found''"
      and token = "forty_zeros" and e = "answering zeros (Inr (envelope 403 ''no''))" and w =
      "fresh_world ''token''" and res = "envelope 500 ''oops''"]
  have b7: "\<exists>token res'. secureRandomStr (answering zeros (Inr (envelope 403 ''no''))) 20
    = Inr token \<and> transport (answering zeros (Inr (envelope 403 ''no''))) (fresh_world
    ''token'') (AppURL (fresh_world ''token''), ''/ship'', ''application/json'', reqShip token 7)
    = Some res' \<and> StatusCode res' = 403"
    using match7 [THEN conjunct2, THEN conjunct2, THEN conjunct2, THEN conjunct2, THEN conjunct2,
      THEN conjunct2, THEN conjunct2, THEN mp, OF q7] .
  show ?thesis
    by (rule conjI [OF a1 conjI [OF a2 conjI [OF a3 conjI [OF a4 conjI [OF a5 conjI [OF a6 conjI
      [OF a7 conjI [OF b1 conjI [OF b2 conjI [OF b3 conjI [OF b4 conjI [OF b5 conjI [OF b6
      b7]]]]]]]]]]]]])
qed

text \<open>
  C5, as stated: on a message mismatch the failure shows the expected and the decoded
  message and carries the underlying cause. It does not. \<open>SellWithWrongPrice\<close>, answered
  with status 400 and the message \<open>item not found\<close>, returns a failure without a cause
  whose diagnostic contains neither that message nor \<open>ItemPriceErrMsg\<close>.
\<close>

theorem mismatch_diagnostic_counterexample:
  "decode_resErr (Body (envelope 400 ''item not found'')) =
     (\<lparr>Error = ''item not found''\<rparr>, None)
   \<and> ''item not found'' \<noteq> ItemPriceErrMsg
   \<and> fst (SellWithWrongPrice (answering zeros (Inr (envelope 400 ''item not found'')))
          ''widget'' 50 ''desc'' 1 (fresh_world ''token'')) =
        Return (Some (NewError None (''POST /sell: '' @ msg_price_range)))
   \<and> \<not> sublist ''item not found'' (''POST /sell: '' @ msg_price_range)
   \<and> \<not> sublist ItemPriceErrMsg (''POST /sell: '' @ msg_price_range)"
proof -
  let ?e = "answering zeros (Inr (envelope 400 ''item not found''))"
  let ?w = "fresh_world ''token''"
  have differs: "''item not found'' \<noteq> ItemPriceErrMsg"
    by (simp add: ItemPriceErrMsg_def)
  have run: "fst (SellWithWrongPrice ?e ''widget'' 50 ''desc'' 1 ?w) =
      Return (Some (NewError None (''POST /sell: '' @ msg_price_range)))"
    using differs run_case_wrong_message [of ?e ?w "''sell''"
        "reqSell (csrfToken (session ?w)) ''widget'' 50 ''desc'' 1" "envelope 400 ''item not found''"
        400 "\<lparr>Error = ''item not found''\<rparr>" ItemPriceErrMsg msg_price_range]
    by (simp add: SellWithWrongPrice_run answering_transport decode_envelope StatusCode_envelope)
  have actual: "\<not> sublist ''item not found'' (''POST /sell: '' @ msg_price_range)"
    by (simp add: msg_price_range_def sublist_code)
  have expected: "\<not> sublist ItemPriceErrMsg (''POST /sell: '' @ msg_price_range)"
    by (simp add: msg_price_range_def ItemPriceErrMsg_def sublist_code)
  from differs run actual expected show ?thesis
    by (simp only: decode_envelope simp_thms)
qed

text \<open>
  C5, amended. On a message mismatch each of the three cases returns a failure with a
  diagnostic fixed in the source: the price-range text for \<open>SellWithWrongPrice\<close>, the
  expected message followed by a fixed suffix for \<open>BuyWithFailed\<close>, the missing-permission
  text for \<open>ShipWithWrongSeller\<close>. The decoded message is not part of it, and the failure
  has no cause: the \<open>err\<close> handed to \<open>fails.NewError\<close> is the \<open>nil\<close> of the successful
  \<open>Decode\<close>.
\<close>

theorem mismatch_diagnostic_is_fixed:
  "(transport e w (AppURL w, ''/sell'', ''application/json'', reqSell (csrfToken (session w)) name
    price description categoryID) = Some res \<and> StatusCode res = 400
        \<and> decode_resErr (Body res) = (re, None) \<and> Error re \<noteq> ItemPriceErrMsg
          \<longrightarrow>
        fst (SellWithWrongPrice e name price description categoryID w) =
          Return (Some (NewError None (''POST /sell: '' @ msg_price_range))))
   \<and> (transport e w (AppURL w, ''/buy'', ''application/json'', reqBuy (csrfToken (session w))
     itemID paymentToken) = Some res \<and> StatusCode res = expectedStatus
        \<and> decode_resErr (Body res) = (re, None) \<and> Error re \<noteq> expectedMsg
          \<longrightarrow>
        fst (BuyWithFailed e itemID paymentToken expectedStatus expectedMsg w) =
          Return (Some (NewError None (''POST /buy: '' @ expectedMsg @ msg_not_that_error))))
   \<and> (secureRandomStr e 20 = Inr token \<and> transport e w (AppURL w, ''/ship'',
     ''application/json'', reqShip token itemID) = Some res \<and> StatusCode res = 403
        \<and> decode_resErr (Body res) = (re, None) \<and> Error re \<noteq> msg_forbidden
          \<longrightarrow>
        fst (ShipWithWrongSeller e itemID w) =
          Return (Some (NewError None (''POST /ship: '' @ msg_forbidden_missing))))
   \<and> sublist expectedMsg (''POST /buy: '' @ expectedMsg @ msg_not_that_error)"
proof -
  have c3: "(transport e w (AppURL w, ''/sell'', ''application/json'', reqSell (csrfToken (session
    w)) name price description categoryID) = Some res \<and> StatusCode res = 400
        \<and> decode_resErr (Body res) = (re, None) \<and> Error re \<noteq> ItemPriceErrMsg
          \<longrightarrow>
        fst (SellWithWrongPrice e name price description categoryID w) =
          Return (Some (NewError None (''POST /sell: '' @ msg_price_range))))"
    using run_case_wrong_message [of e w "''sell''" "reqSell (csrfToken (session w)) name price
      description categoryID" res 400 re
        ItemPriceErrMsg "msg_price_range"]
    by (simp add: SellWithWrongPrice_run)
  have c5: "(transport e w (AppURL w, ''/buy'', ''application/json'', reqBuy (csrfToken (session
    w)) itemID paymentToken) = Some res \<and> StatusCode res = expectedStatus
        \<and> decode_resErr (Body res) = (re, None) \<and> Error re \<noteq> expectedMsg
          \<longrightarrow>
        fst (BuyWithFailed e itemID paymentToken expectedStatus expectedMsg w) =
          Return (Some (NewError None (''POST /buy: '' @ expectedMsg @ msg_not_that_error))))"
    using run_case_wrong_message [of e w "''buy''" "reqBuy (csrfToken (session w)) itemID
      paymentToken" res expectedStatus re
        expectedMsg "expectedMsg @ msg_not_that_error"]
    by (simp add: BuyWithFailed_run)
  have c7: "(secureRandomStr e 20 = Inr token \<and> transport e w (AppURL w, ''/ship'',
    ''application/json'', reqShip token itemID) = Some res \<and> StatusCode res = 403
        \<and> decode_resErr (Body res) = (re, None) \<and> Error re \<noteq> msg_forbidden
          \<longrightarrow>
        fst (ShipWithWrongSeller e itemID w) =
          Return (Some (NewError None (''POST /ship: '' @ msg_forbidden_missing))))"
    using run_case_wrong_message [of e w "''ship''" "reqShip token itemID" res 403 re
        msg_forbidden "msg_forbidden_missing"]
    by (simp add: ShipWithWrongSeller_run)
  have c8: "sublist expectedMsg (''POST /buy: '' @ expectedMsg @ msg_not_that_error)"
    by (rule sublist_appendI)
  show ?thesis
    by (rule conjI [OF c3 conjI [OF c5 conjI [OF c7 c8]]])
qed

theorem mismatch_diagnostic_is_fixed_witness:
  "(fst (SellWithWrongPrice (answering zeros (Inr (envelope 400 ''sold out''))) ''widget'' 50
    ''desc'' 1 (fresh_world ''token'')) =
      Return (Some (NewError None (''POST /sell: '' @ msg_price_range))))
   \<and> (fst (BuyWithFailed (answering zeros (Inr (envelope 404 ''sold out''))) 7 ''card'' 404
     (''item not found'') (fresh_world ''token'')) =
      Return (Some (NewError None (''POST /buy: '' @ (''item not found'') @ msg_not_that_error))))
   \<and> (fst (ShipWithWrongSeller (answering zeros (Inr (envelope 403 ''sold out''))) 7
     (fresh_world ''token'')) =
      Return (Some (NewError None (''POST /ship: '' @ msg_forbidden_missing))))"
proof -
  let ?w = "fresh_world ''token''"
  note t3 = mismatch_diagnostic_is_fixed
    [where name = "''widget''" and price = "50" and description = "''desc''" and categoryID = "1"
      and itemID = "7" and paymentToken = "''card''" and expectedStatus = "404" and expectedMsg =
      "''item not found''" and token = "forty_zeros" and e = "answering zeros (Inr (envelope 400
      ''sold out''))" and w = "?w" and res = "envelope 400 ''sold out''" and re = "\<lparr>Error =
      ''sold out''\<rparr>"]
  have p3: "transport (answering zeros (Inr (envelope 400 ''sold out''))) ?w (AppURL ?w,
    ''/sell'', ''application/json'', reqSell (csrfToken (session ?w)) ''widget'' 50 ''desc'' 1) =
    Some (envelope 400 ''sold out'') \<and> StatusCode (envelope 400 ''sold out'') = 400 \<and>
    decode_resErr (Body (envelope 400 ''sold out'')) = (\<lparr>Error = ''sold out''\<rparr>,
    None) \<and> Error \<lparr>Error = ''sold out''\<rparr> \<noteq> ItemPriceErrMsg"
    by (simp add: answering_transport answering_forty_zeros decode_envelope StatusCode_envelope
        ItemPriceErrMsg_def msg_forbidden_def)
  have a3: "fst (SellWithWrongPrice (answering zeros (Inr (envelope 400 ''sold out''))) ''widget''
    50 ''desc'' 1 ?w) =
      Return (Some (NewError None (''POST /sell: '' @ msg_price_range)))"
    using t3 [THEN conjunct1, THEN mp, OF p3] .
  note t5 = mismatch_diagnostic_is_fixed
    [where name = "''widget''" and price = "50" and description = "''desc''" and categoryID = "1"
      and itemID = "7" and paymentToken = "''card''" and expectedStatus = "404" and expectedMsg =
      "''item not found''" and token = "forty_zeros" and e = "answering zeros (Inr (envelope 404
      ''sold out''))" and w = "?w" and res = "envelope 404 ''sold out''" and re = "\<lparr>Error =
      ''sold out''\<rparr>"]
  have p5: "transport (answering zeros (Inr (envelope 404 ''sold out''))) ?w (AppURL ?w, ''/buy'',
    ''application/json'', reqBuy (csrfToken (session ?w)) 7 ''card'') = Some (envelope 404
    ''sold out'') \<and> StatusCode (envelope 404 ''sold out'') = 404 \<and> decode_resErr (Body
    (envelope 404 ''sold out'')) = (\<lparr>Error = ''sold out''\<rparr>, None) \<and> Error
    \<lparr>Error = ''sold out''\<rparr> \<noteq> (''item not found'')"
    by (simp add: answering_transport answering_forty_zeros decode_envelope StatusCode_envelope
        ItemPriceErrMsg_def msg_forbidden_def)
  have a5: "fst (BuyWithFailed (answering zeros (Inr (envelope 404 ''sold out''))) 7 ''card'' 404
    (''item not found'') ?w) =
      Return (Some (NewError None (''POST /buy: '' @ (''item not found'') @ msg_not_that_error)))"
    using t5 [THEN conjunct2, THEN conjunct1, THEN mp, OF p5] .
  note t7 = mismatch_diagnostic_is_fixed
    [where name = "''widget''" and price = "50" and description = "''desc''" and categoryID = "1"
      and itemID = "7" and paymentToken = "''card''" and expectedStatus = "404" and expectedMsg =
      "''item not found''" and token = "forty_zeros" and e = "answering zeros (Inr (envelope 403
      ''sold out''))" and w = "?w" and res = "envelope 403 ''sold out''" and re = "\<lparr>Error =
      ''sold out''\<rparr>"]
  have p7: "secureRandomStr (answering zeros (Inr (envelope 403 ''sold out''))) 20 = Inr
    forty_zeros \<and> transport (answering zeros (Inr (envelope 403 ''sold out''))) ?w (AppURL
    ?w, ''/ship'', ''application/json'', reqShip forty_zeros 7) = Some (envelope 403 ''sold out'')
    \<and> StatusCode (envelope 403 ''sold out'') = 403 \<and> decode_resErr (Body (envelope 403
    ''sold out'')) = (\<lparr>Error = ''sold out''\<rparr>, None) \<and> Error \<lparr>Error =
    ''sold out''\<rparr> \<noteq> msg_forbidden"
    by (simp add: answering_transport answering_forty_zeros decode_envelope StatusCode_envelope
        ItemPriceErrMsg_def msg_forbidden_def)
  have a7: "fst (ShipWithWrongSeller (answering zeros (Inr (envelope 403 ''sold out''))) 7 ?w) =
      Return (Some (NewError None (''POST /ship: '' @ msg_forbidden_missing)))"
    using t7 [THEN conjunct2, THEN conjunct2, THEN conjunct1, THEN mp, OF p7] .
  show ?thesis
    by (rule conjI [OF a3 conjI [OF a5 a7]])
qed

text \<open>
  C6, as stated: for every outcome of the random source the forged token differs from
  the session's token. It does not: the cases never look at \<open>s.csrfToken\<close> when they
  forge one. With a session whose token is forty zeros and a random source that
  delivers twenty zero bytes, each of the four cases posts the session's own token.
\<close>

theorem forged_token_counterexample:
  "(csrfToken (session (fresh_world forty_zeros)) = forty_zeros)
   \<and> (built (snd (SellWithWrongCSRFToken (answering zeros (Inr (envelope 422 []))) ''widget''
     50 ''desc'' 1 (fresh_world forty_zeros))) =
      [(''http://localhost:8000'', ''/sell'', ''application/json'', reqSell (csrfToken (session
        (fresh_world forty_zeros))) ''widget'' 50 ''desc'' 1)])
   \<and> (built (snd (BuyWithWrongCSRFToken (answering zeros (Inr (envelope 422 []))) 7 ''card''
     (fresh_world forty_zeros))) =
      [(''http://localhost:8000'', ''/buy'', ''application/json'', reqBuy (csrfToken (session
        (fresh_world forty_zeros))) 7 ''card'')])
   \<and> (built (snd (ShipWithWrongCSRFToken (answering zeros (Inr (envelope 422 []))) 7
     (fresh_world forty_zeros))) =
      [(''http://localhost:8000'', ''/ship'', ''application/json'', reqShip (csrfToken (session
        (fresh_world forty_zeros))) 7)])
   \<and> (built (snd (ShipWithWrongSeller (answering zeros (Inr (envelope 422 []))) 7
     (fresh_world forty_zeros))) =
      [(''http://localhost:8000'', ''/ship'', ''application/json'', reqShip (csrfToken (session
        (fresh_world forty_zeros))) 7)])"
proof -
  let ?e = "answering zeros (Inr (envelope 422 []))"
  let ?w = "fresh_world forty_zeros"
  have a0: "csrfToken (session ?w) = forty_zeros"
    by (simp add: fresh_world_def)
  have a2: "built (snd (SellWithWrongCSRFToken ?e ''widget'' 50 ''desc'' 1 ?w)) =
      [(''http://localhost:8000'', ''/sell'', ''application/json'', reqSell (csrfToken (session
        ?w)) ''widget'' 50 ''desc'' 1)]"
    using run_case_built [of ?e "''sell''" "reqSell forty_zeros ''widget'' 50 ''desc'' 1" 422
      "None" ?w]
    by (simp add: SellWithWrongCSRFToken_run answering_forty_zeros fresh_world_def)
  have a4: "built (snd (BuyWithWrongCSRFToken ?e 7 ''card'' ?w)) =
      [(''http://localhost:8000'', ''/buy'', ''application/json'', reqBuy (csrfToken (session ?w))
        7 ''card'')]"
    using run_case_built [of ?e "''buy''" "reqBuy forty_zeros 7 ''card''" 422 "None" ?w]
    by (simp add: BuyWithWrongCSRFToken_run answering_forty_zeros fresh_world_def)
  have a6: "built (snd (ShipWithWrongCSRFToken ?e 7 ?w)) =
      [(''http://localhost:8000'', ''/ship'', ''application/json'', reqShip (csrfToken (session
        ?w)) 7)]"
    using run_case_built [of ?e "''ship''" "reqShip forty_zeros 7" 422 "None" ?w]
    by (simp add: ShipWithWrongCSRFToken_run answering_forty_zeros fresh_world_def)
  have a7: "built (snd (ShipWithWrongSeller ?e 7 ?w)) =
      [(''http://localhost:8000'', ''/ship'', ''application/json'', reqShip (csrfToken (session
        ?w)) 7)]"
    using run_case_built [of ?e "''ship''" "reqShip forty_zeros 7" 403 "(Some (msg_forbidden,
      msg_forbidden_missing))" ?w]
    by (simp add: ShipWithWrongSeller_run answering_forty_zeros fresh_world_def)
  show ?thesis
    by (rule conjI [OF a0 conjI [OF a2 conjI [OF a4 conjI [OF a6 a7]]]])
qed

text \<open>
  C6, amended. The forged token is the hexadecimal rendering of the twenty bytes the
  random source delivers: forty characters, each a lower-case hexadecimal digit. It is
  what each of the four cases puts into the token field of the one request it builds,
  whatever the session's token is. So it differs from a session token that is not forty
  lower-case hexadecimal digits, and from any other session token unless the random
  bytes happen to render to it.
\<close>

theorem forged_token_is_hex_of_random_bytes:
  "(length (sprintf_x (map k [0..<20])) = 40 \<and> list_all is_hex (sprintf_x (map k [0..<20])))
   \<and> (length (csrfToken (session w)) \<noteq> 40 \<or> \<not> list_all is_hex (csrfToken
     (session w)) \<longrightarrow>
        sprintf_x (map k [0..<20]) \<noteq> csrfToken (session w))
   \<and> (crand_Read e = ReadOk k \<longrightarrow>
        built (snd (SellWithWrongCSRFToken e name price description categoryID w)) =
          built w @ [(AppURL w, ''/sell'', ''application/json'', reqSell (sprintf_x (map k
            [0..<20])) name price description categoryID)])
   \<and> (crand_Read e = ReadOk k \<longrightarrow>
        built (snd (BuyWithWrongCSRFToken e itemID paymentToken w)) =
          built w @ [(AppURL w, ''/buy'', ''application/json'', reqBuy (sprintf_x (map k
            [0..<20])) itemID paymentToken)])
   \<and> (crand_Read e = ReadOk k \<longrightarrow>
        built (snd (ShipWithWrongCSRFToken e itemID w)) =
          built w @ [(AppURL w, ''/ship'', ''application/json'', reqShip (sprintf_x (map k
            [0..<20])) itemID)])
   \<and> (crand_Read e = ReadOk k \<longrightarrow>
        built (snd (ShipWithWrongSeller e itemID w)) =
          built w @ [(AppURL w, ''/ship'', ''application/json'', reqShip (sprintf_x (map k
            [0..<20])) itemID)])"
proof -
  have c0: "(length (sprintf_x (map k [0..<20])) = 40 \<and> list_all is_hex (sprintf_x (map k
    [0..<20])))"
    by (simp add: length_sprintf_x is_hex_sprintf_x)
  have c00: "(length (csrfToken (session w)) \<noteq> 40 \<or> \<not> list_all is_hex (csrfToken
    (session w)) \<longrightarrow>
        sprintf_x (map k [0..<20]) \<noteq> csrfToken (session w))"
    using c0 by auto
  have c2: "(crand_Read e = ReadOk k \<longrightarrow>
        built (snd (SellWithWrongCSRFToken e name price description categoryID w)) =
          built w @ [(AppURL w, ''/sell'', ''application/json'', reqSell (sprintf_x (map k
            [0..<20])) name price description categoryID)])"
    using run_case_built [of e "''sell''" "reqSell (sprintf_x (map k [0..<20])) name price
      description categoryID" 422 "None" w]
    by (simp add: SellWithWrongCSRFToken_run secureRandomStr_def)
  have c4: "(crand_Read e = ReadOk k \<longrightarrow>
        built (snd (BuyWithWrongCSRFToken e itemID paymentToken w)) =
          built w @ [(AppURL w, ''/buy'', ''application/json'', reqBuy (sprintf_x (map k
            [0..<20])) itemID paymentToken)])"
    using run_case_built [of e "''buy''" "reqBuy (sprintf_x (map k [0..<20])) itemID paymentToken"
      422 "None" w]
    by (simp add: BuyWithWrongCSRFToken_run secureRandomStr_def)
  have c6: "(crand_Read e = ReadOk k \<longrightarrow>
        built (snd (ShipWithWrongCSRFToken e itemID w)) =
          built w @ [(AppURL w, ''/ship'', ''application/json'', reqShip (sprintf_x (map k
            [0..<20])) itemID)])"
    using run_case_built [of e "''ship''" "reqShip (sprintf_x (map k [0..<20])) itemID" 422 "None"
      w]
    by (simp add: ShipWithWrongCSRFToken_run secureRandomStr_def)
  have c7: "(crand_Read e = ReadOk k \<longrightarrow>
        built (snd (ShipWithWrongSeller e itemID w)) =
          built w @ [(AppURL w, ''/ship'', ''application/json'', reqShip (sprintf_x (map k
            [0..<20])) itemID)])"
    using run_case_built [of e "''ship''" "reqShip (sprintf_x (map k [0..<20])) itemID" 403 "(Some
      (msg_forbidden, msg_forbidden_missing))" w]
    by (simp add: ShipWithWrongSeller_run secureRandomStr_def)
  show ?thesis
    by (rule conjI [OF c0 conjI [OF c00 conjI [OF c2 conjI [OF c4 conjI [OF c6 c7]]]]])
qed

theorem forged_token_is_hex_of_random_bytes_witness:
  "(forty_zeros \<noteq> csrfToken (session (fresh_world ''token'')))
   \<and> (built (snd (SellWithWrongCSRFToken (answering zeros (Inr (envelope 422 []))) ''widget''
     50 ''desc'' 1 (fresh_world ''token''))) =
      [(''http://localhost:8000'', ''/sell'', ''application/json'', reqSell forty_zeros ''widget''
        50 ''desc'' 1)])
   \<and> (built (snd (BuyWithWrongCSRFToken (answering zeros (Inr (envelope 422 []))) 7 ''card''
     (fresh_world ''token''))) =
      [(''http://localhost:8000'', ''/buy'', ''application/json'', reqBuy forty_zeros 7
        ''card'')])
   \<and> (built (snd (ShipWithWrongCSRFToken (answering zeros (Inr (envelope 422 []))) 7
     (fresh_world ''token''))) =
      [(''http://localhost:8000'', ''/ship'', ''application/json'', reqShip forty_zeros 7)])
   \<and> (built (snd (ShipWithWrongSeller (answering zeros (Inr (envelope 422 []))) 7
     (fresh_world ''token''))) =
      [(''http://localhost:8000'', ''/ship'', ''application/json'', reqShip forty_zeros 7)])"
proof -
  let ?e = "answering zeros (Inr (envelope 422 []))"
  let ?w = "fresh_world ''token''"
  note forged = forged_token_is_hex_of_random_bytes
    [where e = ?e and w = ?w and k = "\<lambda>i. 0" and name = "''widget''" and price = 50
      and description = "''desc''" and categoryID = 1 and itemID = 7 and paymentToken =
        "''card''"]
  have source: "crand_Read ?e = ReadOk (\<lambda>i. 0)"
    by (simp add: answering_def zeros_def)
  have short: "length (csrfToken (session ?w)) \<noteq> 40 \<or> \<not> list_all is_hex (csrfToken
    (session ?w))"
    by (simp add: fresh_world_def)
  have a0: "forty_zeros \<noteq> csrfToken (session ?w)"
    using forged [THEN conjunct2, THEN conjunct1, THEN mp, OF short, unfolded sprintf_x_zeros] .
  have a2: "built (snd (SellWithWrongCSRFToken ?e ''widget'' 50 ''desc'' 1 ?w)) =
      [(''http://localhost:8000'', ''/sell'', ''application/json'', reqSell forty_zeros ''widget''
        50 ''desc'' 1)]"
    using forged [THEN conjunct2, THEN conjunct2, THEN conjunct1, THEN mp, OF source]
    by (simp add: sprintf_x_zeros fresh_world_def)
  have a4: "built (snd (BuyWithWrongCSRFToken ?e 7 ''card'' ?w)) =
      [(''http://localhost:8000'', ''/buy'', ''application/json'', reqBuy forty_zeros 7
        ''card'')]"
    using forged [THEN conjunct2, THEN conjunct2, THEN conjunct2, THEN conjunct1, THEN mp, OF
      source]
    by (simp add: sprintf_x_zeros fresh_world_def)
  have a6: "built (snd (ShipWithWrongCSRFToken ?e 7 ?w)) =
      [(''http://localhost:8000'', ''/ship'', ''application/json'', reqShip forty_zeros 7)]"
    using forged [THEN conjunct2, THEN conjunct2, THEN conjunct2, THEN conjunct2, THEN conjunct1,
      THEN mp, OF source]
    by (simp add: sprintf_x_zeros fresh_world_def)
  have a7: "built (snd (ShipWithWrongSeller ?e 7 ?w)) =
      [(''http://localhost:8000'', ''/ship'', ''application/json'', reqShip forty_zeros 7)]"
    using forged [THEN conjunct2, THEN conjunct2, THEN conjunct2, THEN conjunct2, THEN conjunct2,
      THEN mp, OF source]
    by (simp add: sprintf_x_zeros fresh_world_def)
  show ?thesis
    by (rule conjI [OF a0 conjI [OF a2 conjI [OF a4 conjI [OF a6 a7]]]])
qed

text \<open>
  C7. A failure of the random source makes \<open>secureRandomStr\<close> panic, and the four cases
  that forge a token panic with it, before anything is built or sent; they do not return
  a failure. Nothing else makes a case panic: a case that forges a token panics exactly
  when the random source fails, and the other three cases never panic.
\<close>

theorem random_failure_panics:
  "(secureRandomStr e b = Inl err \<longleftrightarrow> crand_Read e = ReadError err)
   \<and> (fst (LoginWithWrongPassword e accountName password w) \<noteq> Panic err)
   \<and> ((fst (SellWithWrongCSRFToken e name price description categoryID w) = Panic err
     \<longleftrightarrow> crand_Read e = ReadError err)
      \<and> (crand_Read e = ReadError err \<longrightarrow> SellWithWrongCSRFToken e name price
        description categoryID w = (Panic err, w)))
   \<and> (fst (SellWithWrongPrice e name price description categoryID w) \<noteq> Panic err)
   \<and> ((fst (BuyWithWrongCSRFToken e itemID paymentToken w) = Panic err \<longleftrightarrow>
     crand_Read e = ReadError err)
      \<and> (crand_Read e = ReadError err \<longrightarrow> BuyWithWrongCSRFToken e itemID
        paymentToken w = (Panic err, w)))
   \<and> (fst (BuyWithFailed e itemID paymentToken expectedStatus expectedMsg w) \<noteq> Panic
     err)
   \<and> ((fst (ShipWithWrongCSRFToken e itemID w) = Panic err \<longleftrightarrow> crand_Read e
     = ReadError err)
      \<and> (crand_Read e = ReadError err \<longrightarrow> ShipWithWrongCSRFToken e itemID w =
        (Panic err, w)))
   \<and> ((fst (ShipWithWrongSeller e itemID w) = Panic err \<longleftrightarrow> crand_Read e =
     ReadError err)
      \<and> (crand_Read e = ReadError err \<longrightarrow> ShipWithWrongSeller e itemID w =
        (Panic err, w)))"
proof -
  have c0: "(secureRandomStr e b = Inl err \<longleftrightarrow> crand_Read e = ReadError err)"
    by (simp add: secureRandomStr_def split: rand_outcome.splits)
  have c1: "(fst (LoginWithWrongPassword e accountName password w) \<noteq> Panic err)"
    using run_case_returns [of e "''login''" "reqLogin accountName password" 401 "None" w]
    by (auto simp add: LoginWithWrongPassword_run)
  have c2: "((fst (SellWithWrongCSRFToken e name price description categoryID w) = Panic err
    \<longleftrightarrow> crand_Read e = ReadError err)
      \<and> (crand_Read e = ReadError err \<longrightarrow> SellWithWrongCSRFToken e name price
        description categoryID w = (Panic err, w)))"
  proof (cases "secureRandomStr e 20")
    case (Inl x)
    with secureRandomStr_panics [of e 20] show ?thesis
      by (auto simp add: SellWithWrongCSRFToken_run)
  next
    case (Inr t)
    with secureRandomStr_panics [of e 20] run_case_returns [of e "''sell''" "reqSell t name price
      description categoryID" 422 "None" w]
    show ?thesis
      by (auto simp add: SellWithWrongCSRFToken_run)
  qed
  have c3: "(fst (SellWithWrongPrice e name price description categoryID w) \<noteq> Panic err)"
    using run_case_returns [of e "''sell''" "reqSell (csrfToken (session w)) name price
      description categoryID" 400 "(Some (ItemPriceErrMsg, msg_price_range))" w]
    by (auto simp add: SellWithWrongPrice_run)
  have c4: "((fst (BuyWithWrongCSRFToken e itemID paymentToken w) = Panic err
    \<longleftrightarrow> crand_Read e = ReadError err)
      \<and> (crand_Read e = ReadError err \<longrightarrow> BuyWithWrongCSRFToken e itemID
        paymentToken w = (Panic err, w)))"
  proof (cases "secureRandomStr e 20")
    case (Inl x)
    with secureRandomStr_panics [of e 20] show ?thesis
      by (auto simp add: BuyWithWrongCSRFToken_run)
  next
    case (Inr t)
    with secureRandomStr_panics [of e 20] run_case_returns [of e "''buy''" "reqBuy t itemID
      paymentToken" 422 "None" w]
    show ?thesis
      by (auto simp add: BuyWithWrongCSRFToken_run)
  qed
  have c5: "(fst (BuyWithFailed e itemID paymentToken expectedStatus expectedMsg w) \<noteq> Panic
    err)"
    using run_case_returns [of e "''buy''" "reqBuy (csrfToken (session w)) itemID paymentToken"
      expectedStatus "(Some (expectedMsg, expectedMsg @ msg_not_that_error))" w]
    by (auto simp add: BuyWithFailed_run)
  have c6: "((fst (ShipWithWrongCSRFToken e itemID w) = Panic err \<longleftrightarrow> crand_Read
    e = ReadError err)
      \<and> (crand_Read e = ReadError err \<longrightarrow> ShipWithWrongCSRFToken e itemID w =
        (Panic err, w)))"
  proof (cases "secureRandomStr e 20")
    case (Inl x)
    with secureRandomStr_panics [of e 20] show ?thesis
      by (auto simp add: ShipWithWrongCSRFToken_run)
  next
    case (Inr t)
    with secureRandomStr_panics [of e 20] run_case_returns [of e "''ship''" "reqShip t itemID" 422
      "None" w]
    show ?thesis
      by (auto simp add: ShipWithWrongCSRFToken_run)
  qed
  have c7: "((fst (ShipWithWrongSeller e itemID w) = Panic err \<longleftrightarrow> crand_Read e
    = ReadError err)
      \<and> (crand_Read e = ReadError err \<longrightarrow> ShipWithWrongSeller e itemID w =
        (Panic err, w)))"
  proof (cases "secureRandomStr e 20")
    case (Inl x)
    with secureRandomStr_panics [of e 20] show ?thesis
      by (auto simp add: ShipWithWrongSeller_run)
  next
    case (Inr t)
    with secureRandomStr_panics [of e 20] run_case_returns [of e "''ship''" "reqShip t itemID" 403
      "(Some (msg_forbidden, msg_forbidden_missing))" w]
    show ?thesis
      by (auto simp add: ShipWithWrongSeller_run)
  qed
  show ?thesis
    by (rule conjI [OF c0 conjI [OF c1 conjI [OF c2 conjI [OF c3 conjI [OF c4 conjI [OF c5 conjI
      [OF c6 c7]]]]]]])
qed

theorem random_failure_panics_witness:
  "secureRandomStr (answering unavailable (Inr (envelope 200 []))) 20 = Inl (ExternalError
    ''entropy source unavailable'')
   \<and> SellWithWrongCSRFToken (answering unavailable (Inr (envelope 200 []))) ''widget'' 50
     ''desc'' 1 (fresh_world ''token'') = (Panic (ExternalError ''entropy source unavailable''),
     (fresh_world ''token''))
   \<and> BuyWithWrongCSRFToken (answering unavailable (Inr (envelope 200 []))) 7 ''card''
     (fresh_world ''token'') = (Panic (ExternalError ''entropy source unavailable''), (fresh_world
     ''token''))
   \<and> ShipWithWrongCSRFToken (answering unavailable (Inr (envelope 200 []))) 7 (fresh_world
     ''token'') = (Panic (ExternalError ''entropy source unavailable''), (fresh_world ''token''))
   \<and> ShipWithWrongSeller (answering unavailable (Inr (envelope 200 []))) 7 (fresh_world
     ''token'') = (Panic (ExternalError ''entropy source unavailable''), (fresh_world ''token''))"
proof -
  let ?e = "answering unavailable (Inr (envelope 200 []))"
  let ?w = "fresh_world ''token''"
  note failing = random_failure_panics
    [where e = ?e and w = ?w and b = 20 and err = "ExternalError ''entropy source unavailable''"
      and name = "''widget''" and price = 50 and description = "''desc''" and categoryID = 1
      and itemID = 7 and paymentToken = "''card''"]
  have unavailable: "crand_Read ?e = ReadError (ExternalError ''entropy source unavailable'')"
    by (rule answering_unavailable)
  have a0: "secureRandomStr ?e 20 = Inl (ExternalError ''entropy source unavailable'')"
    using failing [THEN conjunct1] unavailable by blast
  have a2: "SellWithWrongCSRFToken ?e ''widget'' 50 ''desc'' 1 ?w = (Panic (ExternalError
    ''entropy source unavailable''), ?w)"
    using failing [THEN conjunct2, THEN conjunct2, THEN conjunct1, THEN conjunct2] unavailable by
      blast
  have a4: "BuyWithWrongCSRFToken ?e 7 ''card'' ?w = (Panic (ExternalError
    ''entropy source unavailable''), ?w)"
    using failing [THEN conjunct2, THEN conjunct2, THEN conjunct2, THEN conjunct2, THEN conjunct1,
      THEN conjunct2] unavailable by blast
  have a6: "ShipWithWrongCSRFToken ?e 7 ?w = (Panic (ExternalError
    ''entropy source unavailable''), ?w)"
    using failing [THEN conjunct2, THEN conjunct2, THEN conjunct2, THEN conjunct2, THEN conjunct2,
      THEN conjunct2, THEN conjunct1, THEN conjunct2] unavailable by blast
  have a7: "ShipWithWrongSeller ?e 7 ?w = (Panic (ExternalError ''entropy source unavailable''),
    ?w)"
    using failing [THEN conjunct2, THEN conjunct2, THEN conjunct2, THEN conjunct2, THEN conjunct2,
      THEN conjunct2, THEN conjunct2, THEN conjunct2] unavailable by blast
  show ?thesis
    by (rule conjI [OF a0 conjI [OF a2 conjI [OF a4 conjI [OF a6 a7]]]])
qed

text \<open>
  C8, as stated: on every path with a response the body is consumed to its end and
  closed exactly once. Closed once it is, consumed it need not be: the only read a case
  issues is the single \<open>Decode\<close>, which takes one JSON value. \<open>LoginWithWrongPassword\<close>,
  answered with status 401 and a body of a thousand bytes that starts with \<open>{}\<close>, returns
  \<open>nil\<close> with the body closed once and 512 of its bytes read.
\<close>

theorem body_not_drained_counterexample:
  "fst (LoginWithWrongPassword (answering zeros (Inr (padded_object 401)))
          ''alice'' ''wrong-pw'' (fresh_world ''token'')) = Return None
   \<and> closes (snd (LoginWithWrongPassword (answering zeros (Inr (padded_object 401)))
          ''alice'' ''wrong-pw'' (fresh_world ''token''))) = 1
   \<and> bytes_read (snd (LoginWithWrongPassword (answering zeros (Inr (padded_object 401)))
          ''alice'' ''wrong-pw'' (fresh_world ''token''))) = 512
   \<and> body_size (padded_object 401) = 1000"
  using run_case_answered
      [where e = "answering zeros (Inr (padded_object 401))" and w = "fresh_world ''token''"
        and path = "''login''" and b = "reqLogin ''alice'' ''wrong-pw''"
        and res = "padded_object 401" and x = 401 and expect = None, OF answering_transport]
  by (simp add: LoginWithWrongPassword_run padded_object_def body_size_def fresh_world_def
      judge_def decode_resErr_def)

text \<open>
  C8, amended. On every path on which the transport answers, the deferred \<open>Close\<close> runs
  exactly once before the case returns, early returns included. After a response with
  the expected status the case calls \<open>Decode\<close> once, and what \<open>Decode\<close> takes for the
  first JSON value is all the case reads from the body.
\<close>

theorem body_closed_once:
  "(transport e w (AppURL w, ''/login'', ''application/json'', reqLogin accountName password) =
    Some res \<longrightarrow>
        closes (snd (LoginWithWrongPassword e accountName password w)) = closes w + 1
        \<and> (StatusCode res = 401 \<longrightarrow>
              decodes (snd (LoginWithWrongPassword e accountName password w)) = decodes w + 1
              \<and> bytes_read (snd (LoginWithWrongPassword e accountName password w)) =
                bytes_read w + first_bytes (Body res)))
   \<and> (secureRandomStr e 20 = Inr token \<and> transport e w (AppURL w, ''/sell'',
     ''application/json'', reqSell token name price description categoryID) = Some res
     \<longrightarrow>
        closes (snd (SellWithWrongCSRFToken e name price description categoryID w)) = closes w + 1
        \<and> (StatusCode res = 422 \<longrightarrow>
              decodes (snd (SellWithWrongCSRFToken e name price description categoryID w)) =
                decodes w + 1
              \<and> bytes_read (snd (SellWithWrongCSRFToken e name price description categoryID
                w)) = bytes_read w + first_bytes (Body res)))
   \<and> (transport e w (AppURL w, ''/sell'', ''application/json'', reqSell (csrfToken (session
     w)) name price description categoryID) = Some res \<longrightarrow>
        closes (snd (SellWithWrongPrice e name price description categoryID w)) = closes w + 1
        \<and> (StatusCode res = 400 \<longrightarrow>
              decodes (snd (SellWithWrongPrice e name price description categoryID w)) = decodes w
                + 1
              \<and> bytes_read (snd (SellWithWrongPrice e name price description categoryID w)) =
                bytes_read w + first_bytes (Body res)))
   \<and> (secureRandomStr e 20 = Inr token \<and> transport e w (AppURL w, ''/buy'',
     ''application/json'', reqBuy token itemID paymentToken) = Some res \<longrightarrow>
        closes (snd (BuyWithWrongCSRFToken e itemID paymentToken w)) = closes w + 1
        \<and> (StatusCode res = 422 \<longrightarrow>
              decodes (snd (BuyWithWrongCSRFToken e itemID paymentToken w)) = decodes w + 1
              \<and> bytes_read (snd (BuyWithWrongCSRFToken e itemID paymentToken w)) = bytes_read
                w + first_bytes (Body res)))
   \<and> (transport e w (AppURL w, ''/buy'', ''application/json'', reqBuy (csrfToken (session w))
     itemID paymentToken) = Some res \<longrightarrow>
        closes (snd (BuyWithFailed e itemID paymentToken expectedStatus expectedMsg w)) = closes w
          + 1
        \<and> (StatusCode res = expectedStatus \<longrightarrow>
              decodes (snd (BuyWithFailed e itemID paymentToken expectedStatus expectedMsg w)) =
                decodes w + 1
              \<and> bytes_read (snd (BuyWithFailed e itemID paymentToken expectedStatus
                expectedMsg w)) = bytes_read w + first_bytes (Body res)))
   \<and> (secureRandomStr e 20 = Inr token \<and> transport e w (AppURL w, ''/ship'',
     ''application/json'', reqShip token itemID) = Some res \<longrightarrow>
        closes (snd (ShipWithWrongCSRFToken e itemID w)) = closes w + 1
        \<and> (StatusCode res = 422 \<longrightarrow>
              decodes (snd (ShipWithWrongCSRFToken e itemID w)) = decodes w + 1
              \<and> bytes_read (snd (ShipWithWrongCSRFToken e itemID w)) = bytes_read w +
                first_bytes (Body res)))
   \<and> (secureRandomStr e 20 = Inr token \<and> transport e w (AppURL w, ''/ship'',
     ''application/json'', reqShip token itemID) = Some res \<longrightarrow>
        closes (snd (ShipWithWrongSeller e itemID w)) = closes w + 1
        \<and> (StatusCode res = 403 \<longrightarrow>
              decodes (snd (ShipWithWrongSeller e itemID w)) = decodes w + 1
              \<and> bytes_read (snd (ShipWithWrongSeller e itemID w)) = bytes_read w +
                first_bytes (Body res)))"
proof -
  have c1: "(transport e w (AppURL w, ''/login'', ''application/json'', reqLogin accountName
    password) = Some res \<longrightarrow>
        closes (snd (LoginWithWrongPassword e accountName password w)) = closes w + 1
        \<and> (StatusCode res = 401 \<longrightarrow>
              decodes (snd (LoginWithWrongPassword e accountName password w)) = decodes w + 1
              \<and> bytes_read (snd (LoginWithWrongPassword e accountName password w)) =
                bytes_read w + first_bytes (Body res)))"
    using run_case_answered(3,4,5) [of e w "''login''" "reqLogin accountName password" res 401
      "None"]
    by (simp add: LoginWithWrongPassword_run)
  have c2: "(secureRandomStr e 20 = Inr token \<and> transport e w (AppURL w, ''/sell'',
    ''application/json'', reqSell token name price description categoryID) = Some res
    \<longrightarrow>
        closes (snd (SellWithWrongCSRFToken e name price description categoryID w)) = closes w + 1
        \<and> (StatusCode res = 422 \<longrightarrow>
              decodes (snd (SellWithWrongCSRFToken e name price description categoryID w)) =
                decodes w + 1
              \<and> bytes_read (snd (SellWithWrongCSRFToken e name price description categoryID
                w)) = bytes_read w + first_bytes (Body res)))"
    using run_case_answered(3,4,5) [of e w "''sell''" "reqSell token name price description
      categoryID" res 422 "None"]
    by (simp add: SellWithWrongCSRFToken_run)
  have c3: "(transport e w (AppURL w, ''/sell'', ''application/json'', reqSell (csrfToken (session
    w)) name price description categoryID) = Some res \<longrightarrow>
        closes (snd (SellWithWrongPrice e name price description categoryID w)) = closes w + 1
        \<and> (StatusCode res = 400 \<longrightarrow>
              decodes (snd (SellWithWrongPrice e name price description categoryID w)) = decodes w
                + 1
              \<and> bytes_read (snd (SellWithWrongPrice e name price description categoryID w)) =
                bytes_read w + first_bytes (Body res)))"
    using run_case_answered(3,4,5) [of e w "''sell''" "reqSell (csrfToken (session w)) name price
      description categoryID" res 400 "(Some (ItemPriceErrMsg, msg_price_range))"]
    by (simp add: SellWithWrongPrice_run)
  have c4: "(secureRandomStr e 20 = Inr token \<and> transport e w (AppURL w, ''/buy'',
    ''application/json'', reqBuy token itemID paymentToken) = Some res \<longrightarrow>
        closes (snd (BuyWithWrongCSRFToken e itemID paymentToken w)) = closes w + 1
        \<and> (StatusCode res = 422 \<longrightarrow>
              decodes (snd (BuyWithWrongCSRFToken e itemID paymentToken w)) = decodes w + 1
              \<and> bytes_read (snd (BuyWithWrongCSRFToken e itemID paymentToken w)) = bytes_read
                w + first_bytes (Body res)))"
    using run_case_answered(3,4,5) [of e w "''buy''" "reqBuy token itemID paymentToken" res 422
      "None"]
    by (simp add: BuyWithWrongCSRFToken_run)
  have c5: "(transport e w (AppURL w, ''/buy'', ''application/json'', reqBuy (csrfToken (session
    w)) itemID paymentToken) = Some res \<longrightarrow>
        closes (snd (BuyWithFailed e itemID paymentToken expectedStatus expectedMsg w)) = closes w
          + 1
        \<and> (StatusCode res = expectedStatus \<longrightarrow>
              decodes (snd (BuyWithFailed e itemID paymentToken expectedStatus expectedMsg w)) =
                decodes w + 1
              \<and> bytes_read (snd (BuyWithFailed e itemID paymentToken expectedStatus
                expectedMsg w)) = bytes_read w + first_bytes (Body res)))"
    using run_case_answered(3,4,5) [of e w "''buy''" "reqBuy (csrfToken (session w)) itemID
      paymentToken" res expectedStatus "(Some (expectedMsg, expectedMsg @ msg_not_that_error))"]
    by (simp add: BuyWithFailed_run)
  have c6: "(secureRandomStr e 20 = Inr token \<and> transport e w (AppURL w, ''/ship'',
    ''application/json'', reqShip token itemID) = Some res \<longrightarrow>
        closes (snd (ShipWithWrongCSRFToken e itemID w)) = closes w + 1
        \<and> (StatusCode res = 422 \<longrightarrow>
              decodes (snd (ShipWithWrongCSRFToken e itemID w)) = decodes w + 1
              \<and> bytes_read (snd (ShipWithWrongCSRFToken e itemID w)) = bytes_read w +
                first_bytes (Body res)))"
    using run_case_answered(3,4,5) [of e w "''ship''" "reqShip token itemID" res 422 "None"]
    by (simp add: ShipWithWrongCSRFToken_run)
  have c7: "(secureRandomStr e 20 = Inr token \<and> transport e w (AppURL w, ''/ship'',
    ''application/json'', reqShip token itemID) = Some res \<longrightarrow>
        closes (snd (ShipWithWrongSeller e itemID w)) = closes w + 1
        \<and> (StatusCode res = 403 \<longrightarrow>
              decodes (snd (ShipWithWrongSeller e itemID w)) = decodes w + 1
              \<and> bytes_read (snd (ShipWithWrongSeller e itemID w)) = bytes_read w +
                first_bytes (Body res)))"
    using run_case_answered(3,4,5) [of e w "''ship''" "reqShip token itemID" res 403 "(Some
      (msg_forbidden, msg_forbidden_missing))"]
    by (simp add: ShipWithWrongSeller_run)
  show ?thesis
    by (rule conjI [OF c1 conjI [OF c2 conjI [OF c3 conjI [OF c4 conjI [OF c5 conjI [OF c6
      c7]]]]]])
qed

theorem body_closed_once_witness:
  "(closes (snd (LoginWithWrongPassword (answering zeros (Inr (padded_object 401))) ''alice''
    ''wrong-pw'' (fresh_world ''token''))) = 1
    \<and> decodes (snd (LoginWithWrongPassword (answering zeros (Inr (padded_object 401)))
      ''alice'' ''wrong-pw'' (fresh_world ''token''))) = 1
    \<and> bytes_read (snd (LoginWithWrongPassword (answering zeros (Inr (padded_object 401)))
      ''alice'' ''wrong-pw'' (fresh_world ''token''))) = 512)
   \<and> (closes (snd (SellWithWrongCSRFToken (answering zeros (Inr (padded_object 422)))
     ''widget'' 50 ''desc'' 1 (fresh_world ''token''))) = 1
    \<and> decodes (snd (SellWithWrongCSRFToken (answering zeros (Inr (padded_object 422)))
      ''widget'' 50 ''desc'' 1 (fresh_world ''token''))) = 1
    \<and> bytes_read (snd (SellWithWrongCSRFToken (answering zeros (Inr (padded_object 422)))
      ''widget'' 50 ''desc'' 1 (fresh_world ''token''))) = 512)
   \<and> (closes (snd (SellWithWrongPrice (answering zeros (Inr (padded_object 400))) ''widget''
     50 ''desc'' 1 (fresh_world ''token''))) = 1
    \<and> decodes (snd (SellWithWrongPrice (answering zeros (Inr (padded_object 400))) ''widget''
      50 ''desc'' 1 (fresh_world ''token''))) = 1
    \<and> bytes_read (snd (SellWithWrongPrice (answering zeros (Inr (padded_object 400)))
      ''widget'' 50 ''desc'' 1 (fresh_world ''token''))) = 512)
   \<and> (closes (snd (BuyWithWrongCSRFToken (answering zeros (Inr (padded_object 422))) 7
     ''card'' (fresh_world ''token''))) = 1
    \<and> decodes (snd (BuyWithWrongCSRFToken (answering zeros (Inr (padded_object 422))) 7
      ''card'' (fresh_world ''token''))) = 1
    \<and> bytes_read (snd (BuyWithWrongCSRFToken (answering zeros (Inr (padded_object 422))) 7
      ''card'' (fresh_world ''token''))) = 512)
   \<and> (closes (snd (BuyWithFailed (answering zeros (Inr (padded_object 404))) 7 ''card'' 404
     (''item not found'') (fresh_world ''token''))) = 1
    \<and> decodes (snd (BuyWithFailed (answering zeros (Inr (padded_object 404))) 7 ''card'' 404
      (''item not found'') (fresh_world ''token''))) = 1
    \<and> bytes_read (snd (BuyWithFailed (answering zeros (Inr (padded_object 404))) 7 ''card''
      404 (''item not found'') (fresh_world ''token''))) = 512)
   \<and> (closes (snd (ShipWithWrongCSRFToken (answering zeros (Inr (padded_object 422))) 7
     (fresh_world ''token''))) = 1
    \<and> decodes (snd (ShipWithWrongCSRFToken (answering zeros (Inr (padded_object 422))) 7
      (fresh_world ''token''))) = 1
    \<and> bytes_read (snd (ShipWithWrongCSRFToken (answering zeros (Inr (padded_object 422))) 7
      (fresh_world ''token''))) = 512)
   \<and> (closes (snd (ShipWithWrongSeller (answering zeros (Inr (padded_object 403))) 7
     (fresh_world ''token''))) = 1
    \<and> decodes (snd (ShipWithWrongSeller (answering zeros (Inr (padded_object 403))) 7
      (fresh_world ''token''))) = 1
    \<and> bytes_read (snd (ShipWithWrongSeller (answering zeros (Inr (padded_object 403))) 7
      (fresh_world ''token''))) = 512)"
proof -
  let ?w = "fresh_world ''token''"
  have status: "StatusCode (padded_object status) = status" for status
    by (simp add: padded_object_def)
  have first: "first_bytes (Body (padded_object status)) = 512" for status
    by (simp add: padded_object_def)
  note t1 = body_closed_once
    [where accountName = "''alice''" and password = "''wrong-pw''" and name = "''widget''" and
      price = "50" and description = "''desc''" and categoryID = "1" and itemID = "7" and
      paymentToken = "''card''" and expectedStatus = "404" and expectedMsg = "''item not found''"
      and token = "forty_zeros" and e = "answering zeros (Inr (padded_object 401))" and w = "?w"
      and res = "padded_object 401"]
  have p1: "transport (answering zeros (Inr (padded_object 401))) ?w (AppURL ?w, ''/login'',
    ''application/json'', reqLogin ''alice'' ''wrong-pw'') = Some (padded_object 401)"
    by (simp add: answering_transport answering_forty_zeros)
  have a1: "closes (snd (LoginWithWrongPassword (answering zeros (Inr (padded_object 401)))
    ''alice'' ''wrong-pw'' ?w)) = 1
    \<and> decodes (snd (LoginWithWrongPassword (answering zeros (Inr (padded_object 401)))
      ''alice'' ''wrong-pw'' ?w)) = 1
    \<and> bytes_read (snd (LoginWithWrongPassword (answering zeros (Inr (padded_object 401)))
      ''alice'' ''wrong-pw'' ?w)) = 512"
    using t1 [THEN conjunct1, THEN mp, OF p1]
    by (simp add: status first fresh_world_def)
  note t2 = body_closed_once
    [where accountName = "''alice''" and password = "''wrong-pw''" and name = "''widget''" and
      price = "50" and description = "''desc''" and categoryID = "1" and itemID = "7" and
      paymentToken = "''card''" and expectedStatus = "404" and expectedMsg = "''item not found''"
      and token = "forty_zeros" and e = "answering zeros (Inr (padded_object 422))" and w = "?w"
      and res = "padded_object 422"]
  have p2: "secureRandomStr (answering zeros (Inr (padded_object 422))) 20 = Inr forty_zeros
    \<and> transport (answering zeros (Inr (padded_object 422))) ?w (AppURL ?w, ''/sell'',
    ''application/json'', reqSell forty_zeros ''widget'' 50 ''desc'' 1) = Some (padded_object
    422)"
    by (simp add: answering_transport answering_forty_zeros)
  have a2: "closes (snd (SellWithWrongCSRFToken (answering zeros (Inr (padded_object 422)))
    ''widget'' 50 ''desc'' 1 ?w)) = 1
    \<and> decodes (snd (SellWithWrongCSRFToken (answering zeros (Inr (padded_object 422)))
      ''widget'' 50 ''desc'' 1 ?w)) = 1
    \<and> bytes_read (snd (SellWithWrongCSRFToken (answering zeros (Inr (padded_object 422)))
      ''widget'' 50 ''desc'' 1 ?w)) = 512"
    using t2 [THEN conjunct2, THEN conjunct1, THEN mp, OF p2]
    by (simp add: status first fresh_world_def)
  note t3 = body_closed_once
    [where accountName = "''alice''" and password = "''wrong-pw''" and name = "''widget''" and
      price = "50" and description = "''desc''" and categoryID = "1" and itemID = "7" and
      paymentToken = "''card''" and expectedStatus = "404" and expectedMsg = "''item not found''"
      and token = "forty_zeros" and e = "answering zeros (Inr (padded_object 400))" and w = "?w"
      and res = "padded_object 400"]
  have p3: "transport (answering zeros (Inr (padded_object 400))) ?w (AppURL ?w, ''/sell'',
    ''application/json'', reqSell (csrfToken (session ?w)) ''widget'' 50 ''desc'' 1) = Some
    (padded_object 400)"
    by (simp add: answering_transport answering_forty_zeros)
  have a3: "closes (snd (SellWithWrongPrice (answering zeros (Inr (padded_object 400))) ''widget''
    50 ''desc'' 1 ?w)) = 1
    \<and> decodes (snd (SellWithWrongPrice (answering zeros (Inr (padded_object 400))) ''widget''
      50 ''desc'' 1 ?w)) = 1
    \<and> bytes_read (snd (SellWithWrongPrice (answering zeros (Inr (padded_object 400)))
      ''widget'' 50 ''desc'' 1 ?w)) = 512"
    using t3 [THEN conjunct2, THEN conjunct2, THEN conjunct1, THEN mp, OF p3]
    by (simp add: status first fresh_world_def)
  note t4 = body_closed_once
    [where accountName = "''alice''" and password = "''wrong-pw''" and name = "''widget''" and
      price = "50" and description = "''desc''" and categoryID = "1" and itemID = "7" and
      paymentToken = "''card''" and expectedStatus = "404" and expectedMsg = "''item not found''"
      and token = "forty_zeros" and e = "answering zeros (Inr (padded_object 422))" and w = "?w"
      and res = "padded_object 422"]
  have p4: "secureRandomStr (answering zeros (Inr (padded_object 422))) 20 = Inr forty_zeros
    \<and> transport (answering zeros (Inr (padded_object 422))) ?w (AppURL ?w, ''/buy'',
    ''application/json'', reqBuy forty_zeros 7 ''card'') = Some (padded_object 422)"
    by (simp add: answering_transport answering_forty_zeros)
  have a4: "closes (snd (BuyWithWrongCSRFToken (answering zeros (Inr (padded_object 422))) 7
    ''card'' ?w)) = 1
    \<and> decodes (snd (BuyWithWrongCSRFToken (answering zeros (Inr (padded_object 422))) 7
      ''card'' ?w)) = 1
    \<and> bytes_read (snd (BuyWithWrongCSRFToken (answering zeros (Inr (padded_object 422))) 7
      ''card'' ?w)) = 512"
    using t4 [THEN conjunct2, THEN conjunct2, THEN conjunct2, THEN conjunct1, THEN mp, OF p4]
    by (simp add: status first fresh_world_def)
  note t5 = body_closed_once
    [where accountName = "''alice''" and password = "''wrong-pw''" and name = "''widget''" and
      price = "50" and description = "''desc''" and categoryID = "1" and itemID = "7" and
      paymentToken = "''card''" and expectedStatus = "404" and expectedMsg = "''item not found''"
      and token = "forty_zeros" and e = "answering zeros (Inr (padded_object 404))" and w = "?w"
      and res = "padded_object 404"]
  have p5: "transport (answering zeros (Inr (padded_object 404))) ?w (AppURL ?w, ''/buy'',
    ''application/json'', reqBuy (csrfToken (session ?w)) 7 ''card'') = Some (padded_object 404)"
    by (simp add: answering_transport answering_forty_zeros)
  have a5: "closes (snd (BuyWithFailed (answering zeros (Inr (padded_object 404))) 7 ''card'' 404
    (''item not found'') ?w)) = 1
    \<and> decodes (snd (BuyWithFailed (answering zeros (Inr (padded_object 404))) 7 ''card'' 404
      (''item not found'') ?w)) = 1
    \<and> bytes_read (snd (BuyWithFailed (answering zeros (Inr (padded_object 404))) 7 ''card''
      404 (''item not found'') ?w)) = 512"
    using t5 [THEN conjunct2, THEN conjunct2, THEN conjunct2, THEN conjunct2, THEN conjunct1, THEN
      mp, OF p5]
    by (simp add: status first fresh_world_def)
  note t6 = body_closed_once
    [where accountName = "''alice''" and password = "''wrong-pw''" and name = "''widget''" and
      price = "50" and description = "''desc''" and categoryID = "1" and itemID = "7" and
      paymentToken = "''card''" and expectedStatus = "404" and expectedMsg = "''item not found''"
      and token = "forty_zeros" and e = "answering zeros (Inr (padded_object 422))" and w = "?w"
      and res = "padded_object 422"]
  have p6: "secureRandomStr (answering zeros (Inr (padded_object 422))) 20 = Inr forty_zeros
    \<and> transport (answering zeros (Inr (padded_object 422))) ?w (AppURL ?w, ''/ship'',
    ''application/json'', reqShip forty_zeros 7) = Some (padded_object 422)"
    by (simp add: answering_transport answering_forty_zeros)
  have a6: "closes (snd (ShipWithWrongCSRFToken (answering zeros (Inr (padded_object 422))) 7 ?w))
    = 1
    \<and> decodes (snd (ShipWithWrongCSRFToken (answering zeros (Inr (padded_object 422))) 7 ?w))
      = 1
    \<and> bytes_read (snd (ShipWithWrongCSRFToken (answering zeros (Inr (padded_object 422))) 7
      ?w)) = 512"
    using t6 [THEN conjunct2, THEN conjunct2, THEN conjunct2, THEN conjunct2, THEN conjunct2, THEN
      conjunct1, THEN mp, OF p6]
    by (simp add: status first fresh_world_def)
  note t7 = body_closed_once
    [where accountName = "''alice''" and password = "''wrong-pw''" and name = "''widget''" and
      price = "50" and description = "''desc''" and categoryID = "1" and itemID = "7" and
      paymentToken = "''card''" and expectedStatus = "404" and expectedMsg = "''item not found''"
      and token = "forty_zeros" and e = "answering zeros (Inr (padded_object 403))" and w = "?w"
      and res = "padded_object 403"]
  have p7: "secureRandomStr (answering zeros (Inr (padded_object 403))) 20 = Inr forty_zeros
    \<and> transport (answering zeros (Inr (padded_object 403))) ?w (AppURL ?w, ''/ship'',
    ''application/json'', reqShip forty_zeros 7) = Some (padded_object 403)"
    by (simp add: answering_transport answering_forty_zeros)
  have a7: "closes (snd (ShipWithWrongSeller (answering zeros (Inr (padded_object 403))) 7 ?w)) =
    1
    \<and> decodes (snd (ShipWithWrongSeller (answering zeros (Inr (padded_object 403))) 7 ?w)) =
      1
    \<and> bytes_read (snd (ShipWithWrongSeller (answering zeros (Inr (padded_object 403))) 7 ?w))
      = 512"
    using t7 [THEN conjunct2, THEN conjunct2, THEN conjunct2, THEN conjunct2, THEN conjunct2, THEN
      conjunct2, THEN mp, OF p7]
    by (simp add: status first fresh_world_def)
  show ?thesis
    by (rule conjI [OF a1 conjI [OF a2 conjI [OF a3 conjI [OF a4 conjI [OF a5 conjI [OF a6
      a7]]]]]])
qed

text \<open>
  C9. No case writes to the session. Provided \<open>newPostRequest\<close> and \<open>Do\<close>, the two
  methods the cases call on it, hand the session back as they received it, the session
  (token and target URL) and the global target URL are after each of the seven cases what
  they were before. \<open>SellWithWrongPrice\<close> and \<open>BuyWithFailed\<close> put the session's token
  into the body. A case that returns has built exactly one request, the one shown, and
  has sent at most one.
\<close>

theorem cases_leave_session_alone:
  assumes "\<forall>s p. snd (newPostRequest e s p) = s"
    and "\<forall>s req. snd (Do e s req) = s"
  shows "(session (snd (LoginWithWrongPassword e accountName password w)) = session w \<and>
    AppURL (snd (LoginWithWrongPassword e accountName password w)) = AppURL w
      \<and> built (snd (LoginWithWrongPassword e accountName password w)) = built w @ [(AppURL w,
        ''/login'', ''application/json'', reqLogin accountName password)]
      \<and> length (sent (snd (LoginWithWrongPassword e accountName password w))) \<le> length
        (sent w) + 1)
   \<and> (session (snd (SellWithWrongCSRFToken e name price description categoryID w)) = session
     w \<and> AppURL (snd (SellWithWrongCSRFToken e name price description categoryID w)) = AppURL
     w
      \<and> ((\<exists>r. fst (SellWithWrongCSRFToken e name price description categoryID w) =
        Return r) \<longrightarrow>
        (\<exists>token. secureRandomStr e 20 = Inr token
           \<and> built (snd (SellWithWrongCSRFToken e name price description categoryID w)) =
             built w @ [(AppURL w, ''/sell'', ''application/json'', reqSell token name price
             description categoryID)])
        \<and> length (sent (snd (SellWithWrongCSRFToken e name price description categoryID w)))
          \<le> length (sent w) + 1))
   \<and> (session (snd (SellWithWrongPrice e name price description categoryID w)) = session w
     \<and> AppURL (snd (SellWithWrongPrice e name price description categoryID w)) = AppURL w
      \<and> built (snd (SellWithWrongPrice e name price description categoryID w)) = built w @
        [(AppURL w, ''/sell'', ''application/json'', reqSell (csrfToken (session w)) name price
        description categoryID)]
      \<and> length (sent (snd (SellWithWrongPrice e name price description categoryID w))) \<le>
        length (sent w) + 1)
   \<and> (session (snd (BuyWithWrongCSRFToken e itemID paymentToken w)) = session w \<and> AppURL
     (snd (BuyWithWrongCSRFToken e itemID paymentToken w)) = AppURL w
      \<and> ((\<exists>r. fst (BuyWithWrongCSRFToken e itemID paymentToken w) = Return r)
        \<longrightarrow>
        (\<exists>token. secureRandomStr e 20 = Inr token
           \<and> built (snd (BuyWithWrongCSRFToken e itemID paymentToken w)) = built w @ [(AppURL
             w, ''/buy'', ''application/json'', reqBuy token itemID paymentToken)])
        \<and> length (sent (snd (BuyWithWrongCSRFToken e itemID paymentToken w))) \<le> length
          (sent w) + 1))
   \<and> (session (snd (BuyWithFailed e itemID paymentToken expectedStatus expectedMsg w)) =
     session w \<and> AppURL (snd (BuyWithFailed e itemID paymentToken expectedStatus expectedMsg
     w)) = AppURL w
      \<and> built (snd (BuyWithFailed e itemID paymentToken expectedStatus expectedMsg w)) =
        built w @ [(AppURL w, ''/buy'', ''application/json'', reqBuy (csrfToken (session w))
        itemID paymentToken)]
      \<and> length (sent (snd (BuyWithFailed e itemID paymentToken expectedStatus expectedMsg
        w))) \<le> length (sent w) + 1)
   \<and> (session (snd (ShipWithWrongCSRFToken e itemID w)) = session w \<and> AppURL (snd
     (ShipWithWrongCSRFToken e itemID w)) = AppURL w
      \<and> ((\<exists>r. fst (ShipWithWrongCSRFToken e itemID w) = Return r) \<longrightarrow>
        (\<exists>token. secureRandomStr e 20 = Inr token
           \<and> built (snd (ShipWithWrongCSRFToken e itemID w)) = built w @ [(AppURL w,
             ''/ship'', ''application/json'', reqShip token itemID)])
        \<and> length (sent (snd (ShipWithWrongCSRFToken e itemID w))) \<le> length (sent w) + 1))
   \<and> (session (snd (ShipWithWrongSeller e itemID w)) = session w \<and> AppURL (snd
     (ShipWithWrongSeller e itemID w)) = AppURL w
      \<and> ((\<exists>r. fst (ShipWithWrongSeller e itemID w) = Return r) \<longrightarrow>
        (\<exists>token. secureRandomStr e 20 = Inr token
           \<and> built (snd (ShipWithWrongSeller e itemID w)) = built w @ [(AppURL w, ''/ship'',
             ''application/json'', reqShip token itemID)])
        \<and> length (sent (snd (ShipWithWrongSeller e itemID w))) \<le> length (sent w) + 1))"
proof -
  have c1: "(session (snd (LoginWithWrongPassword e accountName password w)) = session w \<and>
    AppURL (snd (LoginWithWrongPassword e accountName password w)) = AppURL w
      \<and> built (snd (LoginWithWrongPassword e accountName password w)) = built w @ [(AppURL w,
        ''/login'', ''application/json'', reqLogin accountName password)]
      \<and> length (sent (snd (LoginWithWrongPassword e accountName password w))) \<le> length
        (sent w) + 1)"
    using run_case_session [OF assms, of "''login''" "reqLogin accountName password" 401 "None" w]
      run_case_AppURL [of e "''login''" "reqLogin accountName password" 401 "None" w]
      run_case_built [of e "''login''" "reqLogin accountName password" 401 "None" w]
      run_case_sent_le [of e "''login''" "reqLogin accountName password" 401 "None" w]
    by (simp add: LoginWithWrongPassword_run)
  have c2: "(session (snd (SellWithWrongCSRFToken e name price description categoryID w)) =
    session w \<and> AppURL (snd (SellWithWrongCSRFToken e name price description categoryID w)) =
    AppURL w
      \<and> ((\<exists>r. fst (SellWithWrongCSRFToken e name price description categoryID w) =
        Return r) \<longrightarrow>
        (\<exists>token. secureRandomStr e 20 = Inr token
           \<and> built (snd (SellWithWrongCSRFToken e name price description categoryID w)) =
             built w @ [(AppURL w, ''/sell'', ''application/json'', reqSell token name price
             description categoryID)])
        \<and> length (sent (snd (SellWithWrongCSRFToken e name price description categoryID w)))
          \<le> length (sent w) + 1))"
  proof (cases "secureRandomStr e 20")
    case (Inl x)
    then show ?thesis
      by (simp add: SellWithWrongCSRFToken_run)
  next
    case (Inr t)
    with run_case_session [OF assms, of "''sell''" "reqSell t name price description categoryID"
      422 "None" w]
      run_case_AppURL [of e "''sell''" "reqSell t name price description categoryID" 422 "None" w]
      run_case_built [of e "''sell''" "reqSell t name price description categoryID" 422 "None" w]
      run_case_sent_le [of e "''sell''" "reqSell t name price description categoryID" 422 "None"
        w]
    show ?thesis
      by (simp add: SellWithWrongCSRFToken_run)
  qed
  have c3: "(session (snd (SellWithWrongPrice e name price description categoryID w)) = session w
    \<and> AppURL (snd (SellWithWrongPrice e name price description categoryID w)) = AppURL w
      \<and> built (snd (SellWithWrongPrice e name price description categoryID w)) = built w @
        [(AppURL w, ''/sell'', ''application/json'', reqSell (csrfToken (session w)) name price
        description categoryID)]
      \<and> length (sent (snd (SellWithWrongPrice e name price description categoryID w))) \<le>
        length (sent w) + 1)"
    using run_case_session [OF assms, of "''sell''" "reqSell (csrfToken (session w)) name price
      description categoryID" 400 "(Some (ItemPriceErrMsg, msg_price_range))" w]
      run_case_AppURL [of e "''sell''" "reqSell (csrfToken (session w)) name price description
        categoryID" 400 "(Some (ItemPriceErrMsg, msg_price_range))" w]
      run_case_built [of e "''sell''" "reqSell (csrfToken (session w)) name price description
        categoryID" 400 "(Some (ItemPriceErrMsg, msg_price_range))" w]
      run_case_sent_le [of e "''sell''" "reqSell (csrfToken (session w)) name price description
        categoryID" 400 "(Some (ItemPriceErrMsg, msg_price_range))" w]
    by (simp add: SellWithWrongPrice_run)
  have c4: "(session (snd (BuyWithWrongCSRFToken e itemID paymentToken w)) = session w \<and>
    AppURL (snd (BuyWithWrongCSRFToken e itemID paymentToken w)) = AppURL w
      \<and> ((\<exists>r. fst (BuyWithWrongCSRFToken e itemID paymentToken w) = Return r)
        \<longrightarrow>
        (\<exists>token. secureRandomStr e 20 = Inr token
           \<and> built (snd (BuyWithWrongCSRFToken e itemID paymentToken w)) = built w @ [(AppURL
             w, ''/buy'', ''application/json'', reqBuy token itemID paymentToken)])
        \<and> length (sent (snd (BuyWithWrongCSRFToken e itemID paymentToken w))) \<le> length
          (sent w) + 1))"
  proof (cases "secureRandomStr e 20")
    case (Inl x)
    then show ?thesis
      by (simp add: BuyWithWrongCSRFToken_run)
  next
    case (Inr t)
    with run_case_session [OF assms, of "''buy''" "reqBuy t itemID paymentToken" 422 "None" w]
      run_case_AppURL [of e "''buy''" "reqBuy t itemID paymentToken" 422 "None" w]
      run_case_built [of e "''buy''" "reqBuy t itemID paymentToken" 422 "None" w]
      run_case_sent_le [of e "''buy''" "reqBuy t itemID paymentToken" 422 "None" w]
    show ?thesis
      by (simp add: BuyWithWrongCSRFToken_run)
  qed
  have c5: "(session (snd (BuyWithFailed e itemID paymentToken expectedStatus expectedMsg w)) =
    session w \<and> AppURL (snd (BuyWithFailed e itemID paymentToken expectedStatus expectedMsg
    w)) = AppURL w
      \<and> built (snd (BuyWithFailed e itemID paymentToken expectedStatus expectedMsg w)) =
        built w @ [(AppURL w, ''/buy'', ''application/json'', reqBuy (csrfToken (session w))
        itemID paymentToken)]
      \<and> length (sent (snd (BuyWithFailed e itemID paymentToken expectedStatus expectedMsg
        w))) \<le> length (sent w) + 1)"
    using run_case_session [OF assms, of "''buy''" "reqBuy (csrfToken (session w)) itemID
      paymentToken" expectedStatus "(Some (expectedMsg, expectedMsg @ msg_not_that_error))" w]
      run_case_AppURL [of e "''buy''" "reqBuy (csrfToken (session w)) itemID paymentToken"
        expectedStatus "(Some (expectedMsg, expectedMsg @ msg_not_that_error))" w]
      run_case_built [of e "''buy''" "reqBuy (csrfToken (session w)) itemID paymentToken"
        expectedStatus "(Some (expectedMsg, expectedMsg @ msg_not_that_error))" w]
      run_case_sent_le [of e "''buy''" "reqBuy (csrfToken (session w)) itemID paymentToken"
        expectedStatus "(Some (expectedMsg, expectedMsg @ msg_not_that_error))" w]
    by (simp add: BuyWithFailed_run)
  have c6: "(session (snd (ShipWithWrongCSRFToken e itemID w)) = session w \<and> AppURL (snd
    (ShipWithWrongCSRFToken e itemID w)) = AppURL w
      \<and> ((\<exists>r. fst (ShipWithWrongCSRFToken e itemID w) = Return r) \<longrightarrow>
        (\<exists>token. secureRandomStr e 20 = Inr token
           \<and> built (snd (ShipWithWrongCSRFToken e itemID w)) = built w @ [(AppURL w,
             ''/ship'', ''application/json'', reqShip token itemID)])
        \<and> length (sent (snd (ShipWithWrongCSRFToken e itemID w))) \<le> length (sent w) +
          1))"
  proof (cases "secureRandomStr e 20")
    case (Inl x)
    then show ?thesis
      by (simp add: ShipWithWrongCSRFToken_run)
  next
    case (Inr t)
    with run_case_session [OF assms, of "''ship''" "reqShip t itemID" 422 "None" w]
      run_case_AppURL [of e "''ship''" "reqShip t itemID" 422 "None" w]
      run_case_built [of e "''ship''" "reqShip t itemID" 422 "None" w]
      run_case_sent_le [of e "''ship''" "reqShip t itemID" 422 "None" w]
    show ?thesis
      by (simp add: ShipWithWrongCSRFToken_run)
  qed
  have c7: "(session (snd (ShipWithWrongSeller e itemID w)) = session w \<and> AppURL (snd
    (ShipWithWrongSeller e itemID w)) = AppURL w
      \<and> ((\<exists>r. fst (ShipWithWrongSeller e itemID w) = Return r) \<longrightarrow>
        (\<exists>token. secureRandomStr e 20 = Inr token
           \<and> built (snd (ShipWithWrongSeller e itemID w)) = built w @ [(AppURL w, ''/ship'',
             ''application/json'', reqShip token itemID)])
        \<and> length (sent (snd (ShipWithWrongSeller e itemID w))) \<le> length (sent w) + 1))"
  proof (cases "secureRandomStr e 20")
    case (Inl x)
    then show ?thesis
      by (simp add: ShipWithWrongSeller_run)
  next
    case (Inr t)
    with run_case_session [OF assms, of "''ship''" "reqShip t itemID" 403 "(Some (msg_forbidden,
      msg_forbidden_missing))" w]
      run_case_AppURL [of e "''ship''" "reqShip t itemID" 403 "(Some (msg_forbidden,
        msg_forbidden_missing))" w]
      run_case_built [of e "''ship''" "reqShip t itemID" 403 "(Some (msg_forbidden,
        msg_forbidden_missing))" w]
      run_case_sent_le [of e "''ship''" "reqShip t itemID" 403 "(Some (msg_forbidden,
        msg_forbidden_missing))" w]
    show ?thesis
      by (simp add: ShipWithWrongSeller_run)
  qed
  show ?thesis
    by (rule conjI [OF c1 conjI [OF c2 conjI [OF c3 conjI [OF c4 conjI [OF c5 conjI [OF c6
      c7]]]]]])
qed

theorem cases_leave_session_alone_witness:
  "(session (snd (LoginWithWrongPassword (answering zeros (Inr (envelope 200 []))) ''alice''
    ''wrong-pw'' (fresh_world ''token''))) = \<lparr>csrfToken = ''token'', targetURL =
    ''http://localhost:8000''\<rparr>
    \<and> AppURL (snd (LoginWithWrongPassword (answering zeros (Inr (envelope 200 []))) ''alice''
      ''wrong-pw'' (fresh_world ''token''))) = ''http://localhost:8000''
    \<and> built (snd (LoginWithWrongPassword (answering zeros (Inr (envelope 200 []))) ''alice''
      ''wrong-pw'' (fresh_world ''token''))) = [(''http://localhost:8000'', ''/login'',
      ''application/json'', reqLogin ''alice'' ''wrong-pw'')]
    \<and> length (sent (snd (LoginWithWrongPassword (answering zeros (Inr (envelope 200 [])))
      ''alice'' ''wrong-pw'' (fresh_world ''token'')))) \<le> 1)
   \<and> (session (snd (SellWithWrongCSRFToken (answering zeros (Inr (envelope 200 [])))
     ''widget'' 50 ''desc'' 1 (fresh_world ''token''))) = \<lparr>csrfToken = ''token'', targetURL
     = ''http://localhost:8000''\<rparr>
    \<and> AppURL (snd (SellWithWrongCSRFToken (answering zeros (Inr (envelope 200 [])))
      ''widget'' 50 ''desc'' 1 (fresh_world ''token''))) = ''http://localhost:8000''
    \<and> built (snd (SellWithWrongCSRFToken (answering zeros (Inr (envelope 200 []))) ''widget''
      50 ''desc'' 1 (fresh_world ''token''))) = [(''http://localhost:8000'', ''/sell'',
      ''application/json'', reqSell forty_zeros ''widget'' 50 ''desc'' 1)]
    \<and> length (sent (snd (SellWithWrongCSRFToken (answering zeros (Inr (envelope 200 [])))
      ''widget'' 50 ''desc'' 1 (fresh_world ''token'')))) \<le> 1)
   \<and> (session (snd (SellWithWrongPrice (answering zeros (Inr (envelope 200 []))) ''widget''
     50 ''desc'' 1 (fresh_world ''token''))) = \<lparr>csrfToken = ''token'', targetURL =
     ''http://localhost:8000''\<rparr>
    \<and> AppURL (snd (SellWithWrongPrice (answering zeros (Inr (envelope 200 []))) ''widget'' 50
      ''desc'' 1 (fresh_world ''token''))) = ''http://localhost:8000''
    \<and> built (snd (SellWithWrongPrice (answering zeros (Inr (envelope 200 []))) ''widget'' 50
      ''desc'' 1 (fresh_world ''token''))) = [(''http://localhost:8000'', ''/sell'',
      ''application/json'', reqSell (''token'') ''widget'' 50 ''desc'' 1)]
    \<and> length (sent (snd (SellWithWrongPrice (answering zeros (Inr (envelope 200 [])))
      ''widget'' 50 ''desc'' 1 (fresh_world ''token'')))) \<le> 1)
   \<and> (session (snd (BuyWithWrongCSRFToken (answering zeros (Inr (envelope 200 []))) 7
     ''card'' (fresh_world ''token''))) = \<lparr>csrfToken = ''token'', targetURL =
     ''http://localhost:8000''\<rparr>
    \<and> AppURL (snd (BuyWithWrongCSRFToken (answering zeros (Inr (envelope 200 []))) 7 ''card''
      (fresh_world ''token''))) = ''http://localhost:8000''
    \<and> built (snd (BuyWithWrongCSRFToken (answering zeros (Inr (envelope 200 []))) 7 ''card''
      (fresh_world ''token''))) = [(''http://localhost:8000'', ''/buy'', ''application/json'',
      reqBuy forty_zeros 7 ''card'')]
    \<and> length (sent (snd (BuyWithWrongCSRFToken (answering zeros (Inr (envelope 200 []))) 7
      ''card'' (fresh_world ''token'')))) \<le> 1)
   \<and> (session (snd (BuyWithFailed (answering zeros (Inr (envelope 200 []))) 7 ''card'' 404
     (''item not found'') (fresh_world ''token''))) = \<lparr>csrfToken = ''token'', targetURL =
     ''http://localhost:8000''\<rparr>
    \<and> AppURL (snd (BuyWithFailed (answering zeros (Inr (envelope 200 []))) 7 ''card'' 404
      (''item not found'') (fresh_world ''token''))) = ''http://localhost:8000''
    \<and> built (snd (BuyWithFailed (answering zeros (Inr (envelope 200 []))) 7 ''card'' 404
      (''item not found'') (fresh_world ''token''))) = [(''http://localhost:8000'', ''/buy'',
      ''application/json'', reqBuy (''token'') 7 ''card'')]
    \<and> length (sent (snd (BuyWithFailed (answering zeros (Inr (envelope 200 []))) 7 ''card''
      404 (''item not found'') (fresh_world ''token'')))) \<le> 1)
   \<and> (session (snd (ShipWithWrongCSRFToken (answering zeros (Inr (envelope 200 []))) 7
     (fresh_world ''token''))) = \<lparr>csrfToken = ''token'', targetURL =
     ''http://localhost:8000''\<rparr>
    \<and> AppURL (snd (ShipWithWrongCSRFToken (answering zeros (Inr (envelope 200 []))) 7
      (fresh_world ''token''))) = ''http://localhost:8000''
    \<and> built (snd (ShipWithWrongCSRFToken (answering zeros (Inr (envelope 200 []))) 7
      (fresh_world ''token''))) = [(''http://localhost:8000'', ''/ship'', ''application/json'',
      reqShip forty_zeros 7)]
    \<and> length (sent (snd (ShipWithWrongCSRFToken (answering zeros (Inr (envelope 200 []))) 7
      (fresh_world ''token'')))) \<le> 1)
   \<and> (session (snd (ShipWithWrongSeller (answering zeros (Inr (envelope 200 []))) 7
     (fresh_world ''token''))) = \<lparr>csrfToken = ''token'', targetURL =
     ''http://localhost:8000''\<rparr>
    \<and> AppURL (snd (ShipWithWrongSeller (answering zeros (Inr (envelope 200 []))) 7
      (fresh_world ''token''))) = ''http://localhost:8000''
    \<and> built (snd (ShipWithWrongSeller (answering zeros (Inr (envelope 200 []))) 7
      (fresh_world ''token''))) = [(''http://localhost:8000'', ''/ship'', ''application/json'',
      reqShip forty_zeros 7)]
    \<and> length (sent (snd (ShipWithWrongSeller (answering zeros (Inr (envelope 200 []))) 7
      (fresh_world ''token'')))) \<le> 1)"
proof -
  let ?e = "answering zeros (Inr (envelope 200 []))"
  let ?w = "fresh_world ''token''"
  have frame: "\<forall>s p. snd (newPostRequest ?e s p) = s" "\<forall>s req. snd (Do ?e s req) =
    s"
    by (simp_all add: answering_def split: prod.splits)
  note unchanged = cases_leave_session_alone
    [where e = ?e and w = ?w and accountName = "''alice''" and password = "''wrong-pw''"
      and name = "''widget''" and price = 50 and description = "''desc''" and categoryID = 1
      and itemID = 7 and paymentToken = "''card''" and expectedStatus = 404
      and expectedMsg = "''item not found''", OF frame]
  have a1: "session (snd (LoginWithWrongPassword ?e ''alice'' ''wrong-pw'' ?w)) =
    \<lparr>csrfToken = ''token'', targetURL = ''http://localhost:8000''\<rparr>
    \<and> AppURL (snd (LoginWithWrongPassword ?e ''alice'' ''wrong-pw'' ?w)) =
      ''http://localhost:8000''
    \<and> built (snd (LoginWithWrongPassword ?e ''alice'' ''wrong-pw'' ?w)) =
      [(''http://localhost:8000'', ''/login'', ''application/json'', reqLogin ''alice''
      ''wrong-pw'')]
    \<and> length (sent (snd (LoginWithWrongPassword ?e ''alice'' ''wrong-pw'' ?w))) \<le> 1"
    using unchanged [THEN conjunct1]
    by (simp add: fresh_world_def)
  have r2: "\<exists>r. fst (SellWithWrongCSRFToken ?e ''widget'' 50 ''desc'' 1 ?w) = Return r"
    using run_case_returns [of ?e "''sell''" "reqSell forty_zeros ''widget'' 50 ''desc'' 1" 422
      "None" ?w]
    by (simp add: SellWithWrongCSRFToken_run answering_forty_zeros)
  have a2: "session (snd (SellWithWrongCSRFToken ?e ''widget'' 50 ''desc'' 1 ?w)) =
    \<lparr>csrfToken = ''token'', targetURL = ''http://localhost:8000''\<rparr>
    \<and> AppURL (snd (SellWithWrongCSRFToken ?e ''widget'' 50 ''desc'' 1 ?w)) =
      ''http://localhost:8000''
    \<and> built (snd (SellWithWrongCSRFToken ?e ''widget'' 50 ''desc'' 1 ?w)) =
      [(''http://localhost:8000'', ''/sell'', ''application/json'', reqSell forty_zeros ''widget''
      50 ''desc'' 1)]
    \<and> length (sent (snd (SellWithWrongCSRFToken ?e ''widget'' 50 ''desc'' 1 ?w))) \<le> 1"
    using unchanged [THEN conjunct2, THEN conjunct1] r2
    by (auto simp add: fresh_world_def answering_forty_zeros)
  have a3: "session (snd (SellWithWrongPrice ?e ''widget'' 50 ''desc'' 1 ?w)) = \<lparr>csrfToken
    = ''token'', targetURL = ''http://localhost:8000''\<rparr>
    \<and> AppURL (snd (SellWithWrongPrice ?e ''widget'' 50 ''desc'' 1 ?w)) =
      ''http://localhost:8000''
    \<and> built (snd (SellWithWrongPrice ?e ''widget'' 50 ''desc'' 1 ?w)) =
      [(''http://localhost:8000'', ''/sell'', ''application/json'', reqSell (''token'') ''widget''
      50 ''desc'' 1)]
    \<and> length (sent (snd (SellWithWrongPrice ?e ''widget'' 50 ''desc'' 1 ?w))) \<le> 1"
    using unchanged [THEN conjunct2, THEN conjunct2, THEN conjunct1]
    by (simp add: fresh_world_def)
  have r4: "\<exists>r. fst (BuyWithWrongCSRFToken ?e 7 ''card'' ?w) = Return r"
    using run_case_returns [of ?e "''buy''" "reqBuy forty_zeros 7 ''card''" 422 "None" ?w]
    by (simp add: BuyWithWrongCSRFToken_run answering_forty_zeros)
  have a4: "session (snd (BuyWithWrongCSRFToken ?e 7 ''card'' ?w)) = \<lparr>csrfToken =
    ''token'', targetURL = ''http://localhost:8000''\<rparr>
    \<and> AppURL (snd (BuyWithWrongCSRFToken ?e 7 ''card'' ?w)) = ''http://localhost:8000''
    \<and> built (snd (BuyWithWrongCSRFToken ?e 7 ''card'' ?w)) = [(''http://localhost:8000'',
      ''/buy'', ''application/json'', reqBuy forty_zeros 7 ''card'')]
    \<and> length (sent (snd (BuyWithWrongCSRFToken ?e 7 ''card'' ?w))) \<le> 1"
    using unchanged [THEN conjunct2, THEN conjunct2, THEN conjunct2, THEN conjunct1] r4
    by (auto simp add: fresh_world_def answering_forty_zeros)
  have a5: "session (snd (BuyWithFailed ?e 7 ''card'' 404 (''item not found'') ?w)) =
    \<lparr>csrfToken = ''token'', targetURL = ''http://localhost:8000''\<rparr>
    \<and> AppURL (snd (BuyWithFailed ?e 7 ''card'' 404 (''item not found'') ?w)) =
      ''http://localhost:8000''
    \<and> built (snd (BuyWithFailed ?e 7 ''card'' 404 (''item not found'') ?w)) =
      [(''http://localhost:8000'', ''/buy'', ''application/json'', reqBuy (''token'') 7 ''card'')]
    \<and> length (sent (snd (BuyWithFailed ?e 7 ''card'' 404 (''item not found'') ?w))) \<le> 1"
    using unchanged [THEN conjunct2, THEN conjunct2, THEN conjunct2, THEN conjunct2, THEN
      conjunct1]
    by (simp add: fresh_world_def)
  have r6: "\<exists>r. fst (ShipWithWrongCSRFToken ?e 7 ?w) = Return r"
    using run_case_returns [of ?e "''ship''" "reqShip forty_zeros 7" 422 "None" ?w]
    by (simp add: ShipWithWrongCSRFToken_run answering_forty_zeros)
  have a6: "session (snd (ShipWithWrongCSRFToken ?e 7 ?w)) = \<lparr>csrfToken = ''token'',
    targetURL = ''http://localhost:8000''\<rparr>
    \<and> AppURL (snd (ShipWithWrongCSRFToken ?e 7 ?w)) = ''http://localhost:8000''
    \<and> built (snd (ShipWithWrongCSRFToken ?e 7 ?w)) = [(''http://localhost:8000'', ''/ship'',
      ''application/json'', reqShip forty_zeros 7)]
    \<and> length (sent (snd (ShipWithWrongCSRFToken ?e 7 ?w))) \<le> 1"
    using unchanged [THEN conjunct2, THEN conjunct2, THEN conjunct2, THEN conjunct2, THEN
      conjunct2, THEN conjunct1] r6
    by (auto simp add: fresh_world_def answering_forty_zeros)
  have r7: "\<exists>r. fst (ShipWithWrongSeller ?e 7 ?w) = Return r"
    using run_case_returns [of ?e "''ship''" "reqShip forty_zeros 7" 403 "(Some (msg_forbidden,
      msg_forbidden_missing))" ?w]
    by (simp add: ShipWithWrongSeller_run answering_forty_zeros)
  have a7: "session (snd (ShipWithWrongSeller ?e 7 ?w)) = \<lparr>csrfToken = ''token'', targetURL
    = ''http://localhost:8000''\<rparr>
    \<and> AppURL (snd (ShipWithWrongSeller ?e 7 ?w)) = ''http://localhost:8000''
    \<and> built (snd (ShipWithWrongSeller ?e 7 ?w)) = [(''http://localhost:8000'', ''/ship'',
      ''application/json'', reqShip forty_zeros 7)]
    \<and> length (sent (snd (ShipWithWrongSeller ?e 7 ?w))) \<le> 1"
    using unchanged [THEN conjunct2, THEN conjunct2, THEN conjunct2, THEN conjunct2, THEN
      conjunct2, THEN conjunct2] r7
    by (auto simp add: fresh_world_def answering_forty_zeros)
  show ?thesis
    by (rule conjI [OF a1 conjI [OF a2 conjI [OF a3 conjI [OF a4 conjI [OF a5 conjI [OF a6
      a7]]]]]])
qed

text \<open>
  C10, as stated: a JSON object without an \<open>error\<close> member decodes to the empty
  message. Not every such object does: the decoder of \<open>encoding/json\<close> also takes a
  member for the field when its key is \<open>error\<close> in another mix of upper and lower case.
  The object whose one member is \<open>ERROR\<close> has no member named \<open>error\<close>, yet its
  message is decoded: \<open>BuyWithFailed\<close> then fails with an empty \<open>expectedMsg\<close> and
  returns \<open>nil\<close> with the message itself, and \<open>SellWithWrongPrice\<close> and
  \<open>ShipWithWrongSeller\<close> return \<open>nil\<close> when the message is theirs.
\<close>

theorem error_key_case_counterexample:
  "first_value (Body (upper_key_envelope 404 ''x'')) = Inr (JObject [(''ERROR'', JString ''x'')])
   \<and> ''ERROR'' \<noteq> ''error''
   \<and> decode_resErr (Body (upper_key_envelope 404 ''x'')) = (\<lparr>Error = ''x''\<rparr>, None)
   \<and> fst (BuyWithFailed (answering zeros (Inr (upper_key_envelope 404 ''x'')))
          7 ''card'' 404 [] (fresh_world ''token'')) =
        Return (Some (NewError None (''POST /buy: '' @ [] @ msg_not_that_error)))
   \<and> fst (BuyWithFailed (answering zeros (Inr (upper_key_envelope 404 ''x'')))
          7 ''card'' 404 ''x'' (fresh_world ''token'')) = Return None
   \<and> fst (SellWithWrongPrice (answering zeros (Inr (upper_key_envelope 400 ItemPriceErrMsg)))
          ''widget'' 50 ''desc'' 1 (fresh_world ''token'')) = Return None
   \<and> fst (ShipWithWrongSeller (answering zeros (Inr (upper_key_envelope 403 msg_forbidden)))
          7 (fresh_world ''token'')) = Return None"
proof -
  let ?w = "fresh_world ''token''"
  have key: "field_matches ''ERROR''"
    by code_simp
  have decoded: "decode_resErr (Body (upper_key_envelope status m)) = (\<lparr>Error = m\<rparr>, None)"
    for status m
    by (simp add: upper_key_envelope_def decode_resErr_def key)
  have status: "StatusCode (upper_key_envelope status m) = status" for status m
    by (simp add: upper_key_envelope_def)
  have a1: "first_value (Body (upper_key_envelope 404 ''x'')) =
      Inr (JObject [(''ERROR'', JString ''x'')])"
    by (simp add: upper_key_envelope_def)
  have a2: "''ERROR'' \<noteq> ''error''"
    by simp
  have a3: "decode_resErr (Body (upper_key_envelope 404 ''x'')) = (\<lparr>Error = ''x''\<rparr>, None)"
    by (rule decoded)
  have a4: "fst (BuyWithFailed (answering zeros (Inr (upper_key_envelope 404 ''x'')))
        7 ''card'' 404 [] ?w) =
      Return (Some (NewError None (''POST /buy: '' @ [] @ msg_not_that_error)))"
    using run_case_wrong_message
      [where e = "answering zeros (Inr (upper_key_envelope 404 ''x''))" and w = ?w
        and path = "''buy''" and b = "reqBuy (csrfToken (session ?w)) 7 ''card''"
        and res = "upper_key_envelope 404 ''x''" and x = 404 and re = "\<lparr>Error = ''x''\<rparr>"
        and m = "[]" and d = "[] @ msg_not_that_error", OF answering_transport]
    by (simp add: BuyWithFailed_run decoded status)
  have a5: "fst (BuyWithFailed (answering zeros (Inr (upper_key_envelope 404 ''x'')))
        7 ''card'' 404 ''x'' ?w) = Return None"
    using run_case_passes_iff
      [of "answering zeros (Inr (upper_key_envelope 404 ''x''))" "''buy''"
        "reqBuy (csrfToken (session ?w)) 7 ''card''" 404 "''x''" "''x'' @ msg_not_that_error" ?w]
    by (simp add: BuyWithFailed_run answering_transport decoded status)
  have a6: "fst (SellWithWrongPrice (answering zeros (Inr (upper_key_envelope 400 ItemPriceErrMsg)))
        ''widget'' 50 ''desc'' 1 ?w) = Return None"
    using run_case_passes_iff
      [of "answering zeros (Inr (upper_key_envelope 400 ItemPriceErrMsg))" "''sell''"
        "reqSell (csrfToken (session ?w)) ''widget'' 50 ''desc'' 1" 400 ItemPriceErrMsg
        msg_price_range ?w]
    by (simp add: SellWithWrongPrice_run answering_transport decoded status)
  have a7: "fst (ShipWithWrongSeller (answering zeros (Inr (upper_key_envelope 403 msg_forbidden)))
        7 ?w) = Return None"
    using run_case_passes_iff
      [of "answering zeros (Inr (upper_key_envelope 403 msg_forbidden))" "''ship''"
        "reqShip forty_zeros 7" 403 msg_forbidden msg_forbidden_missing ?w]
    by (simp add: ShipWithWrongSeller_run answering_forty_zeros answering_transport decoded status)
  show ?thesis
    by (rule conjI [OF a1 conjI [OF a2 conjI [OF a3 conjI [OF a4 conjI [OF a5 conjI [OF a6 a7]]]]]])
qed

text \<open>
  C10, amended. A body that is a JSON object none of whose keys is \<open>error\<close> in any
  mix of upper and lower case, \<open>{}\<close> for one, decodes without error to the empty
  message. With the expected status, \<open>LoginWithWrongPassword\<close> and the three cases
  with a forged token then return \<open>nil\<close>; \<open>SellWithWrongPrice\<close> and
  \<open>ShipWithWrongSeller\<close> return their message failure; \<open>BuyWithFailed\<close> returns
  \<open>nil\<close> exactly when \<open>expectedMsg\<close> is empty, and its message failure otherwise.
\<close>

theorem missing_error_field_is_empty_message:
  assumes "first_value (Body res) = Inr (JObject members)"
    and "\<forall>(key, v) \<in> set members. \<not> field_matches key"
  shows "decode_resErr (Body res) = (\<lparr>Error = []\<rparr>, None)
   \<and> (transport e w (AppURL w, ''/login'', ''application/json'', reqLogin accountName
     password) = Some res \<and> StatusCode res = 401 \<longrightarrow>
        fst (LoginWithWrongPassword e accountName password w) = Return None)
   \<and> (secureRandomStr e 20 = Inr token \<and> transport e w (AppURL w, ''/sell'',
     ''application/json'', reqSell token name price description categoryID) = Some res \<and>
     StatusCode res = 422 \<longrightarrow>
        fst (SellWithWrongCSRFToken e name price description categoryID w) = Return None)
   \<and> (transport e w (AppURL w, ''/sell'', ''application/json'', reqSell (csrfToken (session
     w)) name price description categoryID) = Some res \<and> StatusCode res = 400
     \<longrightarrow>
        fst (SellWithWrongPrice e name price description categoryID w) =
          Return (Some (NewError None (''POST /sell: '' @ msg_price_range))))
   \<and> (secureRandomStr e 20 = Inr token \<and> transport e w (AppURL w, ''/buy'',
     ''application/json'', reqBuy token itemID paymentToken) = Some res \<and> StatusCode res =
     422 \<longrightarrow>
        fst (BuyWithWrongCSRFToken e itemID paymentToken w) = Return None)
   \<and> (transport e w (AppURL w, ''/buy'', ''application/json'', reqBuy (csrfToken (session w))
     itemID paymentToken) = Some res \<and> StatusCode res = expectedStatus \<longrightarrow>
        (fst (BuyWithFailed e itemID paymentToken expectedStatus expectedMsg w) = Return None
          \<longleftrightarrow> expectedMsg = [])
        \<and> (expectedMsg \<noteq> [] \<longrightarrow> fst (BuyWithFailed e itemID paymentToken
          expectedStatus expectedMsg w) =
          Return (Some (NewError None (''POST /buy: '' @ expectedMsg @ msg_not_that_error)))))
   \<and> (secureRandomStr e 20 = Inr token \<and> transport e w (AppURL w, ''/ship'',
     ''application/json'', reqShip token itemID) = Some res \<and> StatusCode res = 422
     \<longrightarrow>
        fst (ShipWithWrongCSRFToken e itemID w) = Return None)
   \<and> (secureRandomStr e 20 = Inr token \<and> transport e w (AppURL w, ''/ship'',
     ''application/json'', reqShip token itemID) = Some res \<and> StatusCode res = 403
     \<longrightarrow>
        fst (ShipWithWrongSeller e itemID w) =
          Return (Some (NewError None (''POST /ship: '' @ msg_forbidden_missing))))"
proof -
  have c0: "decode_resErr (Body res) = (\<lparr>Error = []\<rparr>, None)"
    using assms by (rule decode_no_error_field)
  have c1: "(transport e w (AppURL w, ''/login'', ''application/json'', reqLogin accountName
    password) = Some res \<and> StatusCode res = 401 \<longrightarrow>
        fst (LoginWithWrongPassword e accountName password w) = Return None)"
    using c0 run_case_answered(1) [of e w "''login''" "reqLogin accountName password" res 401
      "None"]
    by (simp add: LoginWithWrongPassword_run judge_any_message)
  have c2: "(secureRandomStr e 20 = Inr token \<and> transport e w (AppURL w, ''/sell'',
    ''application/json'', reqSell token name price description categoryID) = Some res \<and>
    StatusCode res = 422 \<longrightarrow>
        fst (SellWithWrongCSRFToken e name price description categoryID w) = Return None)"
    using c0 run_case_answered(1) [of e w "''sell''" "reqSell token name price description
      categoryID" res 422 "None"]
    by (simp add: SellWithWrongCSRFToken_run judge_any_message)
  have c3: "(transport e w (AppURL w, ''/sell'', ''application/json'', reqSell (csrfToken (session
    w)) name price description categoryID) = Some res \<and> StatusCode res = 400
    \<longrightarrow>
        fst (SellWithWrongPrice e name price description categoryID w) =
          Return (Some (NewError None (''POST /sell: '' @ msg_price_range))))"
    using c0 run_case_answered(1) [of e w "''sell''" "reqSell (csrfToken (session w)) name price
      description categoryID" res 400 "(Some (ItemPriceErrMsg, msg_price_range))"]
    by (simp add: SellWithWrongPrice_run judge_message ItemPriceErrMsg_nonempty [symmetric]
      msg_forbidden_nonempty [symmetric])
  have c4: "(secureRandomStr e 20 = Inr token \<and> transport e w (AppURL w, ''/buy'',
    ''application/json'', reqBuy token itemID paymentToken) = Some res \<and> StatusCode res = 422
    \<longrightarrow>
        fst (BuyWithWrongCSRFToken e itemID paymentToken w) = Return None)"
    using c0 run_case_answered(1) [of e w "''buy''" "reqBuy token itemID paymentToken" res 422
      "None"]
    by (simp add: BuyWithWrongCSRFToken_run judge_any_message)
  have c5: "(transport e w (AppURL w, ''/buy'', ''application/json'', reqBuy (csrfToken (session
    w)) itemID paymentToken) = Some res \<and> StatusCode res = expectedStatus \<longrightarrow>
        (fst (BuyWithFailed e itemID paymentToken expectedStatus expectedMsg w) = Return None
          \<longleftrightarrow> expectedMsg = [])
        \<and> (expectedMsg \<noteq> [] \<longrightarrow> fst (BuyWithFailed e itemID paymentToken
          expectedStatus expectedMsg w) =
          Return (Some (NewError None (''POST /buy: '' @ expectedMsg @ msg_not_that_error)))))"
    using c0 run_case_answered(1) [of e w "''buy''" "reqBuy (csrfToken (session w)) itemID
      paymentToken" res expectedStatus "(Some (expectedMsg, expectedMsg @ msg_not_that_error))"]
    by (auto simp add: BuyWithFailed_run judge_message)
  have c6: "(secureRandomStr e 20 = Inr token \<and> transport e w (AppURL w, ''/ship'',
    ''application/json'', reqShip token itemID) = Some res \<and> StatusCode res = 422
    \<longrightarrow>
        fst (ShipWithWrongCSRFToken e itemID w) = Return None)"
    using c0 run_case_answered(1) [of e w "''ship''" "reqShip token itemID" res 422 "None"]
    by (simp add: ShipWithWrongCSRFToken_run judge_any_message)
  have c7: "(secureRandomStr e 20 = Inr token \<and> transport e w (AppURL w, ''/ship'',
    ''application/json'', reqShip token itemID) = Some res \<and> StatusCode res = 403
    \<longrightarrow>
        fst (ShipWithWrongSeller e itemID w) =
          Return (Some (NewError None (''POST /ship: '' @ msg_forbidden_missing))))"
    using c0 run_case_answered(1) [of e w "''ship''" "reqShip token itemID" res 403 "(Some
      (msg_forbidden, msg_forbidden_missing))"]
    by (simp add: ShipWithWrongSeller_run judge_message ItemPriceErrMsg_nonempty [symmetric]
      msg_forbidden_nonempty [symmetric])
  show ?thesis
    by (rule conjI [OF c0 conjI [OF c1 conjI [OF c2 conjI [OF c3 conjI [OF c4 conjI [OF c5 conjI
      [OF c6 c7]]]]]]])
qed

theorem missing_error_field_is_empty_message_witness:
  "(decode_resErr (Body (empty_object 401)) = (\<lparr>Error = []\<rparr>, None))
   \<and> (fst (LoginWithWrongPassword (answering zeros (Inr (empty_object 401))) ''alice''
     ''wrong-pw'' (fresh_world ''token'')) = Return None)
   \<and> (fst (SellWithWrongCSRFToken (answering zeros (Inr (empty_object 422))) ''widget'' 50
     ''desc'' 1 (fresh_world ''token'')) = Return None)
   \<and> (fst (SellWithWrongPrice (answering zeros (Inr (empty_object 400))) ''widget'' 50
     ''desc'' 1 (fresh_world ''token'')) =
      Return (Some (NewError None (''POST /sell: '' @ msg_price_range))))
   \<and> (fst (BuyWithWrongCSRFToken (answering zeros (Inr (empty_object 422))) 7 ''card''
     (fresh_world ''token'')) = Return None)
   \<and> (fst (BuyWithFailed (answering zeros (Inr (empty_object 404))) 7 ''card'' 404
     (''item not found'') (fresh_world ''token'')) =
      Return (Some (NewError None (''POST /buy: '' @ ''item not found'' @ msg_not_that_error))))
   \<and> (fst (BuyWithFailed (answering zeros (Inr (empty_object 404))) 7 ''card'' 404 ([])
     (fresh_world ''token'')) = Return None)
   \<and> (fst (ShipWithWrongCSRFToken (answering zeros (Inr (empty_object 422))) 7 (fresh_world
     ''token'')) = Return None)
   \<and> (fst (ShipWithWrongSeller (answering zeros (Inr (empty_object 403))) 7 (fresh_world
     ''token'')) =
      Return (Some (NewError None (''POST /ship: '' @ msg_forbidden_missing))))
   \<and> (fst (LoginWithWrongPassword (answering zeros (Inr (message_object 401))) ''alice''
     ''wrong-pw'' (fresh_world ''token'')) = Return None)"
proof -
  let ?w = "fresh_world ''token''"
  have object: "first_value (Body (empty_object status)) = Inr (JObject [])" for status
    by (simp add: empty_object_def)
  have no_key: "\<forall>(key, v) \<in> set []. \<not> field_matches key"
    by simp
  have status: "StatusCode (empty_object status) = status" for status
    by (simp add: empty_object_def)
  have a0: "decode_resErr (Body (empty_object 401)) = (\<lparr>Error = []\<rparr>, None)"
    using missing_error_field_is_empty_message [where res = "empty_object 401" and members = "[]",
      OF object no_key, THEN conjunct1] .
  note t1 = missing_error_field_is_empty_message
    [where e = "answering zeros (Inr (empty_object 401))" and w = ?w and res = "empty_object 401"
      and members = "[]"
      and accountName = "''alice''" and password = "''wrong-pw''"
      and name = "''widget''" and price = 50 and description = "''desc''" and categoryID = 1
      and itemID = 7 and paymentToken = "''card''" and token = forty_zeros
      and expectedStatus = 404 and expectedMsg = "''item not found''", OF object no_key]
  have p1: "transport (answering zeros (Inr (empty_object 401))) ?w (AppURL ?w, ''/login'',
    ''application/json'', reqLogin ''alice'' ''wrong-pw'') = Some (empty_object 401) \<and>
    StatusCode (empty_object 401) = 401"
    by (simp add: answering_transport answering_forty_zeros status)
  have a1: "fst (LoginWithWrongPassword (answering zeros (Inr (empty_object 401))) ''alice''
    ''wrong-pw'' ?w) = Return None"
    using t1 [THEN conjunct2, THEN conjunct1, THEN mp, OF p1] by simp
  note t2 = missing_error_field_is_empty_message
    [where e = "answering zeros (Inr (empty_object 422))" and w = ?w and res = "empty_object 422"
      and members = "[]"
      and accountName = "''alice''" and password = "''wrong-pw''"
      and name = "''widget''" and price = 50 and description = "''desc''" and categoryID = 1
      and itemID = 7 and paymentToken = "''card''" and token = forty_zeros
      and expectedStatus = 404 and expectedMsg = "''item not found''", OF object no_key]
  have p2: "secureRandomStr (answering zeros (Inr (empty_object 422))) 20 = Inr forty_zeros \<and>
    transport (answering zeros (Inr (empty_object 422))) ?w (AppURL ?w, ''/sell'',
    ''application/json'', reqSell forty_zeros ''widget'' 50 ''desc'' 1) = Some (empty_object 422)
    \<and> StatusCode (empty_object 422) = 422"
    by (simp add: answering_transport answering_forty_zeros status)
  have a2: "fst (SellWithWrongCSRFToken (answering zeros (Inr (empty_object 422))) ''widget'' 50
    ''desc'' 1 ?w) = Return None"
    using t2 [THEN conjunct2, THEN conjunct2, THEN conjunct1, THEN mp, OF p2] by simp
  note t3 = missing_error_field_is_empty_message
    [where e = "answering zeros (Inr (empty_object 400))" and w = ?w and res = "empty_object 400"
      and members = "[]"
      and accountName = "''alice''" and password = "''wrong-pw''"
      and name = "''widget''" and price = 50 and description = "''desc''" and categoryID = 1
      and itemID = 7 and paymentToken = "''card''" and token = forty_zeros
      and expectedStatus = 404 and expectedMsg = "''item not found''", OF object no_key]
  have p3: "transport (answering zeros (Inr (empty_object 400))) ?w (AppURL ?w, ''/sell'',
    ''application/json'', reqSell (csrfToken (session ?w)) ''widget'' 50 ''desc'' 1) = Some
    (empty_object 400) \<and> StatusCode (empty_object 400) = 400"
    by (simp add: answering_transport answering_forty_zeros status)
  have a3: "fst (SellWithWrongPrice (answering zeros (Inr (empty_object 400))) ''widget'' 50
    ''desc'' 1 ?w) =
      Return (Some (NewError None (''POST /sell: '' @ msg_price_range)))"
    using t3 [THEN conjunct2, THEN conjunct2, THEN conjunct2, THEN conjunct1, THEN mp, OF p3] by
      simp
  note t4 = missing_error_field_is_empty_message
    [where e = "answering zeros (Inr (empty_object 422))" and w = ?w and res = "empty_object 422"
      and members = "[]"
      and accountName = "''alice''" and password = "''wrong-pw''"
      and name = "''widget''" and price = 50 and description = "''desc''" and categoryID = 1
      and itemID = 7 and paymentToken = "''card''" and token = forty_zeros
      and expectedStatus = 404 and expectedMsg = "''item not found''", OF object no_key]
  have p4: "secureRandomStr (answering zeros (Inr (empty_object 422))) 20 = Inr forty_zeros \<and>
    transport (answering zeros (Inr (empty_object 422))) ?w (AppURL ?w, ''/buy'',
    ''application/json'', reqBuy forty_zeros 7 ''card'') = Some (empty_object 422) \<and>
    StatusCode (empty_object 422) = 422"
    by (simp add: answering_transport answering_forty_zeros status)
  have a4: "fst (BuyWithWrongCSRFToken (answering zeros (Inr (empty_object 422))) 7 ''card'' ?w) =
    Return None"
    using t4 [THEN conjunct2, THEN conjunct2, THEN conjunct2, THEN conjunct2, THEN conjunct1, THEN
      mp, OF p4] by simp
  note t5 = missing_error_field_is_empty_message
    [where e = "answering zeros (Inr (empty_object 404))" and w = ?w and res = "empty_object 404"
      and members = "[]"
      and accountName = "''alice''" and password = "''wrong-pw''"
      and name = "''widget''" and price = 50 and description = "''desc''" and categoryID = 1
      and itemID = 7 and paymentToken = "''card''" and token = forty_zeros
      and expectedStatus = 404 and expectedMsg = "''item not found''", OF object no_key]
  have p5: "transport (answering zeros (Inr (empty_object 404))) ?w (AppURL ?w, ''/buy'',
    ''application/json'', reqBuy (csrfToken (session ?w)) 7 ''card'') = Some (empty_object 404)
    \<and> StatusCode (empty_object 404) = 404"
    by (simp add: answering_transport answering_forty_zeros status)
  have a5: "fst (BuyWithFailed (answering zeros (Inr (empty_object 404))) 7 ''card'' 404
    (''item not found'') ?w) =
      Return (Some (NewError None (''POST /buy: '' @ ''item not found'' @ msg_not_that_error)))"
    using t5 [THEN conjunct2, THEN conjunct2, THEN conjunct2, THEN conjunct2, THEN conjunct2, THEN
      conjunct1, THEN mp, OF p5] by simp
  note t5e = missing_error_field_is_empty_message
    [where e = "answering zeros (Inr (empty_object 404))" and w = ?w and res = "empty_object 404"
      and members = "[]"
      and accountName = "''alice''" and password = "''wrong-pw''"
      and name = "''widget''" and price = 50 and description = "''desc''" and categoryID = 1
      and itemID = 7 and paymentToken = "''card''" and token = forty_zeros
      and expectedStatus = 404 and expectedMsg = "[]", OF object no_key]
  have p5e: "transport (answering zeros (Inr (empty_object 404))) ?w (AppURL ?w, ''/buy'',
    ''application/json'', reqBuy (csrfToken (session ?w)) 7 ''card'') = Some (empty_object 404)
    \<and> StatusCode (empty_object 404) = 404"
    by (simp add: answering_transport answering_forty_zeros status)
  have a5e: "fst (BuyWithFailed (answering zeros (Inr (empty_object 404))) 7 ''card'' 404 ([]) ?w)
    = Return None"
    using t5e [THEN conjunct2, THEN conjunct2, THEN conjunct2, THEN conjunct2, THEN conjunct2,
      THEN conjunct1, THEN mp, OF p5e] by simp
  note t6 = missing_error_field_is_empty_message
    [where e = "answering zeros (Inr (empty_object 422))" and w = ?w and res = "empty_object 422"
      and members = "[]"
      and accountName = "''alice''" and password = "''wrong-pw''"
      and name = "''widget''" and price = 50 and description = "''desc''" and categoryID = 1
      and itemID = 7 and paymentToken = "''card''" and token = forty_zeros
      and expectedStatus = 404 and expectedMsg = "''item not found''", OF object no_key]
  have p6: "secureRandomStr (answering zeros (Inr (empty_object 422))) 20 = Inr forty_zeros \<and>
    transport (answering zeros (Inr (empty_object 422))) ?w (AppURL ?w, ''/ship'',
    ''application/json'', reqShip forty_zeros 7) = Some (empty_object 422) \<and> StatusCode
    (empty_object 422) = 422"
    by (simp add: answering_transport answering_forty_zeros status)
  have a6: "fst (ShipWithWrongCSRFToken (answering zeros (Inr (empty_object 422))) 7 ?w) = Return
    None"
    using t6 [THEN conjunct2, THEN conjunct2, THEN conjunct2, THEN conjunct2, THEN conjunct2, THEN
      conjunct2, THEN conjunct1, THEN mp, OF p6] by simp
  note t7 = missing_error_field_is_empty_message
    [where e = "answering zeros (Inr (empty_object 403))" and w = ?w and res = "empty_object 403"
      and members = "[]"
      and accountName = "''alice''" and password = "''wrong-pw''"
      and name = "''widget''" and price = 50 and description = "''desc''" and categoryID = 1
      and itemID = 7 and paymentToken = "''card''" and token = forty_zeros
      and expectedStatus = 404 and expectedMsg = "''item not found''", OF object no_key]
  have p7: "secureRandomStr (answering zeros (Inr (empty_object 403))) 20 = Inr forty_zeros \<and>
    transport (answering zeros (Inr (empty_object 403))) ?w (AppURL ?w, ''/ship'',
    ''application/json'', reqShip forty_zeros 7) = Some (empty_object 403) \<and> StatusCode
    (empty_object 403) = 403"
    by (simp add: answering_transport answering_forty_zeros status)
  have a7: "fst (ShipWithWrongSeller (answering zeros (Inr (empty_object 403))) 7 ?w) =
      Return (Some (NewError None (''POST /ship: '' @ msg_forbidden_missing)))"
    using t7 [THEN conjunct2, THEN conjunct2, THEN conjunct2, THEN conjunct2, THEN conjunct2, THEN
      conjunct2, THEN conjunct2, THEN mp, OF p7] by simp
  have object': "first_value (Body (message_object 401)) = Inr (JObject [(''message'', JString
    ''no'')])"
    by (simp add: message_object_def)
  have other_key: "\<forall>(key, v) \<in> set [(''message'', JString ''no'')]. \<not>
    field_matches key"
    by (simp add: field_matches_def)
  note t8 = missing_error_field_is_empty_message
    [where e = "answering zeros (Inr (message_object 401))" and w = ?w and res = "message_object
      401"
      and members = "[(''message'', JString ''no'')]" and accountName = "''alice''"
      and password = "''wrong-pw''", OF object' other_key]
  have p8: "transport (answering zeros (Inr (message_object 401))) ?w (AppURL ?w, ''/login'',
    ''application/json'', reqLogin ''alice'' ''wrong-pw'') = Some (message_object 401) \<and>
    StatusCode (message_object 401) = 401"
    by (simp add: answering_transport message_object_def)
  have a8: "fst (LoginWithWrongPassword (answering zeros (Inr (message_object 401))) ''alice''
    ''wrong-pw'' ?w) = Return None"
    using t8 [THEN conjunct2, THEN conjunct1, THEN mp, OF p8] by simp
  show ?thesis
    by (rule conjI [OF a0 conjI [OF a1 conjI [OF a2 conjI [OF a3 conjI [OF a4 conjI [OF a5 conjI
      [OF a5e conjI [OF a6 conjI [OF a7 a8]]]]]]]]])
qed

end
